(* ===== verification/JS_Prelude.thy ===== *)
theory JS_Prelude
  imports Complex_Main
begin

text \<open>
  Shared vocabulary of the development: the number type, the JavaScript array
  operations that \<^verbatim>\<open>src/game.js\<close> relies on (\<^verbatim>\<open>splice(i, 1)\<close>, \<^verbatim>\<open>forEach\<close> over an array
  that the callback mutates, the reverse \<^verbatim>\<open>for\<close> loop), and the list lemmas that the
  component theories use. Nothing here is specific to the game.

  \<^item> \<open>jsnum\<close>: a JavaScript number is modelled as an exact rational. Every finite
    double is a rational, and every constant of the program but \<^verbatim>\<open>0.6\<close> is a dyadic
    number; rounding of products with random factors is not modelled.
  \<^item> \<open>splice1 i xs\<close> is \<^verbatim>\<open>xs.splice(i, 1)\<close>: the element at index \<open>i\<close> is removed and
    the later ones move down; an index past the end removes nothing.
  \<^item> \<open>forEach arr f s\<close> is \<^verbatim>\<open>arr.forEach(f)\<close> where the array is the component
    \<open>arr s\<close> of a state \<open>s\<close> that the callback may change (the array included): the
    number of indices visited is fixed at the start, and an index that is no longer
    in the array when its turn comes is skipped, as ECMAScript specifies.
  \<^item> \<open>for_down body n s\<close> is \<^verbatim>\<open>for (i = n - 1; i >= 0; i--) body(i)\<close>.
  \<^item> \<open>sweep upd dead xs\<close> is the list recursion that a \<^verbatim>\<open>forEach\<close> with an update and a
    conditional \<^verbatim>\<open>splice\<close> in its callback computes; \<open>forEach_sweep\<close> proves the two equal
    for any state type that carries the array.
\<close>

section \<open>Collections of facts\<close>

named_theorems entity_defs \<open>definitions of the entity classes (constructors and update methods)\<close>
named_theorems engine_defs \<open>definitions of the engine's small operations (effects, overlays)\<close>
named_theorems frame_simps \<open>fields that an operation leaves unchanged\<close>

section \<open>Numbers\<close>

type_synonym jsnum = rat

section \<open>Removing one element: splice(i, 1)\<close>

definition splice1 :: "nat \<Rightarrow> 'a list \<Rightarrow> 'a list" where
  "splice1 i xs = take i xs @ drop (Suc i) xs"

lemma splice1_Nil [simp]: "splice1 i [] = []"
  by (simp add: splice1_def)

lemma splice1_0 [simp]: "splice1 0 (x # xs) = xs"
  by (simp add: splice1_def)

lemma splice1_Suc [simp]: "splice1 (Suc i) (x # xs) = x # splice1 i xs"
  by (simp add: splice1_def)

lemma splice1_beyond [simp]: "length xs \<le> i \<Longrightarrow> splice1 i xs = xs"
  by (simp add: splice1_def)

lemma length_splice1 [simp]:
  "length (splice1 i xs) = (if i < length xs then length xs - 1 else length xs)"
  by (auto simp: splice1_def)

lemma splice1_append_Cons [simp]: "splice1 (length xs) (xs @ y # ys) = xs @ ys"
  by (simp add: splice1_def)

lemma splice1_snoc [simp]: "splice1 (length xs) (xs @ [y]) = xs"
  by (simp add: splice1_def)

lemma nth_splice1:
  "j < length (splice1 i xs) \<Longrightarrow> splice1 i xs ! j = (if j < i then xs ! j else xs ! Suc j)"
  by (auto simp: splice1_def nth_append min_def split: if_splits)

lemma set_splice1_subset: "set (splice1 i xs) \<subseteq> set xs"
  using set_take_subset [of i xs] set_drop_subset [of "Suc i" xs] by (auto simp: splice1_def)

lemma in_set_splice1D: "x \<in> set (splice1 i xs) \<Longrightarrow> x \<in> set xs"
  by (rule subsetD [OF set_splice1_subset])

lemma take_splice1 [simp]: "j \<le> i \<Longrightarrow> take j (splice1 i xs) = take j xs"
  by (simp add: splice1_def min_def)

lemma splice1_list_update [simp]: "splice1 i (xs[i := v]) = splice1 i xs"
  by (simp add: splice1_def)

lemma sum_list_splice1:
  fixes f :: "'a \<Rightarrow> int"
  shows "i < length xs \<Longrightarrow> sum_list (map f (splice1 i xs)) = sum_list (map f xs) - f (xs ! i)"
proof (induction xs arbitrary: i)
  case Nil
  then show ?case by simp
next
  case (Cons x xs)
  then show ?case by (cases i) auto
qed

section \<open>forEach over an array that the callback changes\<close>

fun forEach_from :: "('s \<Rightarrow> 'a list) \<Rightarrow> ('a \<Rightarrow> nat \<Rightarrow> 's \<Rightarrow> 's) \<Rightarrow> nat \<Rightarrow> nat \<Rightarrow> 's \<Rightarrow> 's" where
  "forEach_from arr f k 0 s = s"
| "forEach_from arr f k (Suc n) s =
     forEach_from arr f (Suc k) n (if k < length (arr s) then f (arr s ! k) k s else s)"

definition forEach :: "('s \<Rightarrow> 'a list) \<Rightarrow> ('a \<Rightarrow> nat \<Rightarrow> 's \<Rightarrow> 's) \<Rightarrow> 's \<Rightarrow> 's" where
  "forEach arr f s = forEach_from arr f 0 (length (arr s)) s"

text \<open>A property that every call of the callback keeps is kept by the whole loop.\<close>

lemma forEach_from_invariant:
  assumes "P s" and "\<And>x k t. P t \<Longrightarrow> k < length (arr t) \<Longrightarrow> x = arr t ! k \<Longrightarrow> P (f x k t)"
  shows "P (forEach_from arr f k n s)"
  using assms(1)
proof (induction n arbitrary: k s)
  case 0
  then show ?case by simp
next
  case (Suc n)
  then show ?case by (simp add: assms(2))
qed

lemma forEach_invariant:
  assumes "P s" and "\<And>x k t. P t \<Longrightarrow> k < length (arr t) \<Longrightarrow> x = arr t ! k \<Longrightarrow> P (f x k t)"
  shows "P (forEach arr f s)"
  unfolding forEach_def using assms by (rule forEach_from_invariant)

text \<open>Once the index has passed the end of the array, nothing more is visited,
  provided the callback never makes the array longer.\<close>

lemma forEach_from_beyond:
  assumes "length (arr s) \<le> k"
  shows "forEach_from arr f k n s = s"
  using assms by (induction n arbitrary: k) auto

text \<open>A callback that leaves the part of the array before its index alone leaves it
  alone for the rest of the loop.\<close>

lemma forEach_from_take:
  assumes "\<And>x k t. k < length (get t) \<Longrightarrow> take k (get (f x k t)) = take k (get t)"
  shows "take k (get (forEach_from get f k n s)) = take k (get s)"
proof (induction n arbitrary: k s)
  case 0
  then show ?case by simp
next
  case (Suc n)
  let ?t = "if k < length (get s) then f (get s ! k) k s else s"
  have "take k (get (forEach_from get f (Suc k) n ?t)) =
        take k (take (Suc k) (get (forEach_from get f (Suc k) n ?t)))"
    by (simp add: min_def)
  also have "\<dots> = take k (take (Suc k) (get ?t))" by (simp only: Suc.IH)
  also have "\<dots> = take k (get s)" by (simp add: min_def assms)
  finally show ?case by simp
qed

lemma forEach_Nil [simp]: "arr s = [] \<Longrightarrow> forEach arr f s = s"
  by (simp add: forEach_def)

section \<open>Update and remove inside forEach\<close>

text \<open>The loops of the source that update every element and remove the dead ones have
  the shape \<^verbatim>\<open>xs.forEach((x, i) => { x.update(); if (dead(x)) xs.splice(i, 1) })\<close>.
  \<open>sweep upd dead xs\<close> is the array that such a loop leaves: after a removal the
  element that moves into the freed slot is passed over without an update.\<close>

fun sweep :: "('a \<Rightarrow> 'a) \<Rightarrow> ('a \<Rightarrow> bool) \<Rightarrow> 'a list \<Rightarrow> 'a list" where
  "sweep upd dead [] = []"
| "sweep upd dead [x] = (if dead (upd x) then [] else [upd x])"
| "sweep upd dead (x # y # ys) =
     (if dead (upd x) then y # sweep upd dead ys else upd x # sweep upd dead (y # ys))"

text \<open>What the loop is meant to leave: every element updated, the dead ones gone.\<close>

definition update_and_filter :: "('a \<Rightarrow> 'a) \<Rightarrow> ('a \<Rightarrow> bool) \<Rightarrow> 'a list \<Rightarrow> 'a list" where
  "update_and_filter upd dead xs = filter (\<lambda>x. \<not> dead x) (map upd xs)"

lemma sweep_Cons:
  "sweep upd dead (x # xs) =
     (if dead (upd x) then take (Suc 0) xs @ sweep upd dead (drop (Suc 0) xs)
      else upd x # sweep upd dead xs)"
  by (cases xs) simp_all

lemma length_sweep_le: "length (sweep upd dead xs) \<le> length xs"
  by (induction upd dead xs rule: sweep.induct) auto

lemma sweep_none_dead:
  "\<forall>x \<in> set xs. \<not> dead (upd x) \<Longrightarrow> sweep upd dead xs = map upd xs"
  by (induction upd dead xs rule: sweep.induct) auto

lemma sweep_eq_update_and_filter:
  "\<forall>x \<in> set xs. \<not> dead (upd x) \<Longrightarrow> sweep upd dead xs = update_and_filter upd dead xs"
  by (simp add: sweep_none_dead update_and_filter_def)

lemma sweep_step_dead:
  assumes "k < length xs" "dead (upd (xs ! k))"
  shows "take (Suc k) (splice1 k xs) @ sweep upd dead (drop (Suc k) (splice1 k xs)) =
         take k xs @ sweep upd dead (drop k xs)"
proof -
  have "drop k xs = xs ! k # drop (Suc k) xs"
    using assms(1) by (simp add: Cons_nth_drop_Suc)
  then have "sweep upd dead (drop k xs) =
      take (Suc 0) (drop (Suc k) xs) @ sweep upd dead (drop (Suc 0) (drop (Suc k) xs))"
    using assms(2) by (simp only: sweep_Cons if_True)
  then show ?thesis using assms(1) by (simp add: splice1_def)
qed

lemma sweep_step_alive:
  assumes "k < length xs" "\<not> dead (upd (xs ! k))"
  shows "take (Suc k) (xs[k := upd (xs ! k)]) @ sweep upd dead (drop (Suc k) (xs[k := upd (xs ! k)])) =
         take k xs @ sweep upd dead (drop k xs)"
proof -
  have "drop k xs = xs ! k # drop (Suc k) xs"
    using assms(1) by (simp add: Cons_nth_drop_Suc)
  then have "sweep upd dead (drop k xs) = upd (xs ! k) # sweep upd dead (drop (Suc k) xs)"
    using assms(2) by (simp only: sweep_Cons if_False)
  then show ?thesis using assms(1) by (simp add: take_Suc_conv_app_nth)
qed

lemma set_drop_Suc_splice1: "set (drop (Suc k) (splice1 k xs)) \<subseteq> set (drop (Suc k) xs)"
proof (cases "k < length xs")
  case True
  then have "drop (Suc k) (splice1 k xs) = drop (Suc (Suc k)) xs"
    by (simp add: splice1_def)
  then show ?thesis
    using set_drop_subset_set_drop [of "Suc k" "Suc (Suc k)" xs] by simp
next
  case False
  then show ?thesis by simp
qed

text \<open>The equivalence, for any state \<open>'s\<close> that holds the array as a component read by
  \<open>get\<close> and written by \<open>put\<close>. The callback has to behave as the loop body above on
  the elements that satisfy \<open>ok\<close>, in the states that satisfy \<open>I\<close>; writing the array
  keeps \<open>I\<close>. The elements from index \<open>k\<close> on are the ones not yet visited.\<close>

lemma forEach_from_sweep:
  assumes get_put: "\<And>v s. get (put v s) = v"
    and put_put: "\<And>u v s. put u (put v s) = put u s"
    and put_get: "\<And>s. put (get s) s = s"
    and I_put: "\<And>v s. I s \<Longrightarrow> I (put v s)"
    and f: "\<And>k s. I s \<Longrightarrow> k < length (get s) \<Longrightarrow> ok (get s ! k) \<Longrightarrow>
              f (get s ! k) k s =
                put (if dead (upd (get s ! k)) then splice1 k (get s)
                     else (get s)[k := upd (get s ! k)]) s"
  shows "I s \<Longrightarrow> \<forall>x \<in> set (drop k (get s)). ok x \<Longrightarrow> length (get s) \<le> k + n \<Longrightarrow>
     forEach_from get f k n s = put (take k (get s) @ sweep upd dead (drop k (get s))) s"
proof (induction n arbitrary: k s)
  case 0
  then show ?case by (simp add: put_get)
next
  case (Suc n)
  show ?case
  proof (cases "k < length (get s)")
    case False
    then have "forEach_from get f k (Suc n) s = s"
      by (simp add: forEach_from_beyond)
    with False show ?thesis by (simp add: put_get)
  next
    case True
    then have klt: "k < length (get s)" .
    let ?x = "get s ! k"
    let ?ys = "if dead (upd ?x) then splice1 k (get s) else (get s)[k := upd ?x]"
    from True have "drop k (get s) = ?x # drop (Suc k) (get s)"
      by (simp add: Cons_nth_drop_Suc)
    with Suc.prems(2) have okx: "ok ?x" and okr: "\<forall>y \<in> set (drop (Suc k) (get s)). ok y"
      by auto
    have t: "f ?x k s = put ?ys s"
      using Suc.prems(1) True okx by (rule f)
    have "I (put ?ys s)" using Suc.prems(1) by (rule I_put)
    moreover have "\<forall>y \<in> set (drop (Suc k) (get (put ?ys s))). ok y"
      using okr set_drop_Suc_splice1 [of k "get s"] by (auto simp: get_put)
    moreover have "length (get (put ?ys s)) \<le> Suc k + n"
      using Suc.prems(3) by (auto simp: get_put)
    ultimately have "forEach_from get f (Suc k) n (put ?ys s) =
        put (take (Suc k) ?ys @ sweep upd dead (drop (Suc k) ?ys)) s"
      using Suc.IH [of "put ?ys s" "Suc k"] by (simp only: get_put put_put)
    moreover have "take (Suc k) ?ys @ sweep upd dead (drop (Suc k) ?ys) =
        take k (get s) @ sweep upd dead (drop k (get s))"
    proof (cases "dead (upd ?x)")
      case True
      from sweep_step_dead [of k "get s" dead upd, OF klt True] show ?thesis using True by (simp only: if_True)
    next
      case False
      from sweep_step_alive [of k "get s" dead upd, OF klt False] show ?thesis using False by (simp only: if_False)
    qed
    ultimately show ?thesis using klt by (simp add: t)
  qed
qed

lemma forEach_sweep:
  assumes "\<And>v s. get (put v s) = v" "\<And>u v s. put u (put v s) = put u s" "\<And>s. put (get s) s = s"
    and "\<And>v s. I s \<Longrightarrow> I (put v s)"
    and "\<And>k s. I s \<Longrightarrow> k < length (get s) \<Longrightarrow> ok (get s ! k) \<Longrightarrow>
              f (get s ! k) k s =
                put (if dead (upd (get s ! k)) then splice1 k (get s)
                     else (get s)[k := upd (get s ! k)]) s"
    and "I s" and "\<forall>x \<in> set (get s). ok x"
  shows "forEach get f s = put (sweep upd dead (get s)) s"
  unfolding forEach_def
  using forEach_from_sweep [where get = get and put = put and I = I and ok = ok and f = f
      and dead = dead and upd = upd and k = 0 and n = "length (get s)" and s = s] assms
  by simp

section \<open>The reverse index loop\<close>

fun for_down :: "(nat \<Rightarrow> 's \<Rightarrow> 's) \<Rightarrow> nat \<Rightarrow> 's \<Rightarrow> 's" where
  "for_down body 0 s = s"
| "for_down body (Suc i) s = for_down body i (body i s)"

lemma for_down_invariant:
  assumes "P n s" and "\<And>i t. i < n \<Longrightarrow> P (Suc i) t \<Longrightarrow> P i (body i t)"
  shows "P 0 (for_down body n s)"
  using assms
proof (induction n arbitrary: s)
  case 0
  then show ?case by simp
next
  case (Suc n)
  have "P n (body n s)" using Suc.prems by simp
  moreover have "\<And>i t. i < n \<Longrightarrow> P (Suc i) t \<Longrightarrow> P i (body i t)"
    using Suc.prems(2) by simp
  ultimately show ?case using Suc.IH by simp
qed

lemma for_down_invariant_const:
  assumes "P s" and "\<And>i t. i < n \<Longrightarrow> P t \<Longrightarrow> P (body i t)"
  shows "P (for_down body n s)"
  using for_down_invariant [where P = "\<lambda>_. P"] assms by blast

section \<open>The last index that satisfies a test\<close>

text \<open>\<^verbatim>\<open>for (i = n - 1; i >= 0; i--) if (p(xs[i])) { ...; break }\<close>: the index at which
  the loop breaks, if it does.\<close>

fun find_last_index :: "('a \<Rightarrow> bool) \<Rightarrow> 'a list \<Rightarrow> nat \<Rightarrow> nat option" where
  "find_last_index p xs 0 = None"
| "find_last_index p xs (Suc i) =
     (if i < length xs \<and> p (xs ! i) then Some i else find_last_index p xs i)"

lemma find_last_index_Some:
  "find_last_index p xs n = Some i \<Longrightarrow> n \<le> length xs \<Longrightarrow>
     i < n \<and> p (xs ! i) \<and> (\<forall>j. i < j \<and> j < n \<longrightarrow> \<not> p (xs ! j))"
proof (induction n)
  case 0
  then show ?case by simp
next
  case (Suc n)
  show ?case
  proof (cases "p (xs ! n)")
    case True
    with Suc.prems show ?thesis by auto
  next
    case False
    with Suc.prems have "find_last_index p xs n = Some i" by simp
    with Suc.IH Suc.prems(2) have "i < n \<and> p (xs ! i) \<and> (\<forall>j. i < j \<and> j < n \<longrightarrow> \<not> p (xs ! j))"
      by simp
    with False show ?thesis by (auto simp: less_Suc_eq)
  qed
qed

lemma find_last_index_None:
  "find_last_index p xs n = None \<Longrightarrow> n \<le> length xs \<Longrightarrow> (\<forall>j < n. \<not> p (xs ! j))"
  by (induction n) (auto simp: less_Suc_eq split: if_splits)

lemma find_last_index_lt: "find_last_index p xs n = Some i \<Longrightarrow> i < n \<and> i < length xs"
  by (induction n) (auto split: if_splits)

end
