(* ===== verification/Entities.thy ===== *)
theory Entities
  imports JS_Prelude
begin

text \<open>
  The entity classes of \<^verbatim>\<open>src/game.js\<close> (\<^verbatim>\<open>Player\<close>, \<^verbatim>\<open>Enemy\<close>, \<^verbatim>\<open>PlayerBullet\<close>,
  \<^verbatim>\<open>EnemyBullet\<close>, \<^verbatim>\<open>Particle\<close>) as records, their constructors and \<^verbatim>\<open>update\<close> methods
  as functions from the old object to the new one, and the collision test
  \<^verbatim>\<open>GameEngine.checkCollision\<close>.

  The classes share fields, so the records form one scheme: a \<open>point\<close> has \<open>pos_x\<close>
  and \<open>pos_y\<close> (the fields \<^verbatim>\<open>x\<close> and \<^verbatim>\<open>y\<close>), \<open>colored\<close> adds \<open>color\<close>, \<open>box\<close> adds \<open>width\<close> and
  \<open>height\<close>, \<open>mover\<close> adds \<open>speed\<close>. \<^verbatim>\<open>Player\<close>, \<^verbatim>\<open>PlayerBullet\<close> and \<^verbatim>\<open>EnemyBullet\<close> have exactly
  the fields of \<open>mover\<close>; \<open>Enemy\<close> is a box with a \<open>row\<close>; \<open>Particle\<close> is a coloured point
  with a velocity, a life and a size. \<open>checkCollision\<close> reads only the four fields of a
  box and is stated over the scheme, as the source applies it to a bullet and an
  enemy or to a bullet and the player. The \<^verbatim>\<open>draw\<close> methods are in the theory
  \<open>Display\<close>; the default colour arguments of the constructors are not modelled,
  since every call in the source passes the colour.

  The lemmas give the effect of each \<^verbatim>\<open>update\<close> on every field, the clamping of the
  player to the canvas and to its bottom band, and the meaning of the collision test:
  it is symmetric, it fails for boxes that only touch, and for boxes of positive size
  it holds exactly when the open rectangles share a point.
\<close>

section \<open>Records\<close>

record point =
  pos_x :: jsnum
  pos_y :: jsnum

record colored = point +
  color :: string

record box = colored +
  width :: jsnum
  height :: jsnum

record mover = box +
  speed :: jsnum

type_synonym Player = mover
type_synonym PlayerBullet = mover
type_synonym EnemyBullet = mover

record Enemy = box +
  row :: nat

record Particle = colored +
  vx :: jsnum
  vy :: jsnum
  life :: int
  maxLife :: int
  psize :: jsnum

section \<open>Player\<close>

definition Player_constructor :: "jsnum \<Rightarrow> jsnum \<Rightarrow> string \<Rightarrow> Player" where
  "Player_constructor x0 y0 c =
     \<lparr>pos_x = x0, pos_y = y0, color = c, width = 40, height = 30, speed = 5\<rparr>"

text \<open>\<open>keys\<close> is the table \<^verbatim>\<open>this.keys\<close> of the engine: a key code that was never pressed
  is \<^verbatim>\<open>undefined\<close> there, which the tests read as false. The four tests run in the
  order of the source: \<open>x1\<close>, \<open>x2\<close> are \<^verbatim>\<open>this.x\<close> after the first and the second test,
  \<open>y1\<close>, \<open>y2\<close> are \<^verbatim>\<open>this.y\<close> after the third and the fourth; then both coordinates are
  clamped.\<close>

definition Player_update :: "(string \<Rightarrow> bool) \<Rightarrow> jsnum \<Rightarrow> jsnum \<Rightarrow> Player \<Rightarrow> Player" where
  "Player_update keys canvasWidth canvasHeight p =
     (let x1 = (if keys ''ArrowLeft'' \<or> keys ''KeyA'' then pos_x p - speed p else pos_x p);
          x2 = (if keys ''ArrowRight'' \<or> keys ''KeyD'' then x1 + speed p else x1);
          y1 = (if keys ''ArrowUp'' \<or> keys ''KeyW'' then pos_y p - speed p else pos_y p);
          y2 = (if keys ''ArrowDown'' \<or> keys ''KeyS'' then y1 + speed p else y1);
          bottomLimit = canvasHeight * (6 / 10)
      in p\<lparr>pos_x := max 0 (min (canvasWidth - width p) x2),
           pos_y := max bottomLimit (min (canvasHeight - height p) y2)\<rparr>)"

section \<open>Enemy\<close>

definition Enemy_constructor :: "jsnum \<Rightarrow> jsnum \<Rightarrow> nat \<Rightarrow> string \<Rightarrow> Enemy" where
  "Enemy_constructor x0 y0 r c =
     \<lparr>pos_x = x0, pos_y = y0, color = c, width = 40, height = 30, row = r\<rparr>"

definition Enemy_update :: "jsnum \<Rightarrow> jsnum \<Rightarrow> jsnum \<Rightarrow> Enemy \<Rightarrow> Enemy" where
  "Enemy_update deltaTime spd direction e = e\<lparr>pos_x := pos_x e + spd * direction\<rparr>"

section \<open>Bullets\<close>

definition PlayerBullet_constructor :: "jsnum \<Rightarrow> jsnum \<Rightarrow> string \<Rightarrow> PlayerBullet" where
  "PlayerBullet_constructor x0 y0 c =
     \<lparr>pos_x = x0, pos_y = y0, color = c, width = 4, height = 10, speed = 8\<rparr>"

definition PlayerBullet_update :: "PlayerBullet \<Rightarrow> PlayerBullet" where
  "PlayerBullet_update b = b\<lparr>pos_y := pos_y b - speed b\<rparr>"

definition EnemyBullet_constructor :: "jsnum \<Rightarrow> jsnum \<Rightarrow> string \<Rightarrow> EnemyBullet" where
  "EnemyBullet_constructor x0 y0 c =
     \<lparr>pos_x = x0, pos_y = y0, color = c, width = 4, height = 10, speed = 4\<rparr>"

definition EnemyBullet_update :: "EnemyBullet \<Rightarrow> EnemyBullet" where
  "EnemyBullet_update b = b\<lparr>pos_y := pos_y b + speed b\<rparr>"

section \<open>Particle\<close>

text \<open>The constructor calls \<^verbatim>\<open>Math.random()\<close> three times, for \<^verbatim>\<open>vx\<close>, \<^verbatim>\<open>vy\<close> and \<^verbatim>\<open>size\<close> in
  this order; the three results are the arguments \<open>r1\<close>, \<open>r2\<close>, \<open>r3\<close>.\<close>

definition Particle_constructor ::
    "jsnum \<Rightarrow> jsnum \<Rightarrow> string \<Rightarrow> jsnum \<Rightarrow> jsnum \<Rightarrow> jsnum \<Rightarrow> Particle" where
  "Particle_constructor x0 y0 c r1 r2 r3 =
     \<lparr>pos_x = x0, pos_y = y0, color = c,
      vx = (r1 - 1 / 2) * 4, vy = (r2 - 1 / 2) * 4, life = 60, maxLife = 60, psize = r3 * 3 + 1\<rparr>"

definition Particle_update :: "jsnum \<Rightarrow> Particle \<Rightarrow> Particle" where
  "Particle_update deltaTime p =
     p\<lparr>pos_x := pos_x p + vx p, pos_y := pos_y p + vy p, life := life p - 1\<rparr>"

section \<open>Collision\<close>

definition checkCollision :: "'a box_scheme \<Rightarrow> 'b box_scheme \<Rightarrow> bool" where
  "checkCollision obj1 obj2 \<longleftrightarrow>
     pos_x obj1 < pos_x obj2 + width obj2 \<and>
     pos_x obj1 + width obj1 > pos_x obj2 \<and>
     pos_y obj1 < pos_y obj2 + height obj2 \<and>
     pos_y obj1 + height obj1 > pos_y obj2"

text \<open>What the test is meant to decide: the open rectangle that an object covers.\<close>

definition interior :: "'a box_scheme \<Rightarrow> (jsnum \<times> jsnum) set" where
  "interior b = {(px, py). pos_x b < px \<and> px < pos_x b + width b \<and>
                           pos_y b < py \<and> py < pos_y b + height b}"

lemmas [entity_defs] =
  Player_constructor_def Player_update_def Enemy_constructor_def Enemy_update_def
  PlayerBullet_constructor_def PlayerBullet_update_def EnemyBullet_constructor_def
  EnemyBullet_update_def Particle_constructor_def Particle_update_def

section \<open>Effect of the update methods\<close>

lemma Player_update_frame [simp]:
  "width (Player_update keys cw ch p) = width p"
  "height (Player_update keys cw ch p) = height p"
  "speed (Player_update keys cw ch p) = speed p"
  "color (Player_update keys cw ch p) = color p"
  by (simp_all add: Player_update_def Let_def)

lemma Player_update_lower:
  "0 \<le> pos_x (Player_update keys cw ch p)"
  "ch * (6 / 10) \<le> pos_y (Player_update keys cw ch p)"
  by (simp_all add: Player_update_def Let_def)

lemma Player_update_upper:
  "width p \<le> cw \<Longrightarrow> pos_x (Player_update keys cw ch p) \<le> cw - width p"
  "ch * (6 / 10) \<le> ch - height p \<Longrightarrow> pos_y (Player_update keys cw ch p) \<le> ch - height p"
  by (simp_all add: Player_update_def Let_def)

text \<open>Claim C6. After \<^verbatim>\<open>Player.update\<close> the player lies inside the canvas horizontally
  and inside the bottom band (from 60% of the canvas height down to the bottom edge)
  vertically, whatever keys are held and wherever the player was before, provided the
  canvas is at least as wide as the player and the band at least as high.\<close>

theorem Player_update_clamped:
  assumes "width p \<le> cw" and "ch * (6 / 10) \<le> ch - height p"
  shows "0 \<le> pos_x (Player_update keys cw ch p) \<and>
         pos_x (Player_update keys cw ch p) \<le> cw - width p \<and>
         ch * (6 / 10) \<le> pos_y (Player_update keys cw ch p) \<and>
         pos_y (Player_update keys cw ch p) \<le> ch - height p"
  by (intro conjI Player_update_lower Player_update_upper assms)

theorem Player_update_clamped_witness:
  "width (Player_constructor 795 590 ''#4CAF50'') \<le> 800 \<and>
   600 * (6 / 10) \<le> 600 - height (Player_constructor 795 590 ''#4CAF50'') \<and>
   pos_x (Player_update ((\<lambda>_. False)(''ArrowRight'' := True, ''KeyS'' := True)) 800 600
            (Player_constructor 795 590 ''#4CAF50'')) = 760 \<and>
   pos_y (Player_update ((\<lambda>_. False)(''ArrowRight'' := True, ''KeyS'' := True)) 800 600
            (Player_constructor 795 590 ''#4CAF50'')) = 570"
  using Player_update_clamped [where p = "Player_constructor 795 590 ''#4CAF50''"
      and cw = 800 and ch = 600
      and keys = "(\<lambda>_. False)(''ArrowRight'' := True, ''KeyS'' := True)"]
  by (simp add: Player_update_def Player_constructor_def)

text \<open>With no key held, a player that is inside its band does not move.\<close>

lemma Player_update_idle:
  assumes "\<And>k. \<not> keys k"
    and "0 \<le> pos_x p" "pos_x p \<le> cw - width p"
    and "ch * (6 / 10) \<le> pos_y p" "pos_y p \<le> ch - height p"
  shows "Player_update keys cw ch p = p"
  using assms by (simp add: Player_update_def Let_def max_def min_def)

text \<open>Opposite keys cancel: the source subtracts and then adds the same speed.\<close>

lemma Player_update_left_right:
  assumes "keys ''ArrowLeft''" "keys ''ArrowRight''"
  shows "pos_x (Player_update keys cw ch p) = max 0 (min (cw - width p) (pos_x p))"
  using assms by (simp add: Player_update_def Let_def)

lemma Enemy_update_simps [simp]:
  "pos_x (Enemy_update dt spd dir e) = pos_x e + spd * dir"
  "pos_y (Enemy_update dt spd dir e) = pos_y e"
  "width (Enemy_update dt spd dir e) = width e"
  "height (Enemy_update dt spd dir e) = height e"
  "row (Enemy_update dt spd dir e) = row e"
  "color (Enemy_update dt spd dir e) = color e"
  by (simp_all add: Enemy_update_def)

lemma PlayerBullet_update_simps [simp]:
  "pos_x (PlayerBullet_update b) = pos_x b"
  "pos_y (PlayerBullet_update b) = pos_y b - speed b"
  "width (PlayerBullet_update b) = width b"
  "height (PlayerBullet_update b) = height b"
  "speed (PlayerBullet_update b) = speed b"
  by (simp_all add: PlayerBullet_update_def)

lemma EnemyBullet_update_simps [simp]:
  "pos_x (EnemyBullet_update b) = pos_x b"
  "pos_y (EnemyBullet_update b) = pos_y b + speed b"
  "width (EnemyBullet_update b) = width b"
  "height (EnemyBullet_update b) = height b"
  "speed (EnemyBullet_update b) = speed b"
  by (simp_all add: EnemyBullet_update_def)

lemma Particle_update_simps [simp]:
  "pos_x (Particle_update dt p) = pos_x p + vx p"
  "pos_y (Particle_update dt p) = pos_y p + vy p"
  "life (Particle_update dt p) = life p - 1"
  "maxLife (Particle_update dt p) = maxLife p"
  "vx (Particle_update dt p) = vx p"
  "vy (Particle_update dt p) = vy p"
  by (simp_all add: Particle_update_def)

text \<open>A particle's velocity and size lie in the ranges that the factors of the
  constructor give, when the random numbers are in \<open>[0, 1)\<close>.\<close>

lemma Particle_constructor_ranges:
  assumes "0 \<le> r1" "r1 < 1" "0 \<le> r2" "r2 < 1" "0 \<le> r3" "r3 < 1"
  shows "- 2 \<le> vx (Particle_constructor x0 y0 c r1 r2 r3) \<and> vx (Particle_constructor x0 y0 c r1 r2 r3) < 2"
    and "- 2 \<le> vy (Particle_constructor x0 y0 c r1 r2 r3) \<and> vy (Particle_constructor x0 y0 c r1 r2 r3) < 2"
    and "1 \<le> psize (Particle_constructor x0 y0 c r1 r2 r3) \<and> psize (Particle_constructor x0 y0 c r1 r2 r3) < 4"
  using assms by (simp_all add: Particle_constructor_def)

section \<open>Meaning of the collision test\<close>

lemma checkCollision_sym: "checkCollision a b \<longleftrightarrow> checkCollision b a"
  by (auto simp: checkCollision_def)

lemma checkCollision_touching_x:
  "pos_x a + width a = pos_x b \<Longrightarrow> \<not> checkCollision a b"
  by (simp add: checkCollision_def)

lemma checkCollision_touching_y:
  "pos_y a + height a = pos_y b \<Longrightarrow> \<not> checkCollision a b"
  by (simp add: checkCollision_def)

lemma interior_overlap_imp_collision:
  assumes "pt \<in> interior a" "pt \<in> interior b"
  shows "checkCollision a b"
  using assms by (cases pt) (auto simp: interior_def checkCollision_def)

text \<open>The midpoint of the overlap of two open intervals lies in both.\<close>

lemma open_intervals_meet:
  fixes a b c d :: jsnum
  assumes "a < b" "c < d" "a < d" "c < b"
  shows "\<exists>m. a < m \<and> m < b \<and> c < m \<and> m < d"
proof -
  let ?m = "(max a c + min b d) / 2"
  from assms have "a < ?m \<and> ?m < b \<and> c < ?m \<and> ?m < d"
    by (auto simp: max_def min_def field_simps)
  then show ?thesis by blast
qed

lemma collision_imp_interior_overlap:
  assumes "checkCollision a b" and "0 < width a" "0 < height a" "0 < width b" "0 < height b"
  shows "\<exists>pt. pt \<in> interior a \<and> pt \<in> interior b"
proof -
  from assms obtain mx where mx: "pos_x a < mx" "mx < pos_x a + width a"
      "pos_x b < mx" "mx < pos_x b + width b"
    using open_intervals_meet [of "pos_x a" "pos_x a + width a" "pos_x b" "pos_x b + width b"]
    by (auto simp: checkCollision_def)
  from assms obtain my where my: "pos_y a < my" "my < pos_y a + height a"
      "pos_y b < my" "my < pos_y b + height b"
    using open_intervals_meet [of "pos_y a" "pos_y a + height a" "pos_y b" "pos_y b + height b"]
    by (auto simp: checkCollision_def)
  from mx my have "(mx, my) \<in> interior a \<and> (mx, my) \<in> interior b"
    by (simp add: interior_def)
  then show ?thesis by blast
qed

text \<open>Claim C16. For boxes of positive size \<^verbatim>\<open>checkCollision\<close> is the overlap of the open
  rectangles: it holds exactly when some point lies strictly inside both boxes, so boxes
  that only touch do not collide.\<close>

theorem checkCollision_iff_overlap:
  assumes "0 < width a" "0 < height a" "0 < width b" "0 < height b"
  shows "checkCollision a b \<longleftrightarrow> (\<exists>pt. pt \<in> interior a \<and> pt \<in> interior b)"
  using collision_imp_interior_overlap [OF _ assms] interior_overlap_imp_collision [of _ a b]
  by blast

theorem checkCollision_iff_overlap_witness:
  "0 < width (Player_constructor 0 0 []) \<and> 0 < height (Player_constructor 0 0 []) \<and>
   0 < width (EnemyBullet_constructor 10 10 []) \<and> 0 < height (EnemyBullet_constructor 10 10 []) \<and>
   (checkCollision (Player_constructor 0 0 []) (EnemyBullet_constructor 10 10 []) \<longleftrightarrow>
      (\<exists>pt. pt \<in> interior (Player_constructor 0 0 []) \<and>
            pt \<in> interior (EnemyBullet_constructor 10 10 [])))"
  using checkCollision_iff_overlap [of "Player_constructor 0 0 []" "EnemyBullet_constructor 10 10 []"]
  by (simp add: Player_constructor_def EnemyBullet_constructor_def)

end
