(* ===== verification/JS_Numbers.thy ===== *)
theory JS_Numbers
  imports JS_Prelude
begin

text \<open>
  The arithmetic and the string conversions of JavaScript that the display code of the
  engine uses: \<^verbatim>\<open>Math.floor\<close> and \<^verbatim>\<open>Math.ceil\<close> are \<open>floor\<close> and \<open>ceiling\<close> of the library;
  \<open>js_rem\<close> is the remainder operator \<^verbatim>\<open>%\<close>, whose result has the sign of the dividend;
  \<open>Number_toString\<close> is the decimal representation of an integer and \<open>padStart\<close> the
  string method of that name. \<open>nat_of_string\<close> reads a decimal representation back and
  serves to state what the printed strings mean.
\<close>

section \<open>Remainder\<close>

definition js_trunc :: "jsnum \<Rightarrow> int" where
  "js_trunc x = (if 0 \<le> x then \<lfloor>x\<rfloor> else \<lceil>x\<rceil>)"

definition js_rem :: "jsnum \<Rightarrow> jsnum \<Rightarrow> jsnum" where
  "js_rem a b = a - b * of_int (js_trunc (a / b))"

section \<open>Printing and reading integers\<close>

definition digit_table :: "(char \<times> nat) list" where
  "digit_table =
     [(CHR ''0'', 0), (CHR ''1'', 1), (CHR ''2'', 2), (CHR ''3'', 3), (CHR ''4'', 4),
      (CHR ''5'', 5), (CHR ''6'', 6), (CHR ''7'', 7), (CHR ''8'', 8), (CHR ''9'', 9)]"

definition digit_char :: "nat \<Rightarrow> char" where
  "digit_char d = fst (digit_table ! d)"

definition digit_val :: "char \<Rightarrow> nat option" where
  "digit_val c = map_of digit_table c"

function string_of_nat :: "nat \<Rightarrow> string" where
  "string_of_nat n =
     (if n < 10 then [digit_char n] else string_of_nat (n div 10) @ [digit_char (n mod 10)])"
  by pat_completeness auto

termination string_of_nat
  by (relation "measure (\<lambda>n. n)") auto

declare string_of_nat.simps [simp del]

definition Number_toString :: "int \<Rightarrow> string" where
  "Number_toString i = (if i < 0 then ''-'' @ string_of_nat (nat (- i)) else string_of_nat (nat i))"

definition padStart :: "nat \<Rightarrow> char \<Rightarrow> string \<Rightarrow> string" where
  "padStart n c s = replicate (n - length s) c @ s"

fun nat_of_digits :: "nat \<Rightarrow> string \<Rightarrow> nat option" where
  "nat_of_digits acc [] = Some acc"
| "nat_of_digits acc (c # cs) =
     (case digit_val c of None \<Rightarrow> None | Some d \<Rightarrow> nat_of_digits (10 * acc + d) cs)"

definition nat_of_string :: "string \<Rightarrow> nat option" where
  "nat_of_string s = (if s = [] then None else nat_of_digits 0 s)"

section \<open>Properties of the remainder\<close>

lemma js_rem_nonneg:
  assumes "0 \<le> a" "0 < b"
  shows "js_rem a b = a - b * of_int \<lfloor>a / b\<rfloor>" "0 \<le> js_rem a b" "js_rem a b < b"
proof -
  from assms have q: "0 \<le> a / b" by simp
  then show eq: "js_rem a b = a - b * of_int \<lfloor>a / b\<rfloor>" by (simp add: js_rem_def js_trunc_def)
  have a: "b * (a / b) = a" using assms(2) by simp
  have "b * of_int \<lfloor>a / b\<rfloor> \<le> b * (a / b)"
    using assms(2) by (intro mult_left_mono) simp_all
  then have "b * of_int \<lfloor>a / b\<rfloor> \<le> a" unfolding a .
  then show "0 \<le> js_rem a b" unfolding eq by linarith
  have "a / b < of_int \<lfloor>a / b\<rfloor> + 1" by linarith
  then have "b * (a / b) < b * (of_int \<lfloor>a / b\<rfloor> + 1)"
    using assms(2) by (intro mult_strict_left_mono) simp_all
  then have "a < b * of_int \<lfloor>a / b\<rfloor> + b" unfolding a by (simp add: algebra_simps)
  then show "js_rem a b < b" unfolding eq by linarith
qed

lemma js_rem_of_nat:
  assumes "0 < n"
  shows "js_rem (of_nat m) (of_nat n) = of_nat (m mod n)"
proof -
  have e: "js_rem (of_nat m) (of_nat n) =
      of_nat m - of_nat n * of_int \<lfloor>(of_nat m :: rat) / of_nat n\<rfloor>"
    using assms by (intro js_rem_nonneg(1)) simp_all
  have f: "\<lfloor>(of_nat m :: rat) / of_nat n\<rfloor> = int (m div n)"
    by (simp add: floor_divide_of_nat_eq)
  have "(of_nat m :: rat) = of_nat n * of_nat (m div n) + of_nat (m mod n)"
    by (simp only: of_nat_mult [symmetric] of_nat_add [symmetric] mult_div_mod_eq)
  then show ?thesis unfolding e f of_int_of_nat_eq by linarith
qed

text \<open>Dividing by a positive integer commutes with \<open>floor\<close>.\<close>

lemma floor_divide_of_int:
  fixes x :: rat
  assumes "0 < k"
  shows "\<lfloor>x / of_int k\<rfloor> = \<lfloor>x\<rfloor> div k"
proof (rule floor_unique)
  let ?q = "\<lfloor>x\<rfloor> div k" and ?r = "\<lfloor>x\<rfloor> mod k"
  have k: "(0 :: rat) < of_int k" using assms by simp
  have fl: "of_int \<lfloor>x\<rfloor> = (of_int k * of_int ?q + of_int ?r :: rat)"
    by (simp only: of_int_mult [symmetric] of_int_add [symmetric] mult_div_mod_eq)
  have r: "0 \<le> ?r" "?r < k" using assms by simp_all
  have "of_int k * of_int ?q \<le> (of_int \<lfloor>x\<rfloor> :: rat)" using r(1) unfolding fl by simp
  also have "\<dots> \<le> x" by simp
  finally show "of_int ?q \<le> x / of_int k" using k by (simp add: pos_le_divide_eq mult.commute)
  have "x < of_int \<lfloor>x\<rfloor> + 1" by linarith
  also have "\<dots> \<le> of_int k * of_int ?q + of_int k"
  proof -
    from r(2) have "?r + 1 \<le> k" by simp
    then have "(of_int (?r + 1) :: rat) \<le> of_int k" by (simp only: of_int_le_iff)
    then show ?thesis unfolding fl by simp
  qed
  finally show "x / of_int k < of_int ?q + 1"
    using k by (simp add: pos_divide_less_eq algebra_simps)
qed

section \<open>Printing and reading are inverse\<close>

lemma digit_char_simps [simp]:
  "digit_char 0 = CHR ''0''" "digit_char 1 = CHR ''1''" "digit_char 2 = CHR ''2''"
  "digit_char 3 = CHR ''3''" "digit_char 4 = CHR ''4''" "digit_char 5 = CHR ''5''"
  "digit_char 6 = CHR ''6''" "digit_char 7 = CHR ''7''" "digit_char 8 = CHR ''8''"
  "digit_char 9 = CHR ''9''" "digit_char (Suc 0) = CHR ''1''"
  by (simp_all add: digit_char_def digit_table_def)

lemma digit_val_digit_char [simp]: "d < 10 \<Longrightarrow> digit_val (digit_char d) = Some d"
  by (auto simp: numeral_eq_Suc less_Suc_eq digit_val_def digit_char_def digit_table_def)

lemma digit_val_colon [simp]: "digit_val CHR '':'' = None" "digit_val CHR ''-'' = None"
  by (simp_all add: digit_val_def digit_table_def)

lemma string_of_nat_numeral [simp]:
  "string_of_nat (numeral k) =
     (if (numeral k :: nat) < 10 then [digit_char (numeral k)]
      else string_of_nat (numeral k div 10) @ [digit_char (numeral k mod 10)])"
  "string_of_nat 0 = [digit_char 0]"
  "string_of_nat (Suc 0) = [digit_char 1]"
  by (simp_all add: string_of_nat.simps [of "numeral k"] string_of_nat.simps [of 0]
      string_of_nat.simps [of "Suc 0"])

lemma nat_of_digits_append:
  "nat_of_digits acc (xs @ ys) =
     (case nat_of_digits acc xs of None \<Rightarrow> None | Some a \<Rightarrow> nat_of_digits a ys)"
  by (induction xs arbitrary: acc) (simp_all split: option.splits)

lemma nat_of_digits_string_of_nat: "nat_of_digits 0 (string_of_nat n) = Some n"
proof (induction n rule: string_of_nat.induct)
  case (1 n)
  show ?case
  proof (cases "n < 10")
    case True
    then show ?thesis by (simp add: string_of_nat.simps [of n])
  next
    case False
    with 1 show ?thesis
      by (simp add: string_of_nat.simps [of n] nat_of_digits_append)
  qed
qed

lemma string_of_nat_nonempty [simp]: "string_of_nat n \<noteq> []"
  by (subst string_of_nat.simps) simp

lemma nat_of_string_string_of_nat [simp]: "nat_of_string (string_of_nat n) = Some n"
  by (simp add: nat_of_string_def nat_of_digits_string_of_nat)

lemma length_string_of_nat_small: "n < 10 \<Longrightarrow> length (string_of_nat n) = 1"
  by (simp add: string_of_nat.simps [of n])

lemma length_string_of_nat_two: "10 \<le> n \<Longrightarrow> n < 100 \<Longrightarrow> length (string_of_nat n) = 2"
  by (simp add: string_of_nat.simps [of n] length_string_of_nat_small)

lemma digit_val_string_of_nat: "c \<in> set (string_of_nat n) \<Longrightarrow> digit_val c \<noteq> None"
proof (induction n rule: string_of_nat.induct)
  case (1 n)
  then show ?case
    by (cases "n < 10") (auto simp: string_of_nat.simps [of n])
qed

end
