(* ===== verification/Display.thy ===== *)
theory Display
  imports Entities JS_Numbers
begin

text \<open>
  What the engine shows. The calls on the 2D context of the canvas are values of
  \<open>draw_command\<close>, and a \<^verbatim>\<open>draw\<close> method of a class is the list of the calls that it
  makes, in their order. Coordinates that the code computes with \<^verbatim>\<open>%\<close> can be \<^verbatim>\<open>NaN\<close>;
  \<open>FillRect\<close> takes them as options, \<open>None\<close> for \<^verbatim>\<open>NaN\<close>. \<open>timeDisplay\<close> is the text of the
  timer that \<^verbatim>\<open>updateUI\<close> computes, and \<open>clock_seconds\<close> reads such a text back.
  The lemmas show which label an enemy carries, that the timer text of a time that is
  not negative reads back as the full seconds of that time, and what it is for a
  negative time.
\<close>

section \<open>Canvas commands\<close>

datatype draw_command =
    DrawImage jsnum jsnum jsnum jsnum
  | FillStyle string
  | FillRect "jsnum option" "jsnum option" jsnum jsnum
  | BeginPath
  | MoveTo jsnum jsnum
  | LineTo jsnum jsnum
  | ClosePath
  | Fill
  | Font string
  | TextAlign string
  | TextBaseline string
  | FillText string jsnum jsnum
  | GlobalAlpha jsnum

section \<open>The draw methods of the classes\<close>

definition Player_draw :: "Player \<Rightarrow> draw_command list" where
  "Player_draw p =
     [FillStyle (color p), BeginPath,
      MoveTo (pos_x p + width p / 2) (pos_y p),
      LineTo (pos_x p) (pos_y p + height p),
      LineTo (pos_x p + width p) (pos_y p + height p),
      ClosePath, Fill,
      FillStyle ''#FFF'',
      FillRect (Some (pos_x p + 15)) (Some (pos_y p + 5)) 10 10]"

text \<open>The label of an enemy is \<^verbatim>\<open>scoreValues[this.row]\<close>, printed as \<^verbatim>\<open>undefined\<close> outside the
  table.\<close>

definition scoreValues :: "int list" where
  "scoreValues = [20, 15, 10, 5]"

definition score_label :: "nat \<Rightarrow> string" where
  "score_label r =
     (if r < length scoreValues then Number_toString (scoreValues ! r) else ''undefined'')"

definition Enemy_draw :: "Enemy \<Rightarrow> draw_command list" where
  "Enemy_draw e =
     [FillStyle (color e),
      FillRect (Some (pos_x e)) (Some (pos_y e)) (width e) (height e),
      FillStyle ''#FFF'',
      FillRect (Some (pos_x e + 5)) (Some (pos_y e + 5)) 30 20,
      FillStyle (color e),
      FillRect (Some (pos_x e + 10)) (Some (pos_y e + 10)) 20 10,
      FillStyle ''#ffffffff'', Font ''12px David'', TextAlign ''center'', TextBaseline ''middle'',
      FillText (score_label (row e)) (pos_x e + width e / 2) (pos_y e + height e / 2)]"

definition PlayerBullet_draw :: "PlayerBullet \<Rightarrow> draw_command list" where
  "PlayerBullet_draw b =
     [FillStyle (color b), FillRect (Some (pos_x b)) (Some (pos_y b)) (width b) (height b)]"

definition EnemyBullet_draw :: "EnemyBullet \<Rightarrow> draw_command list" where
  "EnemyBullet_draw b =
     [FillStyle (color b), FillRect (Some (pos_x b)) (Some (pos_y b)) (width b) (height b)]"

definition Particle_draw :: "Particle \<Rightarrow> draw_command list" where
  "Particle_draw p =
     (let alpha = of_int (life p) / of_int (maxLife p)
      in [GlobalAlpha alpha, FillStyle (color p),
          FillRect (Some (pos_x p)) (Some (pos_y p)) (psize p) (psize p),
          GlobalAlpha 1])"

section \<open>The name of the shoot key\<close>

text \<open>\<^verbatim>\<open>String.prototype.replace\<close> with a string pattern replaces the first occurrence.\<close>

fun replace_first :: "string \<Rightarrow> string \<Rightarrow> string \<Rightarrow> string" where
  "replace_first pat rep [] = (if pat = [] then rep else [])"
| "replace_first pat rep (c # cs) =
     (if take (length pat) (c # cs) = pat then rep @ drop (length pat) (c # cs)
      else c # replace_first pat rep cs)"

definition keyName :: "string \<Rightarrow> string" where
  "keyName shootKey =
     (if shootKey = ''Space'' then ''SPACE'' else replace_first ''Key'' [] shootKey)"

section \<open>The text of the timer\<close>

definition timeDisplay :: "jsnum \<Rightarrow> string" where
  "timeDisplay timeRemaining =
     (let minutes = \<lfloor>timeRemaining / 60000\<rfloor>;
          seconds = \<lfloor>js_rem timeRemaining 60000 / 1000\<rfloor>
      in Number_toString minutes @ '':'' @ padStart 2 (CHR ''0'') (Number_toString seconds))"

text \<open>Reading a text \<open>M:SS\<close> as a number of seconds.\<close>

definition clock_seconds :: "string \<Rightarrow> nat option" where
  "clock_seconds s =
     (let m = takeWhile (\<lambda>c. c \<noteq> CHR '':'') s;
          r = drop (Suc (length m)) s
      in if length m < length s \<and> length r = 2
         then (case (nat_of_string m, nat_of_string r) of
                 (Some a, Some b) \<Rightarrow> if b < 60 then Some (60 * a + b) else None
               | _ \<Rightarrow> None)
         else None)"

section \<open>The label of an enemy\<close>

lemma score_label_simps [simp]:
  "score_label 0 = ''20''" "score_label (Suc 0) = ''15''" "score_label 1 = ''15''"
  "score_label 2 = ''10''" "score_label 3 = ''5''"
  by (simp_all add: score_label_def scoreValues_def Number_toString_def)

lemma score_label_undefined: "4 \<le> r \<Longrightarrow> score_label r = ''undefined''"
  by (simp add: score_label_def scoreValues_def)

section \<open>The name of the shoot key\<close>

lemma replace_first_absent:
  "\<forall>n. take (length pat) (drop n s) \<noteq> pat \<Longrightarrow> replace_first pat rep s = s"
proof (induction s)
  case Nil
  from Nil [rule_format, of 0] show ?case by simp
next
  case (Cons c cs)
  from Cons.prems [rule_format, of 0] have "take (length pat) (c # cs) \<noteq> pat" by simp
  moreover have "\<forall>n. take (length pat) (drop n cs) \<noteq> pat"
    using Cons.prems [rule_format, of "Suc _"] by simp
  ultimately show ?case using Cons.IH by simp
qed

lemma replace_first_prefix: "replace_first pat rep (pat @ s) = rep @ s"
proof (cases "pat @ s")
  case Nil
  then show ?thesis by simp
next
  case (Cons a l)
  have "take (length pat) (pat @ s) = pat" "drop (length pat) (pat @ s) = s" by simp_all
  then show ?thesis unfolding Cons by simp
qed

lemma keyName_simps [simp]:
  "keyName ''Space'' = ''SPACE''" "keyName (''Key'' @ s) = s"
  using replace_first_prefix [of "''Key''" "[]" s] by (simp_all add: keyName_def)

section \<open>What the timer text means\<close>

text \<open>For a time that is not negative the text is the minutes, a colon and the seconds
  of the minute on two digits.\<close>

lemma timeDisplay_nonneg:
  assumes "0 \<le> t"
  shows "timeDisplay t = string_of_nat (nat \<lfloor>t / 1000\<rfloor> div 60) @ '':'' @
           padStart 2 (CHR ''0'') (string_of_nat (nat \<lfloor>t / 1000\<rfloor> mod 60))"
proof -
  let ?n = "\<lfloor>t / 1000\<rfloor>"
  have n: "0 \<le> ?n" using assms by simp
  have m: "\<lfloor>t / 60000\<rfloor> = ?n div 60"
    using floor_divide_of_int [of 60 "t / 1000"] by simp
  have "js_rem t 60000 = t - 60000 * of_int (?n div 60)"
    using assms by (simp add: js_rem_nonneg(1) m)
  then have "js_rem t 60000 / 1000 = t / 1000 - of_int (60 * (?n div 60))" by simp
  then have "\<lfloor>js_rem t 60000 / 1000\<rfloor> = ?n - 60 * (?n div 60)"
    by (simp only: floor_diff_of_int)
  then have s: "\<lfloor>js_rem t 60000 / 1000\<rfloor> = ?n mod 60"
    by (simp add: minus_mult_div_eq_mod)
  from n have "\<not> ?n div 60 < 0" "\<not> ?n mod 60 < 0"
    by (simp_all add: not_less pos_imp_zdiv_nonneg_iff)
  then show ?thesis
    using n by (simp add: timeDisplay_def Let_def m s Number_toString_def nat_div_distrib
        nat_mod_distrib)
qed

lemma timeDisplay_0 [simp]: "timeDisplay 0 = ''0:00''"
  by (simp add: timeDisplay_nonneg padStart_def)

text \<open>In the second before zero the text is \<^verbatim>\<open>-1:-1\<close>.\<close>

lemma timeDisplay_just_negative:
  assumes "- 1000 \<le> t" "t < 0"
  shows "timeDisplay t = ''-1:-1''"
proof -
  have m: "\<lfloor>t / 60000\<rfloor> = - 1" using assms by (simp add: floor_eq_iff)
  have "\<lceil>t / 60000\<rceil> = 0" using assms by (simp add: ceiling_eq_iff)
  then have "js_rem t 60000 = t" using assms by (simp add: js_rem_def js_trunc_def)
  moreover have "\<lfloor>t / 1000\<rfloor> = - 1" using assms by (simp add: floor_eq_iff)
  ultimately show ?thesis
    by (simp add: timeDisplay_def Let_def m Number_toString_def padStart_def)
qed

section \<open>Reading the timer text back\<close>

lemma nat_of_digits_pad:
  "nat_of_digits 0 (padStart n (CHR ''0'') s) = nat_of_digits 0 s"
proof -
  have "nat_of_digits 0 (replicate k (CHR ''0'') @ s) = nat_of_digits 0 s" for k
    by (induction k) (simp_all add: digit_val_def digit_table_def)
  then show ?thesis by (simp add: padStart_def)
qed

lemma length_padStart: "length (padStart n c s) = max n (length s)"
  by (simp add: padStart_def)

lemma padStart_nonempty [simp]: "s \<noteq> [] \<Longrightarrow> padStart n c s \<noteq> []"
  by (simp add: padStart_def)

lemma length_two_digits: "b < 60 \<Longrightarrow> length (padStart 2 c (string_of_nat b)) = 2"
  by (cases "b < 10")
    (simp_all add: length_padStart length_string_of_nat_small length_string_of_nat_two)

lemma takeWhile_string_of_nat:
  "takeWhile (\<lambda>c. c \<noteq> CHR '':'') (string_of_nat a @ CHR '':'' # r) = string_of_nat a"
proof -
  have "c \<noteq> CHR '':''" if "c \<in> set (string_of_nat a)" for c
    using digit_val_string_of_nat [OF that] by auto
  then show ?thesis by (simp add: takeWhile_append2)
qed

lemma clock_seconds_print:
  assumes "b < 60"
  shows "clock_seconds (string_of_nat a @ '':'' @ padStart 2 (CHR ''0'') (string_of_nat b)) =
           Some (60 * a + b)"
  using assms
  by (simp add: clock_seconds_def Let_def takeWhile_string_of_nat length_two_digits
      nat_of_string_def nat_of_digits_pad nat_of_digits_string_of_nat)

lemma clock_seconds_timeDisplay:
  assumes "0 \<le> t"
  shows "clock_seconds (timeDisplay t) = Some (nat \<lfloor>t / 1000\<rfloor>)"
  using clock_seconds_print [of "nat \<lfloor>t / 1000\<rfloor> mod 60" "nat \<lfloor>t / 1000\<rfloor> div 60"]
  by (simp add: timeDisplay_nonneg [OF assms])

text \<open>Claim C21. For a remaining time that is not negative, the text that \<^verbatim>\<open>updateUI\<close> shows
  reads back as the number of full seconds of that time: the minutes before the colon
  and the seconds of the minute, on exactly two digits, after it.\<close>

theorem timeDisplay_reads_back:
  assumes "0 \<le> t"
  shows "clock_seconds (timeDisplay t) = Some (nat \<lfloor>t / 1000\<rfloor>) \<and>
         length (timeDisplay t) = length (string_of_nat (nat \<lfloor>t / 60000\<rfloor>)) + 3"
proof -
  have "nat \<lfloor>t / 1000\<rfloor> div 60 = nat \<lfloor>t / 60000\<rfloor>"
    using assms floor_divide_of_int [of 60 "t / 1000"] by (simp add: nat_div_distrib)
  then show ?thesis
    using assms clock_seconds_timeDisplay [OF assms]
    by (simp add: timeDisplay_nonneg length_two_digits)
qed

theorem timeDisplay_reads_back_witness:
  "(0 :: rat) \<le> 65000 \<and> clock_seconds (timeDisplay 65000) = Some (nat \<lfloor>65000 / 1000 :: rat\<rfloor>) \<and>
   length (timeDisplay 65000) = length (string_of_nat (nat \<lfloor>65000 / 60000 :: rat\<rfloor>)) + 3"
  using timeDisplay_reads_back [of 65000] by simp

text \<open>Claim C22. In the last second before zero and in the first second after it the timer
  shows different texts, and the text after zero is \<^verbatim>\<open>-1:-1\<close>: a game that ends by the
  timer is left with this text, because the time is never clamped at zero.\<close>

theorem timeDisplay_after_zero:
  assumes "- 1000 \<le> t" "t < 0"
  shows "timeDisplay t = ''-1:-1'' \<and> clock_seconds (timeDisplay t) = None"
  using timeDisplay_just_negative [OF assms]
  by (simp add: clock_seconds_def nat_of_string_def)

theorem timeDisplay_after_zero_witness:
  "(- 1000 :: rat) \<le> - 7 \<and> (- 7 :: rat) < 0 \<and> timeDisplay (- 7) = ''-1:-1'' \<and>
   clock_seconds (timeDisplay (- 7)) = None"
  using timeDisplay_after_zero [of "- 7"] by auto

end
