(* ===== verification/Engine.thy ===== *)
theory Engine
  imports Display "HOL-Library.Sublist"
begin

text \<open>
  The state of \<^verbatim>\<open>class GameEngine\<close> and the operations of it that the other theories
  build on: the constructor, the side-channel calls (music, sounds, overlays), the
  game-over path, \<^verbatim>\<open>initializePlayer\<close> and \<^verbatim>\<open>createExplosion\<close>.

  \<^item> \<open>GameEngine\<close> has one field per field that the constructor of the class assigns,
    under the source's name. \<^verbatim>\<open>score\<close> is an \<open>int option\<close>: \<open>None\<close> stands for \<^verbatim>\<open>NaN\<close>,
    which \<^verbatim>\<open>this.score += points\<close> produces when the row of the enemy is outside the
    score table. \<^verbatim>\<open>lives\<close> is an \<open>int\<close>, since the source decrements it without a
    lower bound. \<^verbatim>\<open>player\<close> and \<^verbatim>\<open>animationId\<close> are options, \<open>None\<close> for \<^verbatim>\<open>null\<close>.
  \<^item> Four more fields record what the engine does to its environment, which the
    class itself does not store: \<open>randomCalls\<close> counts the calls of \<^verbatim>\<open>Math.random()\<close>,
    \<open>effects\<close> lists the side-channel calls in the order they are made,
    \<open>frameRequests\<close> counts the calls of \<^verbatim>\<open>requestAnimationFrame\<close> (the handle it
    returns is the number of the call) and \<open>pendingFrames\<close> lists the handles of the
    callbacks that are scheduled and have neither run nor been cancelled.
  \<^item> \<open>world\<close> is what the engine reads from its environment during one call: the size
    of the canvas, \<^verbatim>\<open>window.appController\<close> (absent or present), the results of
    \<^verbatim>\<open>Math.random()\<close> by call number, the two clocks, and whether the background image
    has been loaded. One call of an operation sees one reading of each clock.
  \<^item> \<open>effect\<close> has one constructor per kind of call that leaves the engine; \<open>UIUpdated\<close>
    carries the score, the lives, the level, the text of the timer and whether the call
    puts the timer into its alert style, \<open>Rendered\<close> the canvas calls of one frame.
\<close>

section \<open>The environment\<close>

record gameConfig =
  shootKey :: string
  gameTime :: jsnum
  playerColor :: string
  enemyColor :: string
  playerBulletColor :: string
  enemyBulletColor :: string

record appController =
  gameConfig :: gameConfig
  isLoggedIn :: bool
  hasUpdateRecordsTable :: bool

record world =
  canvas_width :: jsnum
  canvas_height :: jsnum
  controller :: "appController option"
  Math_random :: "nat \<Rightarrow> jsnum"
  Date_now :: jsnum
  performance_now :: jsnum
  bgImg_complete :: bool

text \<open>\<^verbatim>\<open>window.appController ? window.appController.gameConfig.f : d\<close>\<close>

definition config_or :: "world \<Rightarrow> (gameConfig \<Rightarrow> 'a) \<Rightarrow> 'a \<Rightarrow> 'a" where
  "config_or w f d = (case controller w of None \<Rightarrow> d | Some c \<Rightarrow> f (gameConfig c))"

section \<open>The state\<close>

datatype game_state = Menu | Playing | Paused | GameOver

datatype effect =
    BackgroundMusicPlay
  | BackgroundMusicStop
  | PlayerHitSound
  | EnemyHitSound
  | OverlayShown string string
  | OverlayHidden
  | GameOverShown string string "int option"
  | GameFinished "int option"
  | RecordsTableUpdated
  | InstructionsUpdated string jsnum
  | UIUpdated "int option" int int string bool
  | Rendered "draw_command list"

record GameEngine =
  gameState :: game_state
  score :: "int option"
  lives :: int
  level :: int
  lastTime :: jsnum
  animationId :: "nat option"
  player :: "Player option"
  enemies :: "Enemy list"
  playerBullets :: "PlayerBullet list"
  enemyBullets :: "EnemyBullet list"
  particles :: "Particle list"
  enemyDirection :: jsnum
  enemySpeed :: jsnum
  enemyShootTimer :: jsnum
  lastEnemyShoot :: jsnum
  speedIncreaseTimer :: jsnum
  speedIncreaseCount :: nat
  maxSpeedIncreases :: nat
  gameTimeLimit :: jsnum
  gameStartTime :: jsnum
  timeRemaining :: jsnum
  keys :: "string \<Rightarrow> bool"
  randomCalls :: nat
  effects :: "effect list"
  frameRequests :: nat
  pendingFrames :: "nat list"

section \<open>Side-channel calls\<close>

definition emit :: "effect \<Rightarrow> GameEngine \<Rightarrow> GameEngine" where
  "emit e s = s\<lparr>effects := effects s @ [e]\<rparr>"

definition startBackgroundMusic :: "GameEngine \<Rightarrow> GameEngine" where
  "startBackgroundMusic s = emit BackgroundMusicPlay s"

definition stopBackgroundMusic :: "GameEngine \<Rightarrow> GameEngine" where
  "stopBackgroundMusic s = emit BackgroundMusicStop s"

definition showOverlay :: "string \<Rightarrow> string \<Rightarrow> GameEngine \<Rightarrow> GameEngine" where
  "showOverlay title message s = emit (OverlayShown title message) s"

definition hideOverlay :: "GameEngine \<Rightarrow> GameEngine" where
  "hideOverlay s = emit OverlayHidden s"

definition showMenu :: "GameEngine \<Rightarrow> GameEngine" where
  "showMenu s = showOverlay ''Space Invaders'' ''Click Start Game to begin your mission!'' s"

definition updateUI :: "GameEngine \<Rightarrow> GameEngine" where
  "updateUI s =
     emit (UIUpdated (score s) (lives s) (level s) (timeDisplay (timeRemaining s))
             (timeRemaining s < 60000)) s"

definition updateInstructions :: "world \<Rightarrow> GameEngine \<Rightarrow> GameEngine" where
  "updateInstructions w s =
     emit (InstructionsUpdated (keyName (config_or w shootKey ''Space''))
             (config_or w gameTime 5)) s"

definition init :: "GameEngine \<Rightarrow> GameEngine" where
  "init s = showMenu (updateUI s)"

section \<open>The constructor\<close>

definition GameEngine_constructor :: GameEngine where
  "GameEngine_constructor = init
     \<lparr>gameState = Menu, score = Some 0, lives = 3, level = 1, lastTime = 0, animationId = None,
      player = None, enemies = [], playerBullets = [], enemyBullets = [], particles = [],
      enemyDirection = 1, enemySpeed = 1, enemyShootTimer = 0, lastEnemyShoot = 0,
      speedIncreaseTimer = 0, speedIncreaseCount = 0, maxSpeedIncreases = 4,
      gameTimeLimit = 5 * 60 * 1000, gameStartTime = 0, timeRemaining = 0,
      keys = (\<lambda>_. False),
      randomCalls = 0, effects = [], frameRequests = 0, pendingFrames = []\<rparr>"

section \<open>Random numbers and frames\<close>

text \<open>The result of the next call of \<^verbatim>\<open>Math.random()\<close>, and the state after the call.\<close>

definition next_random :: "world \<Rightarrow> GameEngine \<Rightarrow> jsnum" where
  "next_random w s = Math_random w (randomCalls s)"

definition consume_random :: "GameEngine \<Rightarrow> GameEngine" where
  "consume_random s = s\<lparr>randomCalls := Suc (randomCalls s)\<rparr>"

text \<open>\<^verbatim>\<open>this.animationId = requestAnimationFrame(...)\<close> and
  \<^verbatim>\<open>cancelAnimationFrame(this.animationId)\<close>.\<close>

definition requestAnimationFrame :: "GameEngine \<Rightarrow> GameEngine" where
  "requestAnimationFrame s =
     (let h = Suc (frameRequests s)
      in s\<lparr>frameRequests := h, pendingFrames := pendingFrames s @ [h], animationId := Some h\<rparr>)"

definition cancelAnimationFrame :: "nat \<Rightarrow> GameEngine \<Rightarrow> GameEngine" where
  "cancelAnimationFrame h s = s\<lparr>pendingFrames := removeAll h (pendingFrames s)\<rparr>"

section \<open>Player placement and explosions\<close>

definition initializePlayer :: "world \<Rightarrow> GameEngine \<Rightarrow> GameEngine" where
  "initializePlayer w s =
     (let startX = next_random w s * (canvas_width w - 40);
          startY = canvas_height w - 60;
          c = config_or w playerColor ''#4CAF50''
      in (consume_random s)\<lparr>player := Some (Player_constructor startX startY c)\<rparr>)"

text \<open>One round of the loop of \<^verbatim>\<open>createExplosion\<close>: one particle, three random numbers.\<close>

definition push_particle :: "world \<Rightarrow> jsnum \<Rightarrow> jsnum \<Rightarrow> GameEngine \<Rightarrow> GameEngine" where
  "push_particle w x0 y0 s =
     s\<lparr>particles := particles s @
          [Particle_constructor x0 y0 ''#FF4444''
             (Math_random w (randomCalls s)) (Math_random w (randomCalls s + 1))
             (Math_random w (randomCalls s + 2))],
       randomCalls := randomCalls s + 3\<rparr>"

definition createExplosion :: "world \<Rightarrow> jsnum \<Rightarrow> jsnum \<Rightarrow> GameEngine \<Rightarrow> GameEngine" where
  "createExplosion w x0 y0 s = ((push_particle w x0 y0) ^^ 10) s"

section \<open>Game over\<close>

definition gameOverOverlay :: "world \<Rightarrow> string \<Rightarrow> string \<Rightarrow> GameEngine \<Rightarrow> GameEngine" where
  "gameOverOverlay w title message s =
     (let s1 = stopBackgroundMusic s;
          s2 = (case controller w of
                  Some c \<Rightarrow> if isLoggedIn c then emit (GameFinished (score s1)) s1 else s1
                | None \<Rightarrow> s1);
          s3 = (case controller w of
                  Some c \<Rightarrow> if hasUpdateRecordsTable c then emit RecordsTableUpdated s2 else s2
                | None \<Rightarrow> s2)
      in emit (GameOverShown title message (score s3)) s3)"

definition gameOver :: "world \<Rightarrow> GameEngine \<Rightarrow> GameEngine" where
  "gameOver w s = gameOverOverlay w ''Game Over!'' '''' (s\<lparr>gameState := GameOver\<rparr>)"

lemmas [engine_defs] =
  emit_def startBackgroundMusic_def stopBackgroundMusic_def showOverlay_def hideOverlay_def
  showMenu_def updateUI_def updateInstructions_def init_def consume_random_def
  requestAnimationFrame_def cancelAnimationFrame_def

section \<open>What the side-channel calls leave alone\<close>

text \<open>A side-channel call changes the list of effects and nothing else: the state
  without its effects is the same.\<close>

definition same_but_effects :: "GameEngine \<Rightarrow> GameEngine \<Rightarrow> bool" where
  "same_but_effects s t \<longleftrightarrow> t = s\<lparr>effects := effects t\<rparr>"

lemma same_but_effects_iff: "same_but_effects s t \<longleftrightarrow> (\<exists>es. t = s\<lparr>effects := es\<rparr>)"
  by (auto simp: same_but_effects_def)

lemma same_but_effects_refl [simp]: "same_but_effects s s"
  by (simp add: same_but_effects_def)

lemma same_but_effects_trans [trans]:
  "same_but_effects s t \<Longrightarrow> same_but_effects t u \<Longrightarrow> same_but_effects s u"
  by (auto simp: same_but_effects_iff)

lemma same_but_effects_emit [simp]: "same_but_effects s (emit e s)"
  by (simp add: same_but_effects_def emit_def)

lemma same_but_effects_emit_trans:
  "same_but_effects s t \<Longrightarrow> same_but_effects s (emit e t)"
  by (rule same_but_effects_trans [OF _ same_but_effects_emit])

text \<open>Every field of the class is the same in two such states.\<close>

lemma same_but_effects_fields:
  assumes "same_but_effects s t"
  shows "gameState t = gameState s" "score t = score s" "lives t = lives s" "level t = level s"
    "lastTime t = lastTime s" "animationId t = animationId s" "player t = player s"
    "enemies t = enemies s" "playerBullets t = playerBullets s"
    "enemyBullets t = enemyBullets s" "particles t = particles s"
    "enemyDirection t = enemyDirection s" "enemySpeed t = enemySpeed s"
    "enemyShootTimer t = enemyShootTimer s" "lastEnemyShoot t = lastEnemyShoot s"
    "speedIncreaseTimer t = speedIncreaseTimer s" "speedIncreaseCount t = speedIncreaseCount s"
    "maxSpeedIncreases t = maxSpeedIncreases s" "gameTimeLimit t = gameTimeLimit s"
    "gameStartTime t = gameStartTime s" "timeRemaining t = timeRemaining s" "keys t = keys s"
    "randomCalls t = randomCalls s" "frameRequests t = frameRequests s"
    "pendingFrames t = pendingFrames s"
  using assms by (auto simp: same_but_effects_iff)

lemma gameOverOverlay_same_but_effects: "same_but_effects s (gameOverOverlay w title message s)"
  by (auto simp: gameOverOverlay_def Let_def stopBackgroundMusic_def
      intro!: same_but_effects_emit_trans split: option.splits)

lemmas gameOverOverlay_frame [simp] = same_but_effects_fields [OF gameOverOverlay_same_but_effects]

section \<open>Explosions and player placement in closed form\<close>

lemma funpow_push_particle:
  "((push_particle w x0 y0) ^^ n) s =
     s\<lparr>particles := particles s @ map (\<lambda>i. Particle_constructor x0 y0 ''#FF4444''
          (Math_random w (randomCalls s + 3 * i)) (Math_random w (randomCalls s + 3 * i + 1))
          (Math_random w (randomCalls s + 3 * i + 2))) [0..<n],
       randomCalls := randomCalls s + 3 * n\<rparr>"
proof (induction n)
  case 0
  then show ?case by simp
next
  case (Suc n)
  then show ?case by (simp add: push_particle_def add.commute add.left_commute)
qed

lemma createExplosion_eq:
  "createExplosion w x0 y0 s =
     s\<lparr>particles := particles s @ map (\<lambda>i. Particle_constructor x0 y0 ''#FF4444''
          (Math_random w (randomCalls s + 3 * i)) (Math_random w (randomCalls s + 3 * i + 1))
          (Math_random w (randomCalls s + 3 * i + 2))) [0..<10],
       randomCalls := randomCalls s + 30\<rparr>"
  by (simp add: createExplosion_def funpow_push_particle)

lemma createExplosion_frame [simp]:
  "gameState (createExplosion w x0 y0 s) = gameState s"
  "score (createExplosion w x0 y0 s) = score s"
  "lives (createExplosion w x0 y0 s) = lives s"
  "player (createExplosion w x0 y0 s) = player s"
  "enemies (createExplosion w x0 y0 s) = enemies s"
  "playerBullets (createExplosion w x0 y0 s) = playerBullets s"
  "enemyBullets (createExplosion w x0 y0 s) = enemyBullets s"
  "effects (createExplosion w x0 y0 s) = effects s"
  "enemyDirection (createExplosion w x0 y0 s) = enemyDirection s"
  "enemySpeed (createExplosion w x0 y0 s) = enemySpeed s"
  "lastEnemyShoot (createExplosion w x0 y0 s) = lastEnemyShoot s"
  "speedIncreaseTimer (createExplosion w x0 y0 s) = speedIncreaseTimer s"
  "speedIncreaseCount (createExplosion w x0 y0 s) = speedIncreaseCount s"
  "maxSpeedIncreases (createExplosion w x0 y0 s) = maxSpeedIncreases s"
  "gameTimeLimit (createExplosion w x0 y0 s) = gameTimeLimit s"
  "gameStartTime (createExplosion w x0 y0 s) = gameStartTime s"
  "timeRemaining (createExplosion w x0 y0 s) = timeRemaining s"
  "keys (createExplosion w x0 y0 s) = keys s"
  "lastTime (createExplosion w x0 y0 s) = lastTime s"
  "animationId (createExplosion w x0 y0 s) = animationId s"
  "frameRequests (createExplosion w x0 y0 s) = frameRequests s"
  "pendingFrames (createExplosion w x0 y0 s) = pendingFrames s"
  by (simp_all add: createExplosion_eq)

lemma createExplosion_particles [simp]:
  "length (particles (createExplosion w x0 y0 s)) = length (particles s) + 10"
  "randomCalls (createExplosion w x0 y0 s) = randomCalls s + 30"
  by (simp_all add: createExplosion_eq)

lemma initializePlayer_frame [simp]:
  "gameState (initializePlayer w s) = gameState s"
  "score (initializePlayer w s) = score s"
  "lives (initializePlayer w s) = lives s"
  "level (initializePlayer w s) = level s"
  "enemyShootTimer (initializePlayer w s) = enemyShootTimer s"
  "enemies (initializePlayer w s) = enemies s"
  "playerBullets (initializePlayer w s) = playerBullets s"
  "enemyBullets (initializePlayer w s) = enemyBullets s"
  "particles (initializePlayer w s) = particles s"
  "effects (initializePlayer w s) = effects s"
  "enemyDirection (initializePlayer w s) = enemyDirection s"
  "enemySpeed (initializePlayer w s) = enemySpeed s"
  "lastEnemyShoot (initializePlayer w s) = lastEnemyShoot s"
  "speedIncreaseTimer (initializePlayer w s) = speedIncreaseTimer s"
  "speedIncreaseCount (initializePlayer w s) = speedIncreaseCount s"
  "maxSpeedIncreases (initializePlayer w s) = maxSpeedIncreases s"
  "gameTimeLimit (initializePlayer w s) = gameTimeLimit s"
  "gameStartTime (initializePlayer w s) = gameStartTime s"
  "timeRemaining (initializePlayer w s) = timeRemaining s"
  "keys (initializePlayer w s) = keys s"
  "lastTime (initializePlayer w s) = lastTime s"
  "animationId (initializePlayer w s) = animationId s"
  "frameRequests (initializePlayer w s) = frameRequests s"
  "pendingFrames (initializePlayer w s) = pendingFrames s"
  "randomCalls (initializePlayer w s) = Suc (randomCalls s)"
  by (simp_all add: initializePlayer_def Let_def consume_random_def)

lemma player_initializePlayer:
  "player (initializePlayer w s) =
     Some (Player_constructor (Math_random w (randomCalls s) * (canvas_width w - 40))
            (canvas_height w - 60) (config_or w playerColor ''#4CAF50''))"
  by (simp add: initializePlayer_def Let_def consume_random_def next_random_def)

text \<open>\<^verbatim>\<open>gameOver\<close> sets the state and is otherwise a side-channel call.\<close>

lemma gameOver_same_but_effects: "same_but_effects (s\<lparr>gameState := GameOver\<rparr>) (gameOver w s)"
  by (simp add: gameOver_def gameOverOverlay_same_but_effects)

lemma gameOver_frame [simp]:
  "gameState (gameOver w s) = GameOver"
  "score (gameOver w s) = score s"
  "lives (gameOver w s) = lives s"
  "player (gameOver w s) = player s"
  "enemies (gameOver w s) = enemies s"
  "playerBullets (gameOver w s) = playerBullets s"
  "enemyBullets (gameOver w s) = enemyBullets s"
  "particles (gameOver w s) = particles s"
  "enemyDirection (gameOver w s) = enemyDirection s"
  "enemySpeed (gameOver w s) = enemySpeed s"
  "lastEnemyShoot (gameOver w s) = lastEnemyShoot s"
  "speedIncreaseTimer (gameOver w s) = speedIncreaseTimer s"
  "speedIncreaseCount (gameOver w s) = speedIncreaseCount s"
  "maxSpeedIncreases (gameOver w s) = maxSpeedIncreases s"
  "gameTimeLimit (gameOver w s) = gameTimeLimit s"
  "gameStartTime (gameOver w s) = gameStartTime s"
  "timeRemaining (gameOver w s) = timeRemaining s"
  "keys (gameOver w s) = keys s"
  "lastTime (gameOver w s) = lastTime s"
  "animationId (gameOver w s) = animationId s"
  "frameRequests (gameOver w s) = frameRequests s"
  "pendingFrames (gameOver w s) = pendingFrames s"
  "randomCalls (gameOver w s) = randomCalls s"
  by (simp_all add: gameOver_def)

lemma emit_frame [simp]:
  "gameState (emit e s) = gameState s"
  "score (emit e s) = score s"
  "lives (emit e s) = lives s"
  "level (emit e s) = level s"
  "enemyShootTimer (emit e s) = enemyShootTimer s"
  "player (emit e s) = player s"
  "enemies (emit e s) = enemies s"
  "playerBullets (emit e s) = playerBullets s"
  "enemyBullets (emit e s) = enemyBullets s"
  "particles (emit e s) = particles s"
  "enemyDirection (emit e s) = enemyDirection s"
  "enemySpeed (emit e s) = enemySpeed s"
  "lastEnemyShoot (emit e s) = lastEnemyShoot s"
  "speedIncreaseTimer (emit e s) = speedIncreaseTimer s"
  "speedIncreaseCount (emit e s) = speedIncreaseCount s"
  "maxSpeedIncreases (emit e s) = maxSpeedIncreases s"
  "gameTimeLimit (emit e s) = gameTimeLimit s"
  "gameStartTime (emit e s) = gameStartTime s"
  "timeRemaining (emit e s) = timeRemaining s"
  "keys (emit e s) = keys s"
  "lastTime (emit e s) = lastTime s"
  "animationId (emit e s) = animationId s"
  "frameRequests (emit e s) = frameRequests s"
  "pendingFrames (emit e s) = pendingFrames s"
  "randomCalls (emit e s) = randomCalls s"
  "effects (emit e s) = effects s @ [e]"
  by (simp_all add: emit_def)

text \<open>The state that the constructor builds.\<close>

lemma GameEngine_constructor_simps [simp]:
  "gameState GameEngine_constructor = Menu"
  "score GameEngine_constructor = Some 0"
  "lives GameEngine_constructor = 3"
  "level GameEngine_constructor = 1"
  "player GameEngine_constructor = None"
  "enemies GameEngine_constructor = []"
  "playerBullets GameEngine_constructor = []"
  "enemyBullets GameEngine_constructor = []"
  "particles GameEngine_constructor = []"
  "enemyDirection GameEngine_constructor = 1"
  "enemySpeed GameEngine_constructor = 1"
  "speedIncreaseTimer GameEngine_constructor = 0"
  "speedIncreaseCount GameEngine_constructor = 0"
  "maxSpeedIncreases GameEngine_constructor = 4"
  "gameTimeLimit GameEngine_constructor = 300000"
  "animationId GameEngine_constructor = None"
  "pendingFrames GameEngine_constructor = []"
  "frameRequests GameEngine_constructor = 0"
  "randomCalls GameEngine_constructor = 0"
  "keys GameEngine_constructor = (\<lambda>_. False)"
  "lastTime GameEngine_constructor = 0"
  "lastEnemyShoot GameEngine_constructor = 0"
  "enemyShootTimer GameEngine_constructor = 0"
  "gameStartTime GameEngine_constructor = 0"
  "timeRemaining GameEngine_constructor = 0"
  "effects GameEngine_constructor =
     [UIUpdated (Some 0) 3 1 ''0:00'' True,
      OverlayShown ''Space Invaders'' ''Click Start Game to begin your mission!'']"
  by (simp_all add: GameEngine_constructor_def engine_defs)

text \<open>The effects of the game-over path, by the presence and the login state of the
  external controller.\<close>

definition gameOver_effects :: "world \<Rightarrow> string \<Rightarrow> string \<Rightarrow> int option \<Rightarrow> effect list" where
  "gameOver_effects w title message sc =
     [BackgroundMusicStop] @
     (case controller w of Some c \<Rightarrow> if isLoggedIn c then [GameFinished sc] else [] | None \<Rightarrow> []) @
     (case controller w of Some c \<Rightarrow> if hasUpdateRecordsTable c then [RecordsTableUpdated] else []
      | None \<Rightarrow> []) @
     [GameOverShown title message sc]"

lemma effects_gameOverOverlay:
  "effects (gameOverOverlay w title message s) =
     effects s @ gameOver_effects w title message (score s)"
  by (simp add: gameOverOverlay_def gameOver_effects_def Let_def stopBackgroundMusic_def
      split: option.splits)

lemma effects_gameOver:
  "effects (gameOver w s) = effects s @ gameOver_effects w ''Game Over!'' [] (score s)"
  by (simp add: gameOver_def effects_gameOverOverlay)

section \<open>The log of effects only grows\<close>

text \<open>No operation of the engine takes back a side-channel call: the effects of the state
  before are a prefix of the effects of the state after.\<close>

definition logs_more :: "GameEngine \<Rightarrow> GameEngine \<Rightarrow> bool" where
  "logs_more s t \<longleftrightarrow> prefix (effects s) (effects t)"

lemma logs_more_refl [simp]: "logs_more s s"
  by (simp add: logs_more_def)

lemma logs_more_trans [trans]: "logs_more s t \<Longrightarrow> logs_more t u \<Longrightarrow> logs_more s u"
  unfolding logs_more_def by (rule prefix_order.trans)

lemma logs_more_same: "effects t = effects s \<Longrightarrow> logs_more s t"
  by (simp add: logs_more_def)

lemma logs_more_append: "effects t = effects s @ es \<Longrightarrow> logs_more s t"
  by (simp add: logs_more_def)

lemma logs_more_then_same: "logs_more s t \<Longrightarrow> effects u = effects t \<Longrightarrow> logs_more s u"
  by (simp add: logs_more_def)

lemma logs_more_then_emit: "logs_more s t \<Longrightarrow> logs_more s (emit e t)"
  by (rule logs_more_trans [OF _ logs_more_append [of _ _ "[e]"]]) simp_all

lemma logs_more_emit [simp]: "logs_more s (emit e s)"
  by (simp add: logs_more_then_emit)

lemma logs_more_gameOver [simp]:
  "logs_more s (gameOverOverlay w title message s)" "logs_more s (gameOver w s)"
  by (rule logs_more_append, simp add: effects_gameOverOverlay,
      rule logs_more_append, simp add: effects_gameOver)

text \<open>Whether the timer has been put into its alert style: \<^verbatim>\<open>updateUI\<close> sets the colour
  and the weight of the element when less than a minute is left, and nothing resets
  them.\<close>

definition sets_alert :: "effect \<Rightarrow> bool" where
  "sets_alert e = (case e of UIUpdated _ _ _ _ a \<Rightarrow> a | _ \<Rightarrow> False)"

definition timer_alert :: "GameEngine \<Rightarrow> bool" where
  "timer_alert s \<longleftrightarrow> list_ex sets_alert (effects s)"

lemma timer_alert_logs_more: "logs_more s t \<Longrightarrow> timer_alert s \<Longrightarrow> timer_alert t"
  by (auto simp: logs_more_def timer_alert_def prefix_def)

lemma timer_alert_constructor [simp]: "timer_alert GameEngine_constructor"
  by (simp add: timer_alert_def sets_alert_def)

section \<open>The fields that playing does not write\<close>

text \<open>Moving, shooting, colliding and exploding write the play fields of the engine
  (state, score, lives, player, the four arrays), the effects and the count of random
  numbers. \<open>timing\<close> collects the other fields, so that "this operation leaves them
  alone" is one equation.\<close>

definition timing :: "GameEngine \<Rightarrow>
    (int \<times> jsnum \<times> nat option \<times> jsnum \<times> jsnum \<times> jsnum \<times> jsnum \<times> jsnum) \<times>
    (nat \<times> nat \<times> jsnum \<times> jsnum \<times> jsnum \<times> (string \<Rightarrow> bool) \<times> nat \<times> nat list)" where
  "timing s =
     ((level s, lastTime s, animationId s, enemyDirection s, enemySpeed s, enemyShootTimer s,
       lastEnemyShoot s, speedIncreaseTimer s),
      (speedIncreaseCount s, maxSpeedIncreases s, gameTimeLimit s, gameStartTime s,
       timeRemaining s, keys s, frameRequests s, pendingFrames s))"

lemma timing_fields:
  assumes "timing t = timing s"
  shows "level t = level s" "lastTime t = lastTime s" "animationId t = animationId s"
    "enemyDirection t = enemyDirection s" "enemySpeed t = enemySpeed s"
    "enemyShootTimer t = enemyShootTimer s" "lastEnemyShoot t = lastEnemyShoot s"
    "speedIncreaseTimer t = speedIncreaseTimer s" "speedIncreaseCount t = speedIncreaseCount s"
    "maxSpeedIncreases t = maxSpeedIncreases s" "gameTimeLimit t = gameTimeLimit s"
    "gameStartTime t = gameStartTime s" "timeRemaining t = timeRemaining s" "keys t = keys s"
    "frameRequests t = frameRequests s" "pendingFrames t = pendingFrames s"
  using assms by (simp_all add: timing_def)

lemma timing_updates [simp]:
  "timing (t\<lparr>gameState := g\<rparr>) = timing t"
  "timing (t\<lparr>score := sc\<rparr>) = timing t"
  "timing (t\<lparr>lives := l\<rparr>) = timing t"
  "timing (t\<lparr>player := p\<rparr>) = timing t"
  "timing (t\<lparr>enemies := es\<rparr>) = timing t"
  "timing (t\<lparr>playerBullets := pbs\<rparr>) = timing t"
  "timing (t\<lparr>enemyBullets := ebs\<rparr>) = timing t"
  "timing (t\<lparr>particles := ps\<rparr>) = timing t"
  "timing (t\<lparr>randomCalls := rc\<rparr>) = timing t"
  "timing (t\<lparr>effects := fx\<rparr>) = timing t"
  by (simp_all add: timing_def)

lemma timing_ops [simp]:
  "timing (emit e t) = timing t"
  "timing (createExplosion w x0 y0 t) = timing t"
  "timing (initializePlayer w t) = timing t"
  "timing (gameOverOverlay w title message t) = timing t"
  "timing (gameOver w t) = timing t"
  by (simp_all add: emit_def createExplosion_eq initializePlayer_def Let_def consume_random_def
      gameOver_def, simp_all add: timing_def)

end
