(* ===== verification/Formation.thy ===== *)
theory Formation
  imports Engine
begin

text \<open>
  The enemy formation: \<^verbatim>\<open>GameEngine.initializeEnemies\<close>, which builds the grid of four
  rows and five columns, and \<^verbatim>\<open>GameEngine.updateEnemies\<close>, which moves every enemy by
  the shared speed and direction and, when any of them has reached a side of the
  canvas, reverses the direction and drops the whole formation once.

  The two nested loops of \<^verbatim>\<open>initializeEnemies\<close> push the enemies row by row, so the
  array is the concatenation of the rows. Neither \<^verbatim>\<open>forEach\<close> of \<^verbatim>\<open>updateEnemies\<close> adds
  or removes an element, so each is a \<open>map\<close> over the array; the flag
  \<^verbatim>\<open>shouldChangeDirection\<close> is the disjunction of the wall test over the moved enemies.

  The lemmas give the size and the layout of the grid, that \<open>updateEnemies\<close> keeps the
  number, the rows and the sizes of the enemies, moves each by \<open>speed \<times> direction\<close>,
  and that a wall hit reverses the direction once and adds exactly 20 to every \<open>y\<close>.
\<close>

section \<open>The grid\<close>

definition initializeEnemies :: "world \<Rightarrow> GameEngine \<Rightarrow> GameEngine" where
  "initializeEnemies w s =
     (let startX = 50; startY = 50; spacingX = 60; spacingY = 50;
          c = config_or w enemyColor ''#FF4444''
      in s\<lparr>enemies := concat (map (\<lambda>r. map (\<lambda>col.
              Enemy_constructor (startX + of_nat col * spacingX) (startY + of_nat r * spacingY) r c)
            [0..<5]) [0..<4])\<rparr>)"

section \<open>Movement\<close>

definition hits_wall :: "world \<Rightarrow> Enemy \<Rightarrow> bool" where
  "hits_wall w e \<longleftrightarrow> pos_x e \<le> 0 \<or> pos_x e + width e \<ge> canvas_width w"

definition move_down :: "Enemy \<Rightarrow> Enemy" where
  "move_down e = e\<lparr>pos_y := pos_y e + 20\<rparr>"

definition updateEnemies :: "world \<Rightarrow> jsnum \<Rightarrow> GameEngine \<Rightarrow> GameEngine" where
  "updateEnemies w deltaTime s =
     (let moved = map (Enemy_update deltaTime (enemySpeed s) (enemyDirection s)) (enemies s);
          shouldChangeDirection = list_ex (hits_wall w) moved
      in if shouldChangeDirection
         then s\<lparr>enemyDirection := enemyDirection s * (- 1), enemies := map move_down moved\<rparr>
         else s\<lparr>enemies := moved\<rparr>)"

section \<open>Well-formed enemies\<close>

text \<open>Every enemy that the engine creates has the size that the constructor gives
  and a row of the score table.\<close>

definition wf_enemy :: "Enemy \<Rightarrow> bool" where
  "wf_enemy e \<longleftrightarrow> width e = 40 \<and> height e = 30 \<and> row e < 4"

lemma wf_enemy_constructor [simp]: "wf_enemy (Enemy_constructor x0 y0 r c) \<longleftrightarrow> r < 4"
  by (simp add: wf_enemy_def Enemy_constructor_def)

lemma wf_enemy_update [simp]: "wf_enemy (Enemy_update dt spd dir e) \<longleftrightarrow> wf_enemy e"
  by (simp add: wf_enemy_def)

lemma move_down_simps [simp]:
  "pos_x (move_down e) = pos_x e" "pos_y (move_down e) = pos_y e + 20"
  "width (move_down e) = width e" "height (move_down e) = height e" "row (move_down e) = row e"
  by (simp_all add: move_down_def)

lemma wf_enemy_move_down [simp]: "wf_enemy (move_down e) \<longleftrightarrow> wf_enemy e"
  by (simp add: wf_enemy_def)

section \<open>Properties of the grid\<close>

lemma enemies_initializeEnemies:
  "enemies (initializeEnemies w s) =
     concat (map (\<lambda>r. map (\<lambda>col. Enemy_constructor (50 + of_nat col * 60) (50 + of_nat r * 50) r
       (config_or w enemyColor ''#FF4444'')) [0..<5]) [0..<4])"
  by (simp add: initializeEnemies_def)

lemma initializeEnemies_frame [simp]:
  "gameState (initializeEnemies w s) = gameState s"
  "score (initializeEnemies w s) = score s"
  "lives (initializeEnemies w s) = lives s"
  "player (initializeEnemies w s) = player s"
  "playerBullets (initializeEnemies w s) = playerBullets s"
  "enemyBullets (initializeEnemies w s) = enemyBullets s"
  "particles (initializeEnemies w s) = particles s"
  "effects (initializeEnemies w s) = effects s"
  "randomCalls (initializeEnemies w s) = randomCalls s"
  "enemyDirection (initializeEnemies w s) = enemyDirection s"
  "enemySpeed (initializeEnemies w s) = enemySpeed s"
  "speedIncreaseTimer (initializeEnemies w s) = speedIncreaseTimer s"
  "speedIncreaseCount (initializeEnemies w s) = speedIncreaseCount s"
  "maxSpeedIncreases (initializeEnemies w s) = maxSpeedIncreases s"
  "lastEnemyShoot (initializeEnemies w s) = lastEnemyShoot s"
  "gameTimeLimit (initializeEnemies w s) = gameTimeLimit s"
  "gameStartTime (initializeEnemies w s) = gameStartTime s"
  "timeRemaining (initializeEnemies w s) = timeRemaining s"
  "keys (initializeEnemies w s) = keys s"
  "lastTime (initializeEnemies w s) = lastTime s"
  "animationId (initializeEnemies w s) = animationId s"
  "frameRequests (initializeEnemies w s) = frameRequests s"
  "pendingFrames (initializeEnemies w s) = pendingFrames s"
  "level (initializeEnemies w s) = level s"
  "enemyShootTimer (initializeEnemies w s) = enemyShootTimer s"
  by (simp_all add: initializeEnemies_def)

lemma upt_4: "[0..<4] = [0, 1, 2, 3]"
  by (simp add: upt_rec)

lemma upt_5: "[0..<5] = [0, 1, 2, 3, 4]"
  by (simp add: upt_rec)

lemma length_initializeEnemies: "length (enemies (initializeEnemies w s)) = 20"
  by (simp add: enemies_initializeEnemies upt_4 upt_5)

lemma initializeEnemies_nonempty [simp]: "enemies (initializeEnemies w s) \<noteq> []"
  using length_initializeEnemies [of w s] by auto

lemma initializeEnemies_wf [simp]: "list_all wf_enemy (enemies (initializeEnemies w s))"
  by (simp add: enemies_initializeEnemies upt_4 upt_5)

text \<open>The enemy of row \<open>r\<close> and column \<open>col\<close> is at index \<open>5 r + col\<close>.\<close>

lemma nth_concat_rows:
  assumes "\<And>r. r < n \<Longrightarrow> length (f r) = m" and "r < n" and "c < m"
  shows "concat (map f [0..<n]) ! (r * m + c) = f r ! c"
  using assms
proof (induction n)
  case 0
  then show ?case by simp
next
  case (Suc n)
  have len: "length (concat (map f [0..<n])) = n * m"
    using Suc.prems(1) by (induction n) (simp_all add: less_Suc_eq)
  show ?case
  proof (cases "r < n")
    case True
    from True have "Suc r \<le> n" by simp
    then have "Suc r * m \<le> n * m" by (rule mult_le_mono1)
    with Suc.prems(3) have "r * m + c < n * m" by simp
    with True Suc show ?thesis by (simp add: nth_append len)
  next
    case False
    with Suc.prems(2) have "r = n" by simp
    with Suc.prems show ?thesis by (simp add: nth_append len)
  qed
qed

lemma nth_initializeEnemies:
  assumes "r < 4" "col < 5"
  shows "enemies (initializeEnemies w s) ! (r * 5 + col) =
     Enemy_constructor (50 + of_nat col * 60) (50 + of_nat r * 50) r
       (config_or w enemyColor ''#FF4444'')"
proof -
  let ?f = "\<lambda>r. map (\<lambda>col. Enemy_constructor (50 + of_nat col * 60) (50 + of_nat r * 50) r
       (config_or w enemyColor ''#FF4444'')) [0..<5]"
  have "concat (map ?f [0..<4]) ! (r * 5 + col) = ?f r ! col"
    using assms by (intro nth_concat_rows) simp_all
  then show ?thesis using assms by (simp add: enemies_initializeEnemies)
qed

text \<open>The grid spans \<open>x\<close> from 50 to 330 and \<open>y\<close> from 50 to 230.\<close>

lemma initializeEnemies_extent:
  assumes "e \<in> set (enemies (initializeEnemies w s))"
  shows "50 \<le> pos_x e \<and> pos_x e + width e \<le> 330 \<and> 50 \<le> pos_y e \<and> pos_y e + height e \<le> 230"
  using assms by (auto simp: enemies_initializeEnemies upt_4 upt_5 Enemy_constructor_def)

text \<open>Claim C28. \<^verbatim>\<open>initializeEnemies\<close> builds twenty enemies, row by row: the enemy at index
  \<open>k\<close> is in row \<open>k div 5\<close> and column \<open>k mod 5\<close>, at 60 units per column and 50 units per
  row from the corner \<open>(50, 50)\<close>.\<close>

theorem initializeEnemies_grid:
  "enemies (initializeEnemies w s) =
     map (\<lambda>k. Enemy_constructor (50 + of_nat (k mod 5) * 60) (50 + of_nat (k div 5) * 50) (k div 5)
            (config_or w enemyColor ''#FF4444'')) [0..<20]"
  by (simp add: enemies_initializeEnemies upt_4 upt_5 upt_rec)
     (simp add: numeral_2_eq_2 numeral_3_eq_3)

section \<open>Properties of the movement\<close>

lemma updateEnemies_frame [simp]:
  "gameState (updateEnemies w dt s) = gameState s"
  "score (updateEnemies w dt s) = score s"
  "lives (updateEnemies w dt s) = lives s"
  "player (updateEnemies w dt s) = player s"
  "playerBullets (updateEnemies w dt s) = playerBullets s"
  "enemyBullets (updateEnemies w dt s) = enemyBullets s"
  "particles (updateEnemies w dt s) = particles s"
  "enemySpeed (updateEnemies w dt s) = enemySpeed s"
  "effects (updateEnemies w dt s) = effects s"
  "randomCalls (updateEnemies w dt s) = randomCalls s"
  "speedIncreaseTimer (updateEnemies w dt s) = speedIncreaseTimer s"
  "speedIncreaseCount (updateEnemies w dt s) = speedIncreaseCount s"
  "maxSpeedIncreases (updateEnemies w dt s) = maxSpeedIncreases s"
  "lastEnemyShoot (updateEnemies w dt s) = lastEnemyShoot s"
  "gameTimeLimit (updateEnemies w dt s) = gameTimeLimit s"
  "gameStartTime (updateEnemies w dt s) = gameStartTime s"
  "timeRemaining (updateEnemies w dt s) = timeRemaining s"
  "keys (updateEnemies w dt s) = keys s"
  "lastTime (updateEnemies w dt s) = lastTime s"
  "animationId (updateEnemies w dt s) = animationId s"
  "frameRequests (updateEnemies w dt s) = frameRequests s"
  "pendingFrames (updateEnemies w dt s) = pendingFrames s"
  "level (updateEnemies w dt s) = level s"
  "enemyShootTimer (updateEnemies w dt s) = enemyShootTimer s"
  by (simp_all add: updateEnemies_def Let_def)

text \<open>Whether the movement of this tick reaches a wall.\<close>

definition wall_hit :: "world \<Rightarrow> GameEngine \<Rightarrow> bool" where
  "wall_hit w s \<longleftrightarrow>
     list_ex (\<lambda>e. pos_x e + enemySpeed s * enemyDirection s \<le> 0 \<or>
                  pos_x e + enemySpeed s * enemyDirection s + width e \<ge> canvas_width w) (enemies s)"

lemma list_ex_hits_wall_moved:
  "list_ex (hits_wall w) (map (Enemy_update dt (enemySpeed s) (enemyDirection s)) (enemies s))
     \<longleftrightarrow> wall_hit w s"
  by (simp add: wall_hit_def list_ex_iff hits_wall_def)

lemma updateEnemies_hit:
  assumes "wall_hit w s"
  shows "enemyDirection (updateEnemies w dt s) = - enemyDirection s"
    and "enemies (updateEnemies w dt s) =
      map (\<lambda>e. e\<lparr>pos_x := pos_x e + enemySpeed s * enemyDirection s, pos_y := pos_y e + 20\<rparr>) (enemies s)"
  using assms
  by (simp_all add: updateEnemies_def Let_def list_ex_hits_wall_moved move_down_def
      Enemy_update_def comp_def)

lemma updateEnemies_no_hit:
  assumes "\<not> wall_hit w s"
  shows "enemyDirection (updateEnemies w dt s) = enemyDirection s"
    and "enemies (updateEnemies w dt s) =
      map (\<lambda>e. e\<lparr>pos_x := pos_x e + enemySpeed s * enemyDirection s\<rparr>) (enemies s)"
  using assms
  by (simp_all add: updateEnemies_def Let_def list_ex_hits_wall_moved Enemy_update_def)

lemma length_updateEnemies [simp]: "length (enemies (updateEnemies w dt s)) = length (enemies s)"
  by (cases "wall_hit w s") (simp_all add: updateEnemies_hit updateEnemies_no_hit)

lemma map_row_updateEnemies [simp]:
  "map row (enemies (updateEnemies w dt s)) = map row (enemies s)"
  by (cases "wall_hit w s") (simp_all add: updateEnemies_hit updateEnemies_no_hit comp_def)

lemma updateEnemies_wf [simp]:
  "list_all wf_enemy (enemies (updateEnemies w dt s)) \<longleftrightarrow> list_all wf_enemy (enemies s)"
  by (cases "wall_hit w s")
    (simp_all add: updateEnemies_hit updateEnemies_no_hit list_all_iff wf_enemy_def)

lemma updateEnemies_empty [simp]: "enemies (updateEnemies w dt s) = [] \<longleftrightarrow> enemies s = []"
  using length_updateEnemies [of w dt s] by (metis length_0_conv)

text \<open>Claim C10. One call of \<^verbatim>\<open>updateEnemies\<close> moves every enemy sideways by the shared speed
  in the shared direction. When an enemy reaches a side of the canvas by this move, the
  direction is reversed once and every enemy goes down by exactly 20; otherwise the
  direction and the heights stay.\<close>

theorem updateEnemies_flip_and_drop:
  "enemyDirection (updateEnemies w dt s) =
     (if wall_hit w s then - enemyDirection s else enemyDirection s) \<and>
   map pos_x (enemies (updateEnemies w dt s)) =
     map (\<lambda>e. pos_x e + enemySpeed s * enemyDirection s) (enemies s) \<and>
   map pos_y (enemies (updateEnemies w dt s)) =
     map (\<lambda>e. pos_y e + (if wall_hit w s then 20 else 0)) (enemies s)"
  by (cases "wall_hit w s") (simp_all add: updateEnemies_hit updateEnemies_no_hit comp_def)

end
