(* ===== verification/Scenarios.thy ===== *)
theory Scenarios
  imports Formation
begin

text \<open>
  Concrete inputs on which the theorems of the development are instantiated: a canvas
  of 800 by 600 with no external controller (so every default of the source applies),
  a source of random numbers that always returns one half, the state of a game that
  has just been started in this world, and a controller with a logged-in user.
  With one half as the random number the player starts at \<open>x = 380\<close>, \<open>y = 540\<close>.
\<close>

definition demo_world :: world where
  "demo_world = \<lparr>canvas_width = 800, canvas_height = 600, controller = None,
     Math_random = (\<lambda>_. 1 / 2), Date_now = 0, performance_now = 0,
     bgImg_complete = True\<rparr>"

definition demo_controller :: appController where
  "demo_controller = \<lparr>gameConfig = \<lparr>shootKey = ''Space'', gameTime = 5, playerColor = ''#4CAF50'',
      enemyColor = ''#FF4444'', playerBulletColor = ''#FFFF00'', enemyBulletColor = ''#FF0000''\<rparr>,
     isLoggedIn = True, hasUpdateRecordsTable = True\<rparr>"

definition demo_state :: GameEngine where
  "demo_state = (initializeEnemies demo_world (initializePlayer demo_world
     GameEngine_constructor))\<lparr>gameState := Playing\<rparr>"

definition demo_bullet :: "jsnum \<Rightarrow> jsnum \<Rightarrow> EnemyBullet" where
  "demo_bullet x0 y0 = EnemyBullet_constructor x0 y0 ''#FF0000''"

lemma demo_world_simps [simp]:
  "canvas_width demo_world = 800" "canvas_height demo_world = 600"
  "controller demo_world = None" "Math_random demo_world k = 1 / 2"
  by (simp_all add: demo_world_def)

lemma demo_state_simps [simp]:
  "enemies demo_state = enemies (initializeEnemies demo_world GameEngine_constructor)"
  "player demo_state = Some (Player_constructor 380 540 ''#4CAF50'')"
  "score demo_state = Some 0" "lives demo_state = 3" "gameState demo_state = Playing"
  "playerBullets demo_state = []" "enemyBullets demo_state = []" "particles demo_state = []"
  "effects demo_state = effects GameEngine_constructor"
  by (simp_all add: demo_state_def player_initializePlayer config_or_def
      enemies_initializeEnemies)

lemma demo_state_clocks [simp]:
  "lastEnemyShoot demo_state = 0" "gameTimeLimit demo_state = 300000"
  "gameStartTime demo_state = 0" "speedIncreaseTimer demo_state = 0"
  "speedIncreaseCount demo_state = 0" "maxSpeedIncreases demo_state = 4"
  "enemySpeed demo_state = 1" "enemyDirection demo_state = 1" "level demo_state = 1"
  "lastTime demo_state = 0" "pendingFrames demo_state = []" "frameRequests demo_state = 0"
  by (simp_all add: demo_state_def)

lemma demo_state_enemies [simp]:
  "length (enemies demo_state) = 20" "list_all wf_enemy (enemies demo_state)"
  by (simp_all add: length_initializeEnemies)

end
