(* ===== verification/Bullets.thy ===== *)
theory Bullets
  imports Scenarios
begin

text \<open>
  Shooting and the bullet pass of a tick: \<^verbatim>\<open>GameEngine.playerShoot\<close> and
  \<^verbatim>\<open>GameEngine.updateBullets\<close>.

  \<^item> \<open>playerShoot\<close> adds a bullet at the top centre of the player unless three bullets
    are alive.
  \<^item> \<open>playerBullet_step w i\<close> is the body of the reverse loop over \<^verbatim>\<open>this.playerBullets\<close>
    at index \<open>i\<close>: the bullet moves up; off the canvas it is removed (\<^verbatim>\<open>continue\<close>);
    otherwise the inner loop looks for the last enemy that it collides with
    (\<open>find_last_index\<close>, the \<^verbatim>\<open>break\<close> at the first hit from the end), the score grows by
    the points of that enemy's row, the hit sound is played, bullet and enemy are
    removed and an explosion is created at the centre of the enemy.
  \<^item> \<open>enemyBullet_step w\<close> is the callback of \<^verbatim>\<open>this.enemyBullets.forEach\<close>: the bullet moves
    down; off the canvas it is removed; when it collides with the player a life is
    lost, the bullet is removed, an explosion and the hit sound follow, and then either
    the game is over (\<^verbatim>\<open>lives <= 0\<close>) or the player is placed anew. The \<^verbatim>\<open>return\<close> after
    \<^verbatim>\<open>this.gameOver()\<close> ends this call of the callback only: the \<^verbatim>\<open>forEach\<close> goes on.
  \<^item> \<open>updateBullets\<close> runs the first loop with \<open>for_down\<close> and the second with \<open>forEach\<close>,
    whose callback removes elements of the array it iterates over.

  \<open>row_points\<close> is the table lookup \<^verbatim>\<open>[5, 10, 15, 20][enemy.row]\<close>, \<open>None\<close> for \<^verbatim>\<open>undefined\<close>,
  and \<open>add_points\<close> is \<^verbatim>\<open>this.score += points\<close>, where \<^verbatim>\<open>undefined\<close> and \<^verbatim>\<open>NaN\<close> give \<^verbatim>\<open>NaN\<close>.
\<close>

section \<open>Shooting\<close>

definition playerShoot :: "world \<Rightarrow> GameEngine \<Rightarrow> GameEngine" where
  "playerShoot w s =
     (case player s of
        None \<Rightarrow> s
      | Some p \<Rightarrow>
          if length (playerBullets s) < 3
          then s\<lparr>playerBullets := playerBullets s @
                  [PlayerBullet_constructor (pos_x p + width p / 2 - 2) (pos_y p)
                     (config_or w playerBulletColor ''#FFFF00'')]\<rparr>
          else s)"

section \<open>The score table\<close>

definition row_points :: "nat \<Rightarrow> int option" where
  "row_points r = (if r < length [5, 10, 15, 20 :: int] then Some ([5, 10, 15, 20] ! r) else None)"

definition add_points :: "int option \<Rightarrow> int option \<Rightarrow> int option" where
  "add_points sc pts = (case sc of None \<Rightarrow> None | Some a \<Rightarrow> map_option (\<lambda>b. a + b) pts)"

section \<open>The bullet pass\<close>

definition playerBullet_step :: "world \<Rightarrow> nat \<Rightarrow> GameEngine \<Rightarrow> GameEngine" where
  "playerBullet_step w bulletIndex s =
     (if bulletIndex < length (playerBullets s) then
        let bullet = PlayerBullet_update (playerBullets s ! bulletIndex);
            s1 = s\<lparr>playerBullets := (playerBullets s)[bulletIndex := bullet]\<rparr>
        in if pos_y bullet < 0
           then s1\<lparr>playerBullets := splice1 bulletIndex (playerBullets s1)\<rparr>
           else (case find_last_index (checkCollision bullet) (enemies s1) (length (enemies s1)) of
                   None \<Rightarrow> s1
                 | Some hitEnemyIndex \<Rightarrow>
                     let hitEnemy = enemies s1 ! hitEnemyIndex;
                         s2 = s1\<lparr>score := add_points (score s1) (row_points (row hitEnemy))\<rparr>;
                         s3 = emit PlayerHitSound s2;
                         s4 = s3\<lparr>playerBullets := splice1 bulletIndex (playerBullets s3),
                                enemies := splice1 hitEnemyIndex (enemies s3)\<rparr>
                     in createExplosion w (pos_x hitEnemy + width hitEnemy / 2)
                          (pos_y hitEnemy + height hitEnemy / 2) s4)
      else s)"

definition enemyBullet_step :: "world \<Rightarrow> EnemyBullet \<Rightarrow> nat \<Rightarrow> GameEngine \<Rightarrow> GameEngine" where
  "enemyBullet_step w b bulletIndex s =
     (let bullet = EnemyBullet_update b;
          s1 = s\<lparr>enemyBullets := (enemyBullets s)[bulletIndex := bullet]\<rparr>
      in if pos_y bullet > canvas_height w
         then s1\<lparr>enemyBullets := splice1 bulletIndex (enemyBullets s1)\<rparr>
         else (case player s1 of
                 None \<Rightarrow> s1
               | Some p \<Rightarrow>
                   if checkCollision bullet p then
                     let s2 = s1\<lparr>lives := lives s1 - 1\<rparr>;
                         s3 = s2\<lparr>enemyBullets := splice1 bulletIndex (enemyBullets s2)\<rparr>;
                         s4 = createExplosion w (pos_x p + width p / 2) (pos_y p + height p / 2) s3;
                         s5 = emit EnemyHitSound s4
                     in if lives s5 \<le> 0 then gameOver w s5 else initializePlayer w s5
                   else s1))"

definition updatePlayerBullets :: "world \<Rightarrow> GameEngine \<Rightarrow> GameEngine" where
  "updatePlayerBullets w s = for_down (playerBullet_step w) (length (playerBullets s)) s"

definition updateEnemyBullets :: "world \<Rightarrow> GameEngine \<Rightarrow> GameEngine" where
  "updateEnemyBullets w s = forEach enemyBullets (enemyBullet_step w) s"

definition updateBullets :: "world \<Rightarrow> GameEngine \<Rightarrow> GameEngine" where
  "updateBullets w s = updateEnemyBullets w (updatePlayerBullets w s)"

section \<open>Properties of shooting\<close>

lemma playerShoot_frame [simp]:
  "gameState (playerShoot w s) = gameState s"
  "score (playerShoot w s) = score s"
  "lives (playerShoot w s) = lives s"
  "player (playerShoot w s) = player s"
  "enemies (playerShoot w s) = enemies s"
  "enemyBullets (playerShoot w s) = enemyBullets s"
  "particles (playerShoot w s) = particles s"
  "effects (playerShoot w s) = effects s"
  "randomCalls (playerShoot w s) = randomCalls s"
  by (simp_all add: playerShoot_def split: option.splits)

lemma playerShoot_timing [simp]: "timing (playerShoot w s) = timing s"
  by (simp add: playerShoot_def split: option.splits)

lemmas playerShoot_untouched [simp] = timing_fields [OF playerShoot_timing]

lemma playerShoot_full: "3 \<le> length (playerBullets s) \<Longrightarrow> playerShoot w s = s"
  by (simp add: playerShoot_def split: option.splits)

lemma playerShoot_adds:
  assumes "player s = Some p" "length (playerBullets s) < 3"
  shows "playerBullets (playerShoot w s) = playerBullets s @
     [PlayerBullet_constructor (pos_x p + width p / 2 - 2) (pos_y p)
        (config_or w playerBulletColor ''#FFFF00'')]"
  using assms by (simp add: playerShoot_def)

text \<open>Claim C8. \<^verbatim>\<open>playerShoot\<close> never leaves more than three player bullets alive: from a
  state with at most three it leads to a state with at most three.\<close>

theorem playerShoot_limit:
  "length (playerBullets s) \<le> 3 \<Longrightarrow> length (playerBullets (playerShoot w s)) \<le> 3"
  by (simp add: playerShoot_def split: option.splits)

theorem playerShoot_limit_witness:
  "length (playerBullets (playerShoot demo_world demo_state)) = 1 \<and>
   length (playerBullets ((playerShoot demo_world ^^ 4) demo_state)) = 3"
  using playerShoot_limit [of "(playerShoot demo_world ^^ 3) demo_state" demo_world]
  by (simp add: playerShoot_def numeral_3_eq_3 numeral_Bit0 [of "num.Bit0 num.One"])

section \<open>Points\<close>

lemma row_points_simps [simp]:
  "row_points 0 = Some 5" "row_points (Suc 0) = Some 10" "row_points 2 = Some 15"
  "row_points 3 = Some 20"
  by (simp_all add: row_points_def numeral_2_eq_2 numeral_3_eq_3)

lemma row_points_None [simp]: "row_points r = None \<longleftrightarrow> 4 \<le> r"
  by (simp add: row_points_def)

lemma row_points_range: "row_points r = Some p \<Longrightarrow> p \<in> {5, 10, 15, 20}"
proof -
  assume a: "row_points r = Some p"
  then have "r < 4" by (simp add: row_points_def split: if_splits)
  then consider "r = 0" | "r = 1" | "r = 2" | "r = 3" by linarith
  then show ?thesis using a by cases auto
qed

definition points_of :: "Enemy \<Rightarrow> int" where
  "points_of e = (case row_points (row e) of Some p \<Rightarrow> p | None \<Rightarrow> 0)"

definition remaining_points :: "Enemy list \<Rightarrow> int" where
  "remaining_points es = sum_list (map points_of es)"

definition score_balance :: "GameEngine \<Rightarrow> int option" where
  "score_balance s = map_option (\<lambda>n. n + remaining_points (enemies s)) (score s)"

lemma points_of_nonneg: "0 \<le> points_of e"
  using row_points_range [of "row e"] by (auto simp: points_of_def split: option.splits)

lemma wf_enemy_points: "wf_enemy e \<Longrightarrow> row_points (row e) = Some (points_of e)"
  by (cases "row_points (row e)") (auto simp: wf_enemy_def points_of_def)

lemma remaining_points_splice1:
  "j < length es \<Longrightarrow> remaining_points (splice1 j es) = remaining_points es - points_of (es ! j)"
  by (simp add: remaining_points_def sum_list_splice1)

lemma list_all_splice1: "list_all P xs \<Longrightarrow> list_all P (splice1 i xs)"
  using set_splice1_subset [of i xs] by (auto simp: list_all_iff)

section \<open>One player bullet\<close>

lemma playerBullet_step_frame [simp]:
  "gameState (playerBullet_step w i s) = gameState s"
  "lives (playerBullet_step w i s) = lives s"
  "player (playerBullet_step w i s) = player s"
  "enemyBullets (playerBullet_step w i s) = enemyBullets s"
  "enemySpeed (playerBullet_step w i s) = enemySpeed s"
  "enemyDirection (playerBullet_step w i s) = enemyDirection s"
  by (simp_all add: playerBullet_step_def Let_def split: option.splits)

lemma playerBullet_step_length:
  "length (playerBullets (playerBullet_step w i s)) \<le> length (playerBullets s)"
  by (simp add: playerBullet_step_def Let_def split: option.splits)

lemma playerBullet_step_balance:
  assumes "list_all wf_enemy (enemies s)"
  shows "score_balance (playerBullet_step w i s) = score_balance s \<and>
         list_all wf_enemy (enemies (playerBullet_step w i s))"
proof (cases "find_last_index (checkCollision (PlayerBullet_update (playerBullets s ! i)))
                (enemies s) (length (enemies s))")
  case None
  with assms show ?thesis
    by (simp add: playerBullet_step_def Let_def score_balance_def)
next
  case (Some j)
  then have j: "j < length (enemies s)" by (simp add: find_last_index_lt)
  with assms have "wf_enemy (enemies s ! j)" by (simp add: list_all_length)
  then have "row_points (row (enemies s ! j)) = Some (points_of (enemies s ! j))"
    by (rule wf_enemy_points)
  with Some j assms show ?thesis
    by (cases "score s")
      (simp_all add: playerBullet_step_def Let_def score_balance_def add_points_def
        remaining_points_splice1 list_all_splice1)
qed


lemma playerBullet_step_score_mono:
  assumes "list_all wf_enemy (enemies s)" "score s = Some n"
  shows "\<exists>m \<ge> n. score (playerBullet_step w i s) = Some m"
proof (cases "find_last_index (checkCollision (PlayerBullet_update (playerBullets s ! i)))
                (enemies s) (length (enemies s))")
  case None
  with assms show ?thesis by (simp add: playerBullet_step_def Let_def)
next
  case (Some j)
  then have "j < length (enemies s)" by (simp add: find_last_index_lt)
  with assms have "wf_enemy (enemies s ! j)" by (simp add: list_all_length)
  then have "row_points (row (enemies s ! j)) = Some (points_of (enemies s ! j))"
    by (rule wf_enemy_points)
  with Some assms points_of_nonneg [of "enemies s ! j"] show ?thesis
    by (simp add: playerBullet_step_def Let_def add_points_def)
qed

section \<open>The loop over the player bullets\<close>

lemma updatePlayerBullets_frame [simp]:
  "gameState (updatePlayerBullets w s) = gameState s"
  "lives (updatePlayerBullets w s) = lives s"
  "player (updatePlayerBullets w s) = player s"
  "enemyBullets (updatePlayerBullets w s) = enemyBullets s"
  "enemySpeed (updatePlayerBullets w s) = enemySpeed s"
  "enemyDirection (updatePlayerBullets w s) = enemyDirection s"
  unfolding updatePlayerBullets_def
  by (rule for_down_invariant_const, simp, simp)+

lemma updatePlayerBullets_length:
  "length (playerBullets (updatePlayerBullets w s)) \<le> length (playerBullets s)"
  unfolding updatePlayerBullets_def
proof (rule for_down_invariant_const)
  show "length (playerBullets s) \<le> length (playerBullets s)" by simp
next
  fix i and t :: GameEngine
  assume "length (playerBullets t) \<le> length (playerBullets s)"
  with playerBullet_step_length [of w i t]
  show "length (playerBullets (playerBullet_step w i t)) \<le> length (playerBullets s)"
    by simp
qed

lemma updatePlayerBullets_balance:
  assumes "list_all wf_enemy (enemies s)"
  shows "score_balance (updatePlayerBullets w s) = score_balance s \<and>
         list_all wf_enemy (enemies (updatePlayerBullets w s))"
  unfolding updatePlayerBullets_def
  by (rule for_down_invariant_const
        [where P = "\<lambda>t. score_balance t = score_balance s \<and> list_all wf_enemy (enemies t)"])
     (use assms playerBullet_step_balance in auto)

lemma updatePlayerBullets_score_mono:
  assumes "list_all wf_enemy (enemies s)" "score s = Some n"
  shows "\<exists>m \<ge> n. score (updatePlayerBullets w s) = Some m"
  unfolding updatePlayerBullets_def
proof (rule for_down_invariant_const
    [where P = "\<lambda>t. list_all wf_enemy (enemies t) \<and> (\<exists>m \<ge> n. score t = Some m)", THEN conjunct2])
  show "list_all wf_enemy (enemies s) \<and> (\<exists>m\<ge>n. score s = Some m)"
    using assms by simp
next
  fix i and t :: GameEngine
  assume "list_all wf_enemy (enemies t) \<and> (\<exists>m\<ge>n. score t = Some m)"
  then obtain m where t: "list_all wf_enemy (enemies t)" "n \<le> m" "score t = Some m" by blast
  from playerBullet_step_score_mono [OF t(1,3)] obtain m'
    where "m \<le> m'" "score (playerBullet_step w i t) = Some m'" by blast
  with t playerBullet_step_balance [OF t(1), of w i]
  show "list_all wf_enemy (enemies (playerBullet_step w i t)) \<and>
        (\<exists>m\<ge>n. score (playerBullet_step w i t) = Some m)"
    by auto
qed

section \<open>One enemy bullet\<close>

lemma enemyBullet_step_frame [simp]:
  "score (enemyBullet_step w b k s) = score s"
  "enemies (enemyBullet_step w b k s) = enemies s"
  "playerBullets (enemyBullet_step w b k s) = playerBullets s"
  "enemySpeed (enemyBullet_step w b k s) = enemySpeed s"
  "enemyDirection (enemyBullet_step w b k s) = enemyDirection s"
  by (simp_all add: enemyBullet_step_def Let_def split: option.splits)

lemma enemyBullet_step_lives:
  "lives (enemyBullet_step w b k s) = lives s \<or>
   lives (enemyBullet_step w b k s) = lives s - 1 \<and>
     (lives s - 1 \<le> 0 \<longrightarrow> gameState (enemyBullet_step w b k s) = GameOver)"
  by (simp add: enemyBullet_step_def Let_def split: option.splits)

lemma enemyBullet_step_gameState:
  "gameState (enemyBullet_step w b k s) = gameState s \<or>
   gameState (enemyBullet_step w b k s) = GameOver"
  by (simp add: enemyBullet_step_def Let_def split: option.splits)

lemma enemyBullet_step_length:
  "length (enemyBullets (enemyBullet_step w b k s)) \<le> length (enemyBullets s)"
  by (simp add: enemyBullet_step_def Let_def split: option.splits)

lemma enemyBullet_step_player:
  "player s \<noteq> None \<Longrightarrow> player (enemyBullet_step w b k s) \<noteq> None"
  by (auto simp: enemyBullet_step_def Let_def player_initializePlayer split: option.splits)

definition lives_inv :: "GameEngine \<Rightarrow> GameEngine \<Rightarrow> bool" where
  "lives_inv s t \<longleftrightarrow> lives t \<le> lives s \<and>
     (gameState t = gameState s \<or> gameState t = GameOver) \<and>
     (lives t < lives s \<and> lives t \<le> 0 \<longrightarrow> gameState t = GameOver)"

lemma lives_inv_refl [simp]: "lives_inv s s"
  by (simp add: lives_inv_def)

lemma lives_inv_step: "lives_inv s t \<Longrightarrow> lives_inv s (enemyBullet_step w b k t)"
  using enemyBullet_step_lives [of w b k t] enemyBullet_step_gameState [of w b k t]
  by (auto simp: lives_inv_def)

section \<open>The loop over the enemy bullets\<close>

lemma updateEnemyBullets_frame [simp]:
  "score (updateEnemyBullets w s) = score s"
  "enemies (updateEnemyBullets w s) = enemies s"
  "playerBullets (updateEnemyBullets w s) = playerBullets s"
  "enemySpeed (updateEnemyBullets w s) = enemySpeed s"
  "enemyDirection (updateEnemyBullets w s) = enemyDirection s"
  unfolding updateEnemyBullets_def
  by (rule forEach_invariant, simp, simp)+

lemma updateEnemyBullets_lives_inv: "lives_inv s (updateEnemyBullets w s)"
  unfolding updateEnemyBullets_def
  by (rule forEach_invariant) (simp_all add: lives_inv_step)

lemma updateEnemyBullets_length:
  "length (enemyBullets (updateEnemyBullets w s)) \<le> length (enemyBullets s)"
  unfolding updateEnemyBullets_def
proof (rule forEach_invariant [where P = "\<lambda>t. length (enemyBullets t) \<le> length (enemyBullets s)"])
  fix x k and t :: GameEngine
  assume "length (enemyBullets t) \<le> length (enemyBullets s)"
  with enemyBullet_step_length [of w x k t]
  show "length (enemyBullets (enemyBullet_step w x k t)) \<le> length (enemyBullets s)" by simp
qed simp



section \<open>Fields that the bullet pass leaves alone\<close>

lemma playerBullet_step_timing [simp]: "timing (playerBullet_step w i s) = timing s"
  by (simp add: playerBullet_step_def Let_def split: option.splits)

lemma enemyBullet_step_timing [simp]: "timing (enemyBullet_step w b k s) = timing s"
  by (simp add: enemyBullet_step_def Let_def split: option.splits)

lemma updatePlayerBullets_timing [simp]: "timing (updatePlayerBullets w s) = timing s"
  unfolding updatePlayerBullets_def by (rule for_down_invariant_const) simp_all

lemma updateEnemyBullets_timing [simp]: "timing (updateEnemyBullets w s) = timing s"
  unfolding updateEnemyBullets_def by (rule forEach_invariant) simp_all

lemma updateBullets_timing [simp]: "timing (updateBullets w s) = timing s"
  by (simp add: updateBullets_def)

lemmas updateBullets_untouched [simp] = timing_fields [OF updateBullets_timing]

section \<open>The whole bullet pass\<close>

lemma remaining_points_grid: "remaining_points (enemies (initializeEnemies w s)) = 250"
  by (simp add: enemies_initializeEnemies upt_4 upt_5 remaining_points_def points_of_def
      Enemy_constructor_def)

lemma updateBullets_balance:
  assumes "list_all wf_enemy (enemies s)"
  shows "score_balance (updateBullets w s) = score_balance s \<and>
         list_all wf_enemy (enemies (updateBullets w s))"
  using updatePlayerBullets_balance [OF assms, of w]
  by (simp add: updateBullets_def score_balance_def)

text \<open>Claim C2. The bullet pass conserves points: the score plus the points of the
  enemies that are still alive is the same before and after, so the score grows by
  exactly the table value of the row of every enemy that the pass removes.\<close>

theorem updateBullets_score_conserved:
  assumes "list_all wf_enemy (enemies s)"
  shows "score_balance (updateBullets w s) = score_balance s"
  using updateBullets_balance [OF assms] by simp

theorem updateBullets_score_conserved_witness:
  "list_all wf_enemy (enemies demo_state) \<and>
   score_balance (updateBullets demo_world demo_state) = Some 250"
  using updateBullets_score_conserved [of demo_state demo_world]
  by (simp add: score_balance_def) (simp add: remaining_points_grid)

text \<open>Claim C39. The score never decreases in the bullet pass and stays a number, as
  long as every enemy has a row of the score table.\<close>

theorem updateBullets_score_mono:
  assumes "list_all wf_enemy (enemies s)" "score s = Some n"
  shows "\<exists>m \<ge> n. score (updateBullets w s) = Some m"
  using updatePlayerBullets_score_mono [OF assms, of w] by (simp add: updateBullets_def)

theorem updateBullets_score_mono_witness:
  "list_all wf_enemy (enemies demo_state) \<and> score demo_state = Some 0 \<and>
   (\<exists>m \<ge> 0. score (updateBullets demo_world demo_state) = Some m)"
  using updateBullets_score_mono [of demo_state 0 demo_world] by simp

lemma updateBullets_lives_inv: "lives_inv s (updateBullets w s)"
  using updateEnemyBullets_lives_inv [of "updatePlayerBullets w s" w]
  by (simp add: updateBullets_def lives_inv_def)

text \<open>Claim C3. The bullet pass never adds a life, and when it takes the lives from
  above zero to zero or below, the game is over at the end of the same pass.\<close>

theorem updateBullets_lives:
  "lives (updateBullets w s) \<le> lives s \<and>
   (lives (updateBullets w s) < lives s \<and> lives (updateBullets w s) \<le> 0 \<longrightarrow>
      gameState (updateBullets w s) = GameOver)"
  using updateBullets_lives_inv [of s w] by (simp add: lives_inv_def)

text \<open>Claim C40. The bullet pass never creates a player bullet, so the limit of three
  that \<open>playerShoot\<close> enforces survives it.\<close>

theorem updateBullets_playerBullets_length:
  "length (playerBullets (updateBullets w s)) \<le> length (playerBullets s)"
  by (simp add: updateBullets_def updatePlayerBullets_length)

section \<open>The enemy bullet loop as a list recursion\<close>

definition off_canvas :: "world \<Rightarrow> EnemyBullet \<Rightarrow> bool" where
  "off_canvas w b \<longleftrightarrow> pos_y b > canvas_height w"

text \<open>A bullet that, once moved, has left the canvas or does not touch the player.\<close>

definition misses_player :: "world \<Rightarrow> GameEngine \<Rightarrow> EnemyBullet \<Rightarrow> bool" where
  "misses_player w s b \<longleftrightarrow>
     (case player s of None \<Rightarrow> True
      | Some p \<Rightarrow> off_canvas w (EnemyBullet_update b) \<or> \<not> checkCollision (EnemyBullet_update b) p)"

lemma enemyBullet_step_miss:
  assumes "misses_player w s (enemyBullets t ! k)" "player t = player s"
  shows "enemyBullet_step w (enemyBullets t ! k) k t =
     t\<lparr>enemyBullets :=
         if off_canvas w (EnemyBullet_update (enemyBullets t ! k)) then splice1 k (enemyBullets t)
         else (enemyBullets t)[k := EnemyBullet_update (enemyBullets t ! k)]\<rparr>"
  using assms
  by (auto simp: enemyBullet_step_def Let_def misses_player_def off_canvas_def split: option.splits)

lemma enemyBullet_step_take:
  "take k (enemyBullets (enemyBullet_step w b k s)) = take k (enemyBullets s)"
  by (simp add: enemyBullet_step_def Let_def split: option.splits)

text \<open>Claim C5. On a tick in which no enemy bullet hits the player, the \<^verbatim>\<open>forEach\<close> over
  the enemy bullets changes nothing but the array, and leaves in it what the list
  recursion \<open>sweep\<close> computes: each bullet moved and the ones off the canvas removed,
  except that the bullet after a removed one is passed over.\<close>

theorem updateEnemyBullets_sweep:
  assumes "list_all (misses_player w s) (enemyBullets s)"
  shows "updateEnemyBullets w s =
     s\<lparr>enemyBullets := sweep EnemyBullet_update (off_canvas w) (enemyBullets s)\<rparr>"
  unfolding updateEnemyBullets_def
proof (rule forEach_sweep [where I = "\<lambda>t. player t = player s" and ok = "misses_player w s"
      and put = "\<lambda>v t. t\<lparr>enemyBullets := v\<rparr>"])
  show "\<forall>x\<in>set (enemyBullets s). misses_player w s x"
    using assms by (simp add: list_all_iff)
qed (simp_all add: enemyBullet_step_miss)

theorem updateEnemyBullets_sweep_witness:
  "list_all (misses_player demo_world (demo_state\<lparr>enemyBullets := [demo_bullet 10 100]\<rparr>))
     (enemyBullets (demo_state\<lparr>enemyBullets := [demo_bullet 10 100]\<rparr>)) \<and>
   enemyBullets (updateEnemyBullets demo_world (demo_state\<lparr>enemyBullets := [demo_bullet 10 100]\<rparr>))
     = [demo_bullet 10 104]"
  using updateEnemyBullets_sweep [of demo_world "demo_state\<lparr>enemyBullets := [demo_bullet 10 100]\<rparr>"]
  by (simp add: misses_player_def off_canvas_def checkCollision_def demo_bullet_def
      EnemyBullet_constructor_def EnemyBullet_update_def Player_constructor_def)

text \<open>Claim C18. When an enemy bullet leaves the canvas, the bullet that follows it in
  the array ends the tick at the front of the array exactly as it was: it is not
  moved, not tested against the canvas and not tested against the player.\<close>

theorem updateEnemyBullets_skips_next:
  assumes "off_canvas w (EnemyBullet_update b1)"
  shows "take 1 (enemyBullets (updateEnemyBullets w (s\<lparr>enemyBullets := b1 # b2 # bs\<rparr>))) = [b2]"
proof -
  let ?s = "s\<lparr>enemyBullets := b1 # b2 # bs\<rparr>"
  let ?t = "enemyBullet_step w b1 0 ?s"
  have t: "enemyBullets ?t = b2 # bs"
    using assms by (simp add: enemyBullet_step_def Let_def off_canvas_def)
  have "updateEnemyBullets w ?s = forEach_from enemyBullets (enemyBullet_step w) 1 (Suc (length bs)) ?t"
    by (simp add: updateEnemyBullets_def forEach_def)
  then have "take 1 (enemyBullets (updateEnemyBullets w ?s)) = take 1 (enemyBullets ?t)"
    by (simp only: forEach_from_take [where get = enemyBullets, OF enemyBullet_step_take])
  with t show ?thesis by simp
qed

theorem updateEnemyBullets_skips_next_witness:
  "off_canvas demo_world (EnemyBullet_update (demo_bullet 10 599)) \<and>
   off_canvas demo_world (EnemyBullet_update (demo_bullet 20 599)) \<and>
   take 1 (enemyBullets (updateEnemyBullets demo_world
     (demo_state\<lparr>enemyBullets := [demo_bullet 10 599, demo_bullet 20 599]\<rparr>))) = [demo_bullet 20 599]"
  using updateEnemyBullets_skips_next [where w = demo_world and ?b1.0 = "demo_bullet 10 599"
      and s = demo_state and ?b2.0 = "demo_bullet 20 599" and bs = "[]"]
  by (simp add: off_canvas_def demo_bullet_def EnemyBullet_constructor_def)

section \<open>A tick that takes two lives\<close>

text \<open>One life left and three enemy bullets, of which the first and the third are on
  the player. The first hit ends the game; the second bullet moves into the freed slot
  and is passed over; the third is then at index 1, is visited, hits the player, who
  was not placed anew, and ends the game a second time.\<close>

definition demo_hit :: GameEngine where
  "demo_hit = demo_state\<lparr>lives := 1,
      enemyBullets := [demo_bullet 398 545, demo_bullet 0 0, demo_bullet 398 545]\<rparr>"

lemmas bullet_eval_defs =
  updateBullets_def updatePlayerBullets_def updateEnemyBullets_def forEach_def
  enemyBullet_step_def playerBullet_step_def Let_def checkCollision_def
  EnemyBullet_constructor_def PlayerBullet_constructor_def Player_constructor_def
  EnemyBullet_update_def PlayerBullet_update_def

lemma demo_hit_lives: "lives (updateBullets demo_world demo_hit) = - 1"
  by (simp add: bullet_eval_defs demo_hit_def demo_bullet_def)

theorem updateBullets_lives_witness:
  "lives (updateBullets demo_world demo_hit) < lives demo_hit \<and>
   lives (updateBullets demo_world demo_hit) \<le> 0 \<and>
   gameState (updateBullets demo_world demo_hit) = GameOver"
  using updateBullets_lives [of demo_world demo_hit] demo_hit_lives by (simp add: demo_hit_def)



section \<open>The bullet pass only adds effects\<close>

lemma playerBullet_step_logs: "logs_more s (playerBullet_step w i s)"
  by (simp add: playerBullet_step_def Let_def logs_more_def split: option.splits)

lemma enemyBullet_step_logs: "logs_more s (enemyBullet_step w b k s)"
  by (simp add: enemyBullet_step_def Let_def logs_more_def effects_gameOver split: option.splits)

lemma updatePlayerBullets_logs: "logs_more s (updatePlayerBullets w s)"
  unfolding updatePlayerBullets_def
  by (rule for_down_invariant_const) (auto intro: logs_more_trans playerBullet_step_logs)

lemma updateEnemyBullets_logs: "logs_more s (updateEnemyBullets w s)"
  unfolding updateEnemyBullets_def
  by (rule forEach_invariant) (auto intro: logs_more_trans enemyBullet_step_logs)

lemma updateBullets_logs: "logs_more s (updateBullets w s)"
  unfolding updateBullets_def
  by (rule logs_more_trans [OF updatePlayerBullets_logs updateEnemyBullets_logs])

end
