(* ===== verification/Game_Loop.thy ===== *)
theory Game_Loop
  imports Render
begin

text \<open>
  One frame of the game: the steps of \<^verbatim>\<open>update\<close> that the earlier theories do not hold
  (the player's move, the particles, the enemy fire, the speed ramp, the timer and the
  victory test), \<^verbatim>\<open>update\<close> itself as their composition in the order of the source, and
  \<^verbatim>\<open>gameLoop\<close>, which runs \<^verbatim>\<open>update\<close> and \<^verbatim>\<open>render\<close> only while the game is being played
  and asks for the next frame.
  The lemmas give, for every step, the fields it leaves alone and what it does to the
  others, the equivalence of the particle loop with the list recursion \<open>sweep\<close>, the
  two ways in which the timer and the victory test end a game, and the invariant
  \<open>engine_inv\<close> of a game in progress, which one frame preserves.
\<close>

section \<open>The steps of a frame\<close>

text \<open>The enemy fire of \<^verbatim>\<open>enemyShoot\<close>: an enemy may fire when no enemy bullet is within
  twenty units of it horizontally and above the line one hundred units below it.\<close>

definition lane_blocked :: "Enemy \<Rightarrow> EnemyBullet \<Rightarrow> bool" where
  "lane_blocked enemy bullet \<longleftrightarrow>
     \<bar>pos_x bullet - pos_x enemy\<bar> < 20 \<and> pos_y bullet < pos_y enemy + 100"

definition availableEnemies :: "GameEngine \<Rightarrow> Enemy list" where
  "availableEnemies s =
     filter (\<lambda>enemy. \<not> list_ex (lane_blocked enemy) (enemyBullets s)) (enemies s)"

definition enemyShoot :: "world \<Rightarrow> GameEngine \<Rightarrow> GameEngine" where
  "enemyShoot w s =
     (if length (enemies s) = 0 then s
      else let currentTime = Date_now w
           in if currentTime - lastEnemyShoot s < 1000 then s
              else let avail = availableEnemies s
                   in if length avail > 0 then
                        let randomEnemy = avail ! nat \<lfloor>next_random w s * of_nat (length avail)\<rfloor>;
                            bullet = EnemyBullet_constructor
                              (pos_x randomEnemy + width randomEnemy / 2 - 2)
                              (pos_y randomEnemy + height randomEnemy)
                              (config_or w enemyBulletColor ''#FF0000'')
                        in (consume_random s)\<lparr>enemyBullets := enemyBullets s @ [bullet],
                                               lastEnemyShoot := currentTime\<rparr>
                      else s)"

definition particle_step :: "jsnum \<Rightarrow> Particle \<Rightarrow> nat \<Rightarrow> GameEngine \<Rightarrow> GameEngine" where
  "particle_step deltaTime particle index s =
     (let p = Particle_update deltaTime particle;
          s1 = s\<lparr>particles := (particles s)[index := p]\<rparr>
      in if life p \<le> 0 then s1\<lparr>particles := splice1 index (particles s1)\<rparr> else s1)"

definition updateParticles :: "jsnum \<Rightarrow> GameEngine \<Rightarrow> GameEngine" where
  "updateParticles deltaTime s = forEach particles (particle_step deltaTime) s"

definition updatePlayer :: "world \<Rightarrow> GameEngine \<Rightarrow> GameEngine" where
  "updatePlayer w s =
     (case player s of
        None \<Rightarrow> s
      | Some p \<Rightarrow> s\<lparr>player := Some (Player_update (keys s) (canvas_width w) (canvas_height w) p)\<rparr>)"

definition speedIncrease :: "jsnum \<Rightarrow> GameEngine \<Rightarrow> GameEngine" where
  "speedIncrease deltaTime s =
     (let s1 = s\<lparr>speedIncreaseTimer := speedIncreaseTimer s + deltaTime\<rparr>
      in if speedIncreaseTimer s1 > 5000 \<and> speedIncreaseCount s1 < maxSpeedIncreases s1
         then s1\<lparr>enemySpeed := enemySpeed s1 + 1 / 2,
                 speedIncreaseCount := Suc (speedIncreaseCount s1),
                 speedIncreaseTimer := 0\<rparr>
         else s1)"

definition checkWin :: "world \<Rightarrow> GameEngine \<Rightarrow> GameEngine" where
  "checkWin w s =
     (if length (enemies s) = 0 \<and> gameState s = Playing
      then gameOverOverlay w ''Victory!'' ''You won!'' (s\<lparr>gameState := GameOver\<rparr>)
      else s)"

definition checkTimer :: "world \<Rightarrow> GameEngine \<Rightarrow> GameEngine" where
  "checkTimer w s =
     (if gameState s = Playing then
        let s1 = s\<lparr>timeRemaining := gameTimeLimit s - (Date_now w - gameStartTime s)\<rparr>
        in if timeRemaining s1 \<le> 0
           then gameOverOverlay w ''Time's Up!'' ''Game Over!'' (s1\<lparr>gameState := GameOver\<rparr>)
           else checkWin w s1
      else checkWin w s)"

definition update :: "world \<Rightarrow> jsnum \<Rightarrow> GameEngine \<Rightarrow> GameEngine" where
  "update w deltaTime s =
     checkTimer w (speedIncrease deltaTime (enemyShoot w (updateParticles deltaTime
       (updateBullets w (updateEnemies w deltaTime (updatePlayer w s))))))"

definition gameLoop :: "world \<Rightarrow> jsnum \<Rightarrow> GameEngine \<Rightarrow> GameEngine" where
  "gameLoop w currentTime s =
     (if gameState s \<noteq> Playing then s
      else let deltaTime = currentTime - lastTime s;
               s1 = s\<lparr>lastTime := currentTime\<rparr>
           in requestAnimationFrame (render w (update w deltaTime s1)))"

section \<open>Particles\<close>

definition expired :: "Particle \<Rightarrow> bool" where
  "expired p \<longleftrightarrow> life p \<le> 0"

lemma particle_loop:
  "forEach particles (particle_step dt) s =
     s\<lparr>particles := sweep (Particle_update dt) expired (particles s)\<rparr>"
  by (rule forEach_sweep [where I = "\<lambda>_. True" and ok = "\<lambda>_. True"
        and put = "\<lambda>v t. t\<lparr>particles := v\<rparr>"])
     (simp_all add: particle_step_def Let_def expired_def)

lemma updateParticles_frame [simp]:
  "gameState (updateParticles dt s) = gameState s"
  "score (updateParticles dt s) = score s"
  "lives (updateParticles dt s) = lives s"
  "player (updateParticles dt s) = player s"
  "enemies (updateParticles dt s) = enemies s"
  "playerBullets (updateParticles dt s) = playerBullets s"
  "enemyBullets (updateParticles dt s) = enemyBullets s"
  "effects (updateParticles dt s) = effects s"
  "randomCalls (updateParticles dt s) = randomCalls s"
  "timing (updateParticles dt s) = timing s"
  by (simp_all add: updateParticles_def particle_loop)

text \<open>Claim C33. The \<^verbatim>\<open>forEach\<close> over the particles, which removes particles from the array
  it walks, changes nothing but the array and leaves in it what the list recursion
  \<open>sweep\<close> computes: every particle moved and aged by one frame and the expired ones
  removed, except that the particle after a removed one is passed over.\<close>

theorem updateParticles_sweep:
  "updateParticles dt s = s\<lparr>particles := sweep (Particle_update dt) expired (particles s)\<rparr>"
  unfolding updateParticles_def by (rule particle_loop)

text \<open>Every particle of the array has a positive life: a new particle has sixty frames,
  a particle that has been aged to zero is removed in the same pass, and a particle
  that the pass skips keeps the positive life that it had.\<close>

definition particles_alive :: "GameEngine \<Rightarrow> bool" where
  "particles_alive s \<longleftrightarrow> list_all (\<lambda>p. 0 < life p \<and> life p \<le> 60) (particles s)"

lemma sweep_list_all:
  assumes "list_all P xs" and "\<And>x. P x \<Longrightarrow> \<not> dead (upd x) \<Longrightarrow> P (upd x)"
  shows "list_all P (sweep upd dead xs)"
  using assms by (induction upd dead xs rule: sweep.induct) auto

lemma updateParticles_alive: "particles_alive s \<Longrightarrow> particles_alive (updateParticles dt s)"
  unfolding particles_alive_def updateParticles_def particle_loop
  by (simp, rule sweep_list_all) (auto simp: expired_def)

lemma createExplosion_alive:
  "particles_alive s \<Longrightarrow> particles_alive (createExplosion w x0 y0 s)"
  by (auto simp: particles_alive_def createExplosion_eq list_all_iff Particle_constructor_def)

text \<open>Claim C38. A particle that follows an expiring particle in the array is not aged in
  that frame: of two particles of which the first has one frame left, the pass leaves
  the second as it was.\<close>

theorem updateParticles_skips_next:
  assumes "life p1 \<le> 1"
  shows "particles (updateParticles dt (s\<lparr>particles := [p1, p2]\<rparr>)) = [p2]"
  using assms by (simp add: updateParticles_def particle_loop expired_def)

theorem updateParticles_skips_next_witness:
  "life (Particle_constructor 0 0 [] 0 0 0\<lparr>life := 1\<rparr>) \<le> 1 \<and>
   particles (updateParticles 16 (demo_state\<lparr>particles :=
       [Particle_constructor 0 0 [] 0 0 0\<lparr>life := 1\<rparr>, Particle_constructor 0 0 [] 0 0 0]\<rparr>)) =
     [Particle_constructor 0 0 [] 0 0 0]"
  using updateParticles_skips_next [where ?p1.0 = "Particle_constructor 0 0 [] 0 0 0\<lparr>life := 1\<rparr>"
      and dt = 16 and s = demo_state and ?p2.0 = "Particle_constructor 0 0 [] 0 0 0"]
  by simp

section \<open>Enemy fire\<close>

lemma enemyShoot_frame [simp]:
  "gameState (enemyShoot w s) = gameState s"
  "score (enemyShoot w s) = score s"
  "lives (enemyShoot w s) = lives s"
  "player (enemyShoot w s) = player s"
  "enemies (enemyShoot w s) = enemies s"
  "playerBullets (enemyShoot w s) = playerBullets s"
  "particles (enemyShoot w s) = particles s"
  "effects (enemyShoot w s) = effects s"
  "level (enemyShoot w s) = level s"
  "enemyDirection (enemyShoot w s) = enemyDirection s"
  "enemySpeed (enemyShoot w s) = enemySpeed s"
  "speedIncreaseTimer (enemyShoot w s) = speedIncreaseTimer s"
  "speedIncreaseCount (enemyShoot w s) = speedIncreaseCount s"
  "maxSpeedIncreases (enemyShoot w s) = maxSpeedIncreases s"
  "gameTimeLimit (enemyShoot w s) = gameTimeLimit s"
  "gameStartTime (enemyShoot w s) = gameStartTime s"
  "timeRemaining (enemyShoot w s) = timeRemaining s"
  "keys (enemyShoot w s) = keys s"
  "lastTime (enemyShoot w s) = lastTime s"
  "animationId (enemyShoot w s) = animationId s"
  "frameRequests (enemyShoot w s) = frameRequests s"
  "pendingFrames (enemyShoot w s) = pendingFrames s"
  by (simp_all add: enemyShoot_def Let_def consume_random_def)

text \<open>Whether this call fires.\<close>

definition fires :: "world \<Rightarrow> GameEngine \<Rightarrow> bool" where
  "fires w s \<longleftrightarrow> enemies s \<noteq> [] \<and> \<not> Date_now w - lastEnemyShoot s < 1000 \<and> availableEnemies s \<noteq> []"

lemma enemyShoot_quiet: "\<not> fires w s \<Longrightarrow> enemyShoot w s = s"
  by (auto simp: enemyShoot_def fires_def Let_def)

text \<open>The index \<^verbatim>\<open>Math.floor(Math.random() * n)\<close> is below \<open>n\<close> for a random number in
  \<open>[0, 1)\<close>.\<close>

lemma random_index_less:
  fixes r :: jsnum
  assumes "0 \<le> r" "r < 1" "0 < n"
  shows "nat \<lfloor>r * of_nat n\<rfloor> < n"
proof -
  have "r * of_nat n < of_nat n" using assms by simp
  then have "\<lfloor>r * of_nat n\<rfloor> < int n" by (simp add: floor_less_iff)
  then show ?thesis using assms(3) by linarith
qed

definition wf_world :: "world \<Rightarrow> bool" where
  "wf_world w \<longleftrightarrow> (\<forall>k. 0 \<le> Math_random w k \<and> Math_random w k < 1)"

definition shooter :: "world \<Rightarrow> GameEngine \<Rightarrow> Enemy" where
  "shooter w s = availableEnemies s ! nat \<lfloor>next_random w s * of_nat (length (availableEnemies s))\<rfloor>"

lemma shooter_available:
  assumes "wf_world w" "availableEnemies s \<noteq> []"
  shows "shooter w s \<in> set (availableEnemies s)"
  unfolding shooter_def
  using assms random_index_less [of "next_random w s" "length (availableEnemies s)"]
  by (simp add: wf_world_def next_random_def)

lemma enemyShoot_fires:
  assumes "fires w s"
  shows "enemyBullets (enemyShoot w s) = enemyBullets s @
           [EnemyBullet_constructor (pos_x (shooter w s) + width (shooter w s) / 2 - 2)
              (pos_y (shooter w s) + height (shooter w s)) (config_or w enemyBulletColor ''#FF0000'')]"
    and "lastEnemyShoot (enemyShoot w s) = Date_now w"
    and "randomCalls (enemyShoot w s) = Suc (randomCalls s)"
  using assms by (simp_all add: enemyShoot_def fires_def Let_def shooter_def consume_random_def)

lemma enemyShoot_adds_one:
  "length (enemyBullets (enemyShoot w s)) \<le> Suc (length (enemyBullets s))"
  by (simp add: enemyShoot_def Let_def consume_random_def)

lemma availableEnemies_no_bullets [simp]:
  "enemyBullets s = [] \<Longrightarrow> availableEnemies s = enemies s"
  by (simp add: availableEnemies_def)

lemma availableEnemies_clear:
  "e \<in> set (availableEnemies s) \<longleftrightarrow>
     e \<in> set (enemies s) \<and> \<not> list_ex (lane_blocked e) (enemyBullets s)"
  by (auto simp: availableEnemies_def)

text \<open>Claim C25. The enemies fire at most once in a second: after a call of
  \<^verbatim>\<open>enemyShoot\<close> that fires, a call less than 1000 ms later on the clock changes
  nothing.\<close>

theorem enemyShoot_rate_limit:
  assumes "fires w s" "Date_now w' - Date_now w < 1000"
  shows "enemyShoot w' (enemyShoot w s) = enemyShoot w s"
proof (rule enemyShoot_quiet)
  show "\<not> fires w' (enemyShoot w s)"
    using assms by (simp add: fires_def enemyShoot_fires(2))
qed

theorem enemyShoot_rate_limit_witness:
  "fires (demo_world\<lparr>Date_now := 1000\<rparr>) demo_state \<and>
   Date_now (demo_world\<lparr>Date_now := 1500\<rparr>) - Date_now (demo_world\<lparr>Date_now := 1000\<rparr>) < 1000 \<and>
   enemyShoot (demo_world\<lparr>Date_now := 1500\<rparr>) (enemyShoot (demo_world\<lparr>Date_now := 1000\<rparr>) demo_state) =
     enemyShoot (demo_world\<lparr>Date_now := 1000\<rparr>) demo_state"
  using enemyShoot_rate_limit [of "demo_world\<lparr>Date_now := 1000\<rparr>" demo_state
      "demo_world\<lparr>Date_now := 1500\<rparr>"]
  by (simp add: fires_def)

text \<open>Claim C26. With random numbers in \<open>[0, 1)\<close>, a call of \<^verbatim>\<open>enemyShoot\<close> that fires adds
  exactly one bullet, at the bottom centre of an enemy of the formation whose lane is
  clear of enemy bullets; in particular the random index is inside the array of
  candidates.\<close>

theorem enemyShoot_clear_lane:
  assumes "wf_world w" "fires w s"
  shows "\<exists>e \<in> set (enemies s). \<not> list_ex (lane_blocked e) (enemyBullets s) \<and>
           enemyBullets (enemyShoot w s) = enemyBullets s @
             [EnemyBullet_constructor (pos_x e + width e / 2 - 2) (pos_y e + height e)
                (config_or w enemyBulletColor ''#FF0000'')]"
proof -
  from assms have "shooter w s \<in> set (availableEnemies s)"
    by (simp add: shooter_available fires_def)
  with enemyShoot_fires(1) [OF assms(2)] show ?thesis
    by (auto simp: availableEnemies_clear)
qed

lemma wf_world_demo [simp]: "wf_world (demo_world\<lparr>Date_now := t\<rparr>)"
  by (simp add: wf_world_def)

theorem enemyShoot_clear_lane_witness:
  "wf_world (demo_world\<lparr>Date_now := 1000\<rparr>) \<and> fires (demo_world\<lparr>Date_now := 1000\<rparr>) demo_state \<and>
   (\<exists>e \<in> set (enemies demo_state). \<not> list_ex (lane_blocked e) (enemyBullets demo_state) \<and>
      enemyBullets (enemyShoot (demo_world\<lparr>Date_now := 1000\<rparr>) demo_state) =
        enemyBullets demo_state @
          [EnemyBullet_constructor (pos_x e + width e / 2 - 2) (pos_y e + height e)
             (config_or (demo_world\<lparr>Date_now := 1000\<rparr>) enemyBulletColor ''#FF0000'')])"
  using enemyShoot_clear_lane [of "demo_world\<lparr>Date_now := 1000\<rparr>" demo_state]
  by (simp add: fires_def)

section \<open>The speed ramp\<close>

lemma speedIncrease_frame [simp]:
  "gameState (speedIncrease dt s) = gameState s"
  "score (speedIncrease dt s) = score s"
  "lives (speedIncrease dt s) = lives s"
  "player (speedIncrease dt s) = player s"
  "enemies (speedIncrease dt s) = enemies s"
  "playerBullets (speedIncrease dt s) = playerBullets s"
  "enemyBullets (speedIncrease dt s) = enemyBullets s"
  "particles (speedIncrease dt s) = particles s"
  "effects (speedIncrease dt s) = effects s"
  "randomCalls (speedIncrease dt s) = randomCalls s"
  "level (speedIncrease dt s) = level s"
  "enemyDirection (speedIncrease dt s) = enemyDirection s"
  "maxSpeedIncreases (speedIncrease dt s) = maxSpeedIncreases s"
  "lastEnemyShoot (speedIncrease dt s) = lastEnemyShoot s"
  "gameTimeLimit (speedIncrease dt s) = gameTimeLimit s"
  "gameStartTime (speedIncrease dt s) = gameStartTime s"
  "timeRemaining (speedIncrease dt s) = timeRemaining s"
  "keys (speedIncrease dt s) = keys s"
  "lastTime (speedIncrease dt s) = lastTime s"
  "animationId (speedIncrease dt s) = animationId s"
  "frameRequests (speedIncrease dt s) = frameRequests s"
  "pendingFrames (speedIncrease dt s) = pendingFrames s"
  by (simp_all add: speedIncrease_def Let_def)

definition ramp_due :: "jsnum \<Rightarrow> GameEngine \<Rightarrow> bool" where
  "ramp_due dt s \<longleftrightarrow> speedIncreaseTimer s + dt > 5000 \<and> speedIncreaseCount s < maxSpeedIncreases s"

lemma speedIncrease_due:
  assumes "ramp_due dt s"
  shows "enemySpeed (speedIncrease dt s) = enemySpeed s + 1 / 2"
    and "speedIncreaseCount (speedIncrease dt s) = Suc (speedIncreaseCount s)"
    and "speedIncreaseTimer (speedIncrease dt s) = 0"
  using assms by (simp_all add: speedIncrease_def ramp_due_def Let_def)

lemma speedIncrease_not_due:
  assumes "\<not> ramp_due dt s"
  shows "enemySpeed (speedIncrease dt s) = enemySpeed s"
    and "speedIncreaseCount (speedIncrease dt s) = speedIncreaseCount s"
    and "speedIncreaseTimer (speedIncrease dt s) = speedIncreaseTimer s + dt"
  using assms by (auto simp: speedIncrease_def ramp_due_def Let_def)

section \<open>Timer and victory\<close>

lemma checkWin_frame [simp]:
  "score (checkWin w s) = score s" "lives (checkWin w s) = lives s"
  "player (checkWin w s) = player s" "enemies (checkWin w s) = enemies s"
  "playerBullets (checkWin w s) = playerBullets s" "enemyBullets (checkWin w s) = enemyBullets s"
  "particles (checkWin w s) = particles s" "randomCalls (checkWin w s) = randomCalls s"
  "timing (checkWin w s) = timing s"
  by (simp_all add: checkWin_def timing_def)

lemma checkTimer_frame [simp]:
  "score (checkTimer w s) = score s" "lives (checkTimer w s) = lives s"
  "player (checkTimer w s) = player s" "enemies (checkTimer w s) = enemies s"
  "playerBullets (checkTimer w s) = playerBullets s" "enemyBullets (checkTimer w s) = enemyBullets s"
  "particles (checkTimer w s) = particles s" "randomCalls (checkTimer w s) = randomCalls s"
  "level (checkTimer w s) = level s" "enemyDirection (checkTimer w s) = enemyDirection s"
  "enemySpeed (checkTimer w s) = enemySpeed s"
  "speedIncreaseTimer (checkTimer w s) = speedIncreaseTimer s"
  "speedIncreaseCount (checkTimer w s) = speedIncreaseCount s"
  "maxSpeedIncreases (checkTimer w s) = maxSpeedIncreases s"
  "lastEnemyShoot (checkTimer w s) = lastEnemyShoot s"
  "gameTimeLimit (checkTimer w s) = gameTimeLimit s"
  "gameStartTime (checkTimer w s) = gameStartTime s"
  "keys (checkTimer w s) = keys s" "lastTime (checkTimer w s) = lastTime s"
  "animationId (checkTimer w s) = animationId s"
  "frameRequests (checkTimer w s) = frameRequests s"
  "pendingFrames (checkTimer w s) = pendingFrames s"
  by (simp_all add: checkTimer_def Let_def checkWin_def)

lemma checkTimer_gameState:
  "gameState (checkTimer w s) =
     (if gameState s = Playing \<and>
         (gameTimeLimit s - (Date_now w - gameStartTime s) \<le> 0 \<or> enemies s = [])
      then GameOver else gameState s)"
  by (simp add: checkTimer_def Let_def checkWin_def)


section \<open>The player's move\<close>

lemma updatePlayer_frame [simp]:
  "gameState (updatePlayer w s) = gameState s" "score (updatePlayer w s) = score s"
  "lives (updatePlayer w s) = lives s" "enemies (updatePlayer w s) = enemies s"
  "playerBullets (updatePlayer w s) = playerBullets s"
  "enemyBullets (updatePlayer w s) = enemyBullets s"
  "particles (updatePlayer w s) = particles s" "effects (updatePlayer w s) = effects s"
  "randomCalls (updatePlayer w s) = randomCalls s" "timing (updatePlayer w s) = timing s"
  by (simp_all add: updatePlayer_def split: option.splits)

lemma player_updatePlayer:
  "player (updatePlayer w s) =
     map_option (Player_update (keys s) (canvas_width w) (canvas_height w)) (player s)"
  by (simp add: updatePlayer_def split: option.splits)

lemmas updatePlayer_untouched [simp] = timing_fields [OF updatePlayer_frame(10)]
lemmas updateParticles_untouched [simp] = timing_fields [OF updateParticles_frame(10)]

section \<open>One tick\<close>

text \<open>The state in which the timer and the victory test of a tick run.\<close>

definition before_checks :: "world \<Rightarrow> jsnum \<Rightarrow> GameEngine \<Rightarrow> GameEngine" where
  "before_checks w dt s = speedIncrease dt (enemyShoot w (updateParticles dt
       (updateBullets w (updateEnemies w dt (updatePlayer w s)))))"

lemma update_eq: "update w dt s = checkTimer w (before_checks w dt s)"
  by (simp add: update_def before_checks_def)

lemma before_checks_frame [simp]:
  "gameTimeLimit (before_checks w dt s) = gameTimeLimit s"
  "gameStartTime (before_checks w dt s) = gameStartTime s"
  "maxSpeedIncreases (before_checks w dt s) = maxSpeedIncreases s"
  "level (before_checks w dt s) = level s"
  "keys (before_checks w dt s) = keys s"
  "lastTime (before_checks w dt s) = lastTime s"
  "animationId (before_checks w dt s) = animationId s"
  "frameRequests (before_checks w dt s) = frameRequests s"
  "pendingFrames (before_checks w dt s) = pendingFrames s"
  by (simp_all add: before_checks_def)

lemma before_checks_play [simp]:
  "score (before_checks w dt s) = score (updateBullets w (updateEnemies w dt (updatePlayer w s)))"
  "lives (before_checks w dt s) = lives (updateBullets w (updateEnemies w dt (updatePlayer w s)))"
  "enemies (before_checks w dt s) = enemies (updateBullets w (updateEnemies w dt (updatePlayer w s)))"
  "gameState (before_checks w dt s) =
     gameState (updateBullets w (updateEnemies w dt (updatePlayer w s)))"
  "playerBullets (before_checks w dt s) =
     playerBullets (updateBullets w (updateEnemies w dt (updatePlayer w s)))"
  by (simp_all add: before_checks_def)

lemma before_checks_gameState:
  "gameState (before_checks w dt s) = gameState s \<or> gameState (before_checks w dt s) = GameOver"
  using updateBullets_lives_inv [of "updateEnemies w dt (updatePlayer w s)" w]
  by (simp add: lives_inv_def)

lemma update_frame [simp]:
  "gameTimeLimit (update w dt s) = gameTimeLimit s"
  "gameStartTime (update w dt s) = gameStartTime s"
  "maxSpeedIncreases (update w dt s) = maxSpeedIncreases s"
  "level (update w dt s) = level s"
  "keys (update w dt s) = keys s"
  "lastTime (update w dt s) = lastTime s"
  "animationId (update w dt s) = animationId s"
  "frameRequests (update w dt s) = frameRequests s"
  "pendingFrames (update w dt s) = pendingFrames s"
  by (simp_all add: update_eq)

lemma update_gameState:
  "gameState s = Playing \<Longrightarrow> gameState (update w dt s) = Playing \<or> gameState (update w dt s) = GameOver"
  using before_checks_gameState [of w dt s] by (auto simp: update_eq checkTimer_gameState)

lemma before_checks_enemies_empty:
  assumes "enemies s = []"
  shows "enemies (before_checks w dt s) = []"
proof -
  have "enemies (updatePlayerBullets w t) = []" if "enemies t = []" for t
    unfolding updatePlayerBullets_def
    by (rule for_down_invariant_const)
       (simp_all add: that playerBullet_step_def Let_def)
  then show ?thesis using assms by (simp add: updateBullets_def updateEnemies_empty)
qed

text \<open>Claim C9. When the time limit has run out on the clock, one call of \<^verbatim>\<open>update\<close> in a
  game that is being played ends the game, whatever is left of the formation.\<close>

theorem update_time_up:
  assumes "gameState s = Playing" and "gameTimeLimit s \<le> Date_now w - gameStartTime s"
  shows "gameState (update w dt s) = GameOver"
  using assms before_checks_gameState [of w dt s] by (auto simp: update_eq checkTimer_gameState)

theorem update_time_up_witness:
  "gameState demo_state = Playing \<and>
   gameTimeLimit demo_state \<le> Date_now (demo_world\<lparr>Date_now := 300000\<rparr>) - gameStartTime demo_state \<and>
   gameState (update (demo_world\<lparr>Date_now := 300000\<rparr>) 16 demo_state) = GameOver"
  using update_time_up [of demo_state "demo_world\<lparr>Date_now := 300000\<rparr>" 16] by simp

text \<open>Claim C14. When a call of \<^verbatim>\<open>update\<close> in a game that is being played leaves no enemy,
  the game is over at the end of that call.\<close>

theorem update_formation_empty:
  assumes "gameState s = Playing" and "enemies (update w dt s) = []"
  shows "gameState (update w dt s) = GameOver"
  using assms before_checks_gameState [of w dt s]
  by (auto simp: update_eq checkTimer_gameState simp del: before_checks_play)

theorem update_formation_empty_witness:
  "gameState (demo_state\<lparr>enemies := []\<rparr>) = Playing \<and>
   enemies (update demo_world 16 (demo_state\<lparr>enemies := []\<rparr>)) = [] \<and>
   gameState (update demo_world 16 (demo_state\<lparr>enemies := []\<rparr>)) = GameOver"
  using update_formation_empty [of "demo_state\<lparr>enemies := []\<rparr>" demo_world 16]
  by (simp add: update_eq before_checks_enemies_empty del: before_checks_play)

text \<open>What the end of a game by the timer or by victory tells the outside: the title of
  the overlay tells the two apart, and the timer is tested first.\<close>

lemma checkTimer_effects:
  assumes "gameState s = Playing"
  shows "effects (checkTimer w s) = effects s @
     (if gameTimeLimit s - (Date_now w - gameStartTime s) \<le> 0
      then gameOver_effects w ''Time's Up!'' ''Game Over!'' (score s)
      else if enemies s = [] then gameOver_effects w ''Victory!'' ''You won!'' (score s)
      else [])"
  using assms by (simp add: checkTimer_def checkWin_def Let_def effects_gameOverOverlay)

section \<open>Invariants of a tick\<close>

lemma remaining_points_by_rows:
  "remaining_points es =
     sum_list (map (\<lambda>r. case row_points r of Some p \<Rightarrow> p | None \<Rightarrow> 0) (map row es))"
  by (simp add: remaining_points_def points_of_def [abs_def] comp_def)

lemma remaining_points_rows:
  "map row es' = map row es \<Longrightarrow> remaining_points es' = remaining_points es"
  by (simp only: remaining_points_by_rows)

lemma score_balance_cong:
  "score t = score s \<Longrightarrow> map row (enemies t) = map row (enemies s) \<Longrightarrow>
     score_balance t = score_balance s"
  using remaining_points_rows [of "enemies t" "enemies s"] by (simp add: score_balance_def)

lemma enemyBullet_step_player_None:
  "player (enemyBullet_step w b k s) = None \<longleftrightarrow> player s = None"
  by (auto simp: enemyBullet_step_def Let_def player_initializePlayer split: option.splits)

lemma updateBullets_player_None: "player (updateBullets w s) = None \<longleftrightarrow> player s = None"
proof -
  have "player (updateEnemyBullets w t) = None \<longleftrightarrow> player t = None" for t
    unfolding updateEnemyBullets_def
    by (rule forEach_invariant [where P = "\<lambda>u. player u = None \<longleftrightarrow> player t = None"])
       (simp_all add: enemyBullet_step_player_None)
  then show ?thesis by (simp add: updateBullets_def)
qed

definition inv_points :: "GameEngine \<Rightarrow> bool" where
  "inv_points s \<longleftrightarrow> list_all wf_enemy (enemies s) \<and>
     score_balance s = Some (if player s = None then 0 else 250)"

definition inv_ramp :: "GameEngine \<Rightarrow> bool" where
  "inv_ramp s \<longleftrightarrow> speedIncreaseCount s \<le> maxSpeedIncreases s \<and> maxSpeedIncreases s = 4 \<and>
     enemySpeed s = 1 + of_nat (speedIncreaseCount s) / 2"

definition inv_misc :: "GameEngine \<Rightarrow> bool" where
  "inv_misc s \<longleftrightarrow> (enemyDirection s = 1 \<or> enemyDirection s = - 1) \<and>
     (player s = None \<longrightarrow> gameState s = Menu) \<and> level s = 1 \<and> lives s \<le> 3 \<and>
     (gameState s = Playing \<or> gameState s = Paused \<longrightarrow> 0 < lives s)"

definition inv_score :: "GameEngine \<Rightarrow> bool" where
  "inv_score s \<longleftrightarrow> (case score s of None \<Rightarrow> False | Some n \<Rightarrow> 0 \<le> n)"

definition engine_inv :: "GameEngine \<Rightarrow> bool" where
  "engine_inv s \<longleftrightarrow> length (playerBullets s) \<le> 3 \<and> inv_points s \<and> inv_score s \<and>
     inv_ramp s \<and> inv_misc s"

lemmas inv_defs =
  engine_inv_def inv_points_def inv_score_def inv_ramp_def inv_misc_def score_balance_def

lemma before_checks_inv_score:
  assumes "list_all wf_enemy (enemies s)" "inv_score s"
  shows "inv_score (before_checks w dt s)"
proof -
  let ?t = "updateEnemies w dt (updatePlayer w s)"
  from assms(2) obtain n where n: "score s = Some n" "0 \<le> n"
    by (auto simp: inv_score_def split: option.splits)
  from assms(1) have "list_all wf_enemy (enemies ?t)" by simp
  moreover from n have "score ?t = Some n" by simp
  ultimately obtain m where "n \<le> m" "score (updatePlayerBullets w ?t) = Some m"
    using updatePlayerBullets_score_mono by blast
  with n(2) show ?thesis by (simp add: inv_score_def updateBullets_def)
qed

lemma before_checks_inv_points:
  assumes "inv_points s"
  shows "inv_points (before_checks w dt s)"
proof -
  let ?t = "updateEnemies w dt (updatePlayer w s)"
  have t: "list_all wf_enemy (enemies ?t)" "score_balance ?t = score_balance s"
    using assms by (simp add: inv_points_def) (rule score_balance_cong, simp_all)
  have "player (before_checks w dt s) = None \<longleftrightarrow> player s = None"
    by (simp add: before_checks_def updateBullets_player_None player_updatePlayer)
  moreover have "score_balance (before_checks w dt s) = score_balance (updateBullets w ?t)"
    by (simp add: score_balance_def)
  ultimately show ?thesis
    using updateBullets_balance [OF t(1), of w] t(2) assms by (simp add: inv_points_def)
qed

lemma speedIncrease_inv_ramp: "inv_ramp s \<Longrightarrow> inv_ramp (speedIncrease dt s)"
  by (cases "ramp_due dt s")
    (auto simp: inv_ramp_def speedIncrease_due speedIncrease_not_due ramp_due_def
      add_divide_distrib)

lemma before_checks_ramp:
  "enemySpeed (before_checks w dt s) = enemySpeed (speedIncrease dt s)"
  "speedIncreaseCount (before_checks w dt s) = speedIncreaseCount (speedIncrease dt s)"
  "speedIncreaseTimer (before_checks w dt s) = speedIncreaseTimer (speedIncrease dt s)"
  by (simp_all add: before_checks_def speedIncrease_def Let_def)

lemma update_ramp:
  "enemySpeed (update w dt s) = enemySpeed (speedIncrease dt s)"
  "speedIncreaseCount (update w dt s) = speedIncreaseCount (speedIncrease dt s)"
  "speedIncreaseTimer (update w dt s) = speedIncreaseTimer (speedIncrease dt s)"
  by (simp_all add: update_eq before_checks_ramp)

lemma before_checks_inv_ramp: "inv_ramp s \<Longrightarrow> inv_ramp (before_checks w dt s)"
  using speedIncrease_inv_ramp [of s dt] by (simp add: inv_ramp_def before_checks_ramp)

lemma updateEnemies_direction:
  "enemyDirection (updateEnemies w dt s) = enemyDirection s \<or>
   enemyDirection (updateEnemies w dt s) = - enemyDirection s"
  by (cases "wall_hit w s") (simp_all add: updateEnemies_hit updateEnemies_no_hit)

lemma before_checks_direction:
  "enemyDirection (before_checks w dt s) = enemyDirection (updateEnemies w dt (updatePlayer w s))"
  by (simp add: before_checks_def)

lemma before_checks_inv_misc:
  assumes "inv_misc s" "gameState s = Playing"
  shows "inv_misc (before_checks w dt s)"
proof -
  from assms have "player s \<noteq> None" by (auto simp: inv_misc_def)
  then have pl: "player (before_checks w dt s) \<noteq> None"
    by (simp add: before_checks_def updateBullets_player_None player_updatePlayer)
  from assms(1) have "enemyDirection s = 1 \<or> enemyDirection s = - 1"
    by (simp add: inv_misc_def)
  with updateEnemies_direction [of w dt "updatePlayer w s"]
  have d: "enemyDirection (before_checks w dt s) = 1 \<or> enemyDirection (before_checks w dt s) = - 1"
    unfolding before_checks_direction by auto
  from assms(1) have "level (before_checks w dt s) = 1" by (simp add: inv_misc_def)
  moreover from assms updateBullets_lives_inv [of "updateEnemies w dt (updatePlayer w s)" w]
  have "lives (before_checks w dt s) \<le> 3"
    "gameState (before_checks w dt s) \<noteq> Paused"
    "gameState (before_checks w dt s) = Playing \<longrightarrow> 0 < lives (before_checks w dt s)"
    by (auto simp: inv_misc_def lives_inv_def)
  ultimately show ?thesis using pl d by (auto simp: inv_misc_def)
qed

lemma checkTimer_inv:
  "inv_points (checkTimer w s) = inv_points s"
  "inv_ramp (checkTimer w s) = inv_ramp s"
  "inv_score (checkTimer w s) = inv_score s"
  by (simp_all add: inv_points_def inv_ramp_def inv_score_def score_balance_def)

lemma checkTimer_inv_misc:
  "inv_misc s \<Longrightarrow> player s \<noteq> None \<Longrightarrow> inv_misc (checkTimer w s)"
  by (auto simp: inv_misc_def checkTimer_gameState)

lemma update_inv:
  assumes "engine_inv s" "gameState s = Playing"
  shows "engine_inv (update w dt s)"
proof -
  from assms have p: "player s \<noteq> None" by (auto simp: engine_inv_def inv_misc_def)
  then have p': "player (before_checks w dt s) \<noteq> None"
    by (simp add: before_checks_def updateBullets_player_None player_updatePlayer)
  have "length (playerBullets (update w dt s)) \<le> 3"
    using assms(1) updatePlayerBullets_length [of w "updateEnemies w dt (updatePlayer w s)"]
    by (simp add: update_eq engine_inv_def updateBullets_def)
  moreover have "inv_points (update w dt s)"
    using assms(1) by (simp add: update_eq checkTimer_inv before_checks_inv_points engine_inv_def)
  moreover have "inv_ramp (update w dt s)"
    using assms(1) by (simp add: update_eq checkTimer_inv before_checks_inv_ramp engine_inv_def)
  moreover have "inv_score (update w dt s)"
    using assms(1)
    by (simp add: update_eq checkTimer_inv before_checks_inv_score engine_inv_def inv_points_def)
  moreover have "inv_misc (update w dt s)"
    using assms p' unfolding update_eq
    by (intro checkTimer_inv_misc before_checks_inv_misc) (simp_all add: engine_inv_def)
  ultimately show ?thesis by (simp add: engine_inv_def)
qed
lemma engine_inv_cong:
  assumes "playerBullets t = playerBullets s" "enemies t = enemies s" "score t = score s"
    "player t = player s" "lives t = lives s" "gameState t = gameState s" "level t = level s"
    "enemyDirection t = enemyDirection s" "enemySpeed t = enemySpeed s"
    "speedIncreaseCount t = speedIncreaseCount s" "maxSpeedIncreases t = maxSpeedIncreases s"
  shows "engine_inv t = engine_inv s"
  by (simp add: inv_defs assms)

section \<open>The loop\<close>

lemma requestAnimationFrame_frame [simp]:
  "gameState (requestAnimationFrame s) = gameState s"
  "score (requestAnimationFrame s) = score s" "lives (requestAnimationFrame s) = lives s"
  "level (requestAnimationFrame s) = level s" "lastTime (requestAnimationFrame s) = lastTime s"
  "player (requestAnimationFrame s) = player s" "enemies (requestAnimationFrame s) = enemies s"
  "playerBullets (requestAnimationFrame s) = playerBullets s"
  "enemyBullets (requestAnimationFrame s) = enemyBullets s"
  "particles (requestAnimationFrame s) = particles s"
  "enemyDirection (requestAnimationFrame s) = enemyDirection s"
  "enemySpeed (requestAnimationFrame s) = enemySpeed s"
  "lastEnemyShoot (requestAnimationFrame s) = lastEnemyShoot s"
  "speedIncreaseTimer (requestAnimationFrame s) = speedIncreaseTimer s"
  "speedIncreaseCount (requestAnimationFrame s) = speedIncreaseCount s"
  "maxSpeedIncreases (requestAnimationFrame s) = maxSpeedIncreases s"
  "gameTimeLimit (requestAnimationFrame s) = gameTimeLimit s"
  "gameStartTime (requestAnimationFrame s) = gameStartTime s"
  "timeRemaining (requestAnimationFrame s) = timeRemaining s"
  "keys (requestAnimationFrame s) = keys s" "effects (requestAnimationFrame s) = effects s"
  "randomCalls (requestAnimationFrame s) = randomCalls s"
  "frameRequests (requestAnimationFrame s) = Suc (frameRequests s)"
  "pendingFrames (requestAnimationFrame s) = pendingFrames s @ [Suc (frameRequests s)]"
  "animationId (requestAnimationFrame s) = Some (Suc (frameRequests s))"
  by (simp_all add: requestAnimationFrame_def Let_def)

lemma gameLoop_idle: "gameState s \<noteq> Playing \<Longrightarrow> gameLoop w t s = s"
  by (simp add: gameLoop_def)

lemma gameLoop_playing:
  "gameState s = Playing \<Longrightarrow>
     gameLoop w t s =
       requestAnimationFrame (render w (update w (t - lastTime s) (s\<lparr>lastTime := t\<rparr>)))"
  by (simp add: gameLoop_def Let_def)

lemma gameLoop_frames:
  assumes "gameState s = Playing"
  shows "lastTime (gameLoop w t s) = t"
    and "frameRequests (gameLoop w t s) = Suc (frameRequests s)"
    and "pendingFrames (gameLoop w t s) = pendingFrames s @ [Suc (frameRequests s)]"
    and "animationId (gameLoop w t s) = Some (Suc (frameRequests s))"
  using assms by (simp_all add: gameLoop_playing)

lemma gameLoop_gameState:
  "gameState (gameLoop w t s) = gameState s \<or>
   gameState s = Playing \<and> gameState (gameLoop w t s) = GameOver"
  using update_gameState [of "s\<lparr>lastTime := t\<rparr>" w "t - lastTime s"]
  by (cases "gameState s = Playing") (auto simp: gameLoop_playing gameLoop_idle)

text \<open>A frame only adds effects.\<close>

lemma checkTimer_logs: "logs_more s (checkTimer w s)"
  by (simp add: checkTimer_def checkWin_def Let_def logs_more_def effects_gameOverOverlay)

lemma before_checks_logs: "logs_more s (before_checks w dt s)"
proof -
  have "logs_more s (updateEnemies w dt (updatePlayer w s))"
    by (simp add: logs_more_same)
  then have "logs_more s (updateBullets w (updateEnemies w dt (updatePlayer w s)))"
    by (rule logs_more_trans [OF _ updateBullets_logs])
  then show ?thesis
    by (rule logs_more_then_same) (simp add: before_checks_def)
qed

lemma update_logs: "logs_more s (update w dt s)"
  unfolding update_eq by (rule logs_more_trans [OF before_checks_logs checkTimer_logs])

lemma render_logs: "logs_more s (render w s)"
  by (rule logs_more_append) (rule effects_render)

lemma gameLoop_logs: "logs_more s (gameLoop w t s)"
proof (cases "gameState s = Playing")
  case True
  have "logs_more s (s\<lparr>lastTime := t\<rparr>)" by (simp add: logs_more_same)
  also have "logs_more \<dots> (update w (t - lastTime s) (s\<lparr>lastTime := t\<rparr>))" by (rule update_logs)
  also have "logs_more \<dots> (render w (update w (t - lastTime s) (s\<lparr>lastTime := t\<rparr>)))"
    by (rule render_logs)
  finally show ?thesis using True by (simp add: gameLoop_playing logs_more_def)
qed (simp add: gameLoop_idle)

lemma effects_gameLoop:
  assumes "gameState s = Playing"
  shows "effects (gameLoop w t s) =
     effects (render w (update w (t - lastTime s) (s\<lparr>lastTime := t\<rparr>)))"
  using assms by (simp add: gameLoop_playing)

lemma gameLoop_ramp:
  assumes "gameState s = Playing"
  shows "speedIncreaseTimer (gameLoop w t s) = speedIncreaseTimer (speedIncrease (t - lastTime s) s)"
    and "speedIncreaseCount (gameLoop w t s) = speedIncreaseCount (speedIncrease (t - lastTime s) s)"
    and "enemySpeed (gameLoop w t s) = enemySpeed (speedIncrease (t - lastTime s) s)"
  using assms by (simp_all add: gameLoop_playing update_ramp speedIncrease_def Let_def)

lemma gameLoop_inv: "engine_inv s \<Longrightarrow> engine_inv (gameLoop w t s)"
proof (cases "gameState s = Playing")
  case True
  let ?u = "update w (t - lastTime s) (s\<lparr>lastTime := t\<rparr>)"
  assume "engine_inv s"
  moreover have "engine_inv (s\<lparr>lastTime := t\<rparr>) = engine_inv s"
    by (rule engine_inv_cong) simp_all
  ultimately have "engine_inv ?u" using True by (simp add: update_inv)
  moreover have "engine_inv (requestAnimationFrame (render w ?u)) = engine_inv ?u"
    by (rule engine_inv_cong) simp_all
  ultimately show ?thesis using True by (simp add: gameLoop_playing)
qed (simp add: gameLoop_idle)

text \<open>Claim C36. A call of \<^verbatim>\<open>gameLoop\<close> in a game that is being played records the time of
  the frame and asks for exactly one further frame, whose handle it stores, also when
  the game has ended in this call.\<close>

theorem gameLoop_requests_one_frame:
  assumes "gameState s = Playing"
  shows "pendingFrames (gameLoop w t s) = pendingFrames s @ [Suc (frameRequests s)] \<and>
         animationId (gameLoop w t s) = Some (Suc (frameRequests s)) \<and>
         lastTime (gameLoop w t s) = t"
  using assms by (simp add: gameLoop_frames)

theorem gameLoop_requests_one_frame_witness:
  "gameState demo_state = Playing \<and>
   pendingFrames (gameLoop demo_world 16 demo_state) =
     pendingFrames demo_state @ [Suc (frameRequests demo_state)] \<and>
   animationId (gameLoop demo_world 16 demo_state) = Some (Suc (frameRequests demo_state)) \<and>
   lastTime (gameLoop demo_world 16 demo_state) = 16"
  using gameLoop_requests_one_frame [of demo_state demo_world 16] by simp

text \<open>A frame of a game in which nothing is in flight, with enemies left and time left,
  leaves the game being played.\<close>

lemma updateBullets_no_bullets:
  "playerBullets s = [] \<Longrightarrow> enemyBullets s = [] \<Longrightarrow> updateBullets w s = s"
  by (simp add: updateBullets_def updatePlayerBullets_def updateEnemyBullets_def)

lemma update_quiet:
  assumes "gameState s = Playing" "playerBullets s = []" "enemyBullets s = []"
    "enemies s \<noteq> []" "Date_now w - gameStartTime s < gameTimeLimit s"
  shows "gameState (update w dt s) = Playing"
proof -
  let ?t = "updateEnemies w dt (updatePlayer w s)"
  from assms(2,3) have "updateBullets w ?t = ?t" by (simp add: updateBullets_no_bullets)
  with assms show ?thesis by (simp add: update_eq checkTimer_gameState)
qed

lemma gameLoop_quiet:
  assumes "gameState s = Playing" "playerBullets s = []" "enemyBullets s = []"
    "enemies s \<noteq> []" "Date_now w - gameStartTime s < gameTimeLimit s"
  shows "gameState (gameLoop w t s) = Playing"
  using assms by (simp add: gameLoop_playing update_quiet)

end
