(* ===== verification/Controls.thy ===== *)
theory Controls
  imports Game_Loop
begin

text \<open>
  What the player and the browser do to the engine: the buttons (\<^verbatim>\<open>startGame\<close>,
  \<^verbatim>\<open>restartGame\<close>, \<^verbatim>\<open>togglePause\<close>, \<^verbatim>\<open>stopGame\<close>), the two keyboard listeners of
  \<^verbatim>\<open>setupEventListeners\<close>, and the frame callback that \<^verbatim>\<open>gameLoop\<close> registers.
  \<open>event\<close> names these inputs, \<open>dispatch\<close> runs the listener of one of them and \<open>run\<close> a
  sequence of them, each with the world in which it happens. A frame event runs the
  oldest callback that is pending; the callbacks are the handles of \<open>pendingFrames\<close>.
  \<open>reachable\<close> is the set of states that the constructor and the events produce.
  The lemmas show what \<^verbatim>\<open>startGame\<close> resets, that every handler preserves \<open>engine_inv\<close>, and
  hence what holds in every reachable state: the limit of three bullets, the balance of
  score and remaining points, the bounds of the speed ramp and of the lives, and the
  shape of the enemies.
\<close>

section \<open>The buttons and the keys\<close>

definition startGame :: "world \<Rightarrow> GameEngine \<Rightarrow> GameEngine" where
  "startGame w s =
     (let s1 = s\<lparr>gameState := Playing, score := Some 0, lives := 3, level := 1, enemySpeed := 1,
                  enemyDirection := 1, enemyShootTimer := 0, lastEnemyShoot := 0,
                  speedIncreaseTimer := 0, speedIncreaseCount := 0\<rparr>;
          gameTimeMinutes = config_or w gameTime 5;
          s2 = s1\<lparr>gameTimeLimit := gameTimeMinutes * 60 * 1000, gameStartTime := Date_now w,
                   timeRemaining := gameTimeMinutes * 60 * 1000\<rparr>;
          s3 = initializeEnemies w (initializePlayer w s2);
          s4 = s3\<lparr>playerBullets := [], enemyBullets := [], particles := []\<rparr>;
          s5 = startBackgroundMusic (hideOverlay (updateInstructions w s4));
          s6 = s5\<lparr>lastTime := performance_now w\<rparr>
      in gameLoop w 0 s6)"

definition restartGame :: "world \<Rightarrow> GameEngine \<Rightarrow> GameEngine" where
  "restartGame w s = startGame w s"

definition stopGame :: "GameEngine \<Rightarrow> GameEngine" where
  "stopGame s =
     (let s1 = (case animationId s of
                  None \<Rightarrow> s
                | Some h \<Rightarrow> if h \<noteq> 0 then (cancelAnimationFrame h s)\<lparr>animationId := None\<rparr> else s)
      in stopBackgroundMusic (s1\<lparr>gameState := Menu\<rparr>))"

definition togglePause :: "world \<Rightarrow> GameEngine \<Rightarrow> GameEngine" where
  "togglePause w s =
     (if gameState s = Playing
      then stopBackgroundMusic (showOverlay ''Game Paused'' ''Click Resume to continue''
             (s\<lparr>gameState := Paused\<rparr>))
      else if gameState s = Paused
      then gameLoop w 0 (startBackgroundMusic (hideOverlay (s\<lparr>gameState := Playing\<rparr>)))
      else s)"

definition keydown :: "world \<Rightarrow> string \<Rightarrow> GameEngine \<Rightarrow> GameEngine" where
  "keydown w code s =
     (let s1 = s\<lparr>keys := (keys s)(code := True)\<rparr>
      in if code = config_or w shootKey ''Space'' \<and> gameState s1 = Playing
         then playerShoot w s1 else s1)"

definition keyup :: "string \<Rightarrow> GameEngine \<Rightarrow> GameEngine" where
  "keyup code s = s\<lparr>keys := (keys s)(code := False)\<rparr>"

section \<open>Events\<close>

datatype event =
    KeyDown string | KeyUp string
  | ClickStart | ClickPause | ClickRestart | ClickExit
  | Frame jsnum

definition is_GameOverShown :: "effect \<Rightarrow> bool" where
  "is_GameOverShown e = (case e of GameOverShown _ _ _ \<Rightarrow> True | _ \<Rightarrow> False)"

definition animation_frame :: "world \<Rightarrow> jsnum \<Rightarrow> GameEngine \<Rightarrow> GameEngine" where
  "animation_frame w time s =
     (case pendingFrames s of
        [] \<Rightarrow> s
      | h # hs \<Rightarrow> gameLoop w time (s\<lparr>pendingFrames := hs\<rparr>))"

fun dispatch :: "world \<Rightarrow> event \<Rightarrow> GameEngine \<Rightarrow> GameEngine" where
  "dispatch w (KeyDown code) s = keydown w code s"
| "dispatch w (KeyUp code) s = keyup code s"
| "dispatch w ClickStart s = startGame w s"
| "dispatch w ClickPause s = togglePause w s"
| "dispatch w ClickRestart s =
     (if list_ex is_GameOverShown (effects s)
      then hideOverlay (restartGame w (restartGame w s))
      else restartGame w s)"
| "dispatch w ClickExit s = stopGame s"
| "dispatch w (Frame time) s = animation_frame w time s"

fun run :: "GameEngine \<Rightarrow> (world \<times> event) list \<Rightarrow> GameEngine" where
  "run s [] = s"
| "run s ((w, e) # es) = run (dispatch w e s) es"


text \<open>The states that the engine can reach from its construction.\<close>

inductive reachable :: "GameEngine \<Rightarrow> bool" where
  init: "reachable GameEngine_constructor"
| step: "reachable s \<Longrightarrow> reachable (dispatch w e s)"

section \<open>Starting\<close>

text \<open>The state in which \<^verbatim>\<open>startGame\<close> calls \<^verbatim>\<open>gameLoop\<close>.\<close>

definition start_state :: "world \<Rightarrow> GameEngine \<Rightarrow> GameEngine" where
  "start_state w s =
     (startBackgroundMusic (hideOverlay (updateInstructions w
        ((initializeEnemies w (initializePlayer w
           (s\<lparr>gameState := Playing, score := Some 0, lives := 3, level := 1, enemySpeed := 1,
              enemyDirection := 1, enemyShootTimer := 0, lastEnemyShoot := 0,
              speedIncreaseTimer := 0, speedIncreaseCount := 0,
              gameTimeLimit := config_or w gameTime 5 * 60 * 1000, gameStartTime := Date_now w,
              timeRemaining := config_or w gameTime 5 * 60 * 1000\<rparr>)))
         \<lparr>playerBullets := [], enemyBullets := [], particles := []\<rparr>))))
     \<lparr>lastTime := performance_now w\<rparr>"

lemma startGame_eq: "startGame w s = gameLoop w 0 (start_state w s)"
  by (simp add: startGame_def start_state_def Let_def)

lemma start_state_simps [simp]:
  "gameState (start_state w s) = Playing" "score (start_state w s) = Some 0"
  "lives (start_state w s) = 3" "level (start_state w s) = 1"
  "enemySpeed (start_state w s) = 1" "enemyDirection (start_state w s) = 1"
  "lastEnemyShoot (start_state w s) = 0" "speedIncreaseTimer (start_state w s) = 0"
  "speedIncreaseCount (start_state w s) = 0"
  "maxSpeedIncreases (start_state w s) = maxSpeedIncreases s"
  "gameTimeLimit (start_state w s) = config_or w gameTime 5 * 60 * 1000"
  "gameStartTime (start_state w s) = Date_now w"
  "timeRemaining (start_state w s) = config_or w gameTime 5 * 60 * 1000"
  "playerBullets (start_state w s) = []" "enemyBullets (start_state w s) = []"
  "particles (start_state w s) = []" "lastTime (start_state w s) = performance_now w"
  "keys (start_state w s) = keys s" "animationId (start_state w s) = animationId s"
  "frameRequests (start_state w s) = frameRequests s"
  "pendingFrames (start_state w s) = pendingFrames s"
  "randomCalls (start_state w s) = Suc (randomCalls s)"
  by (simp_all add: start_state_def engine_defs)

lemma start_state_objects [simp]:
  "player (start_state w s) =
     Some (Player_constructor (Math_random w (randomCalls s) * (canvas_width w - 40))
            (canvas_height w - 60) (config_or w playerColor ''#4CAF50''))"
  "enemies (start_state w s) = enemies (initializeEnemies w s)"
  "effects (start_state w s) = effects s @
     [InstructionsUpdated (keyName (config_or w shootKey ''Space'')) (config_or w gameTime 5),
      OverlayHidden, BackgroundMusicPlay]"
  by (simp_all add: start_state_def engine_defs player_initializePlayer enemies_initializeEnemies)

lemma start_state_inv: "maxSpeedIncreases s = 4 \<Longrightarrow> engine_inv (start_state w s)"
  by (simp add: inv_defs
      remaining_points_grid)

lemma engine_inv_max: "engine_inv s \<Longrightarrow> maxSpeedIncreases s = 4"
  by (simp add: engine_inv_def inv_ramp_def)

lemma startGame_inv: "engine_inv s \<Longrightarrow> engine_inv (startGame w s)"
  by (simp add: startGame_eq gameLoop_inv start_state_inv engine_inv_max)

lemma startGame_pending:
  "pendingFrames (startGame w s) = pendingFrames s @ [Suc (frameRequests s)]"
  "frameRequests (startGame w s) = Suc (frameRequests s)"
  "lastTime (startGame w s) = 0"
  by (simp_all add: startGame_eq gameLoop_frames)

lemma startGame_playing: "0 < config_or w gameTime 5 \<Longrightarrow> gameState (startGame w s) = Playing"
  by (simp add: startGame_eq gameLoop_quiet)

lemma startGame_gameState:
  "gameState (startGame w s) = Playing \<or> gameState (startGame w s) = GameOver"
  using gameLoop_gameState [of w 0 "start_state w s"] by (auto simp: startGame_eq)

lemma startGame_fields:
  "score (startGame w s) = Some 0" "lives (startGame w s) = 3" "level (startGame w s) = 1"
  "playerBullets (startGame w s) = []" "particles (startGame w s) = []"
  "length (enemies (startGame w s)) = 20" "length (enemyBullets (startGame w s)) \<le> 1"
proof -
  let ?s = "(start_state w s)\<lparr>lastTime := 0\<rparr>"
  let ?t = "\<lambda>dt. updateParticles dt (updateEnemies w dt (updatePlayer w ?s))"
  have b: "before_checks w dt ?s = speedIncrease dt (enemyShoot w (?t dt))" for dt
    by (simp add: before_checks_def updateBullets_no_bullets)
  have g: "startGame w s = requestAnimationFrame (render w (checkTimer w
      (before_checks w (- performance_now w) ?s)))"
    by (simp add: startGame_eq gameLoop_playing update_eq)
  show "score (startGame w s) = Some 0" "lives (startGame w s) = 3" "level (startGame w s) = 1"
    "playerBullets (startGame w s) = []" "length (enemies (startGame w s)) = 20"
    unfolding g b by (simp_all add: length_initializeEnemies)
  show "particles (startGame w s) = []"
    unfolding g b by (simp add: updateParticles_def particle_loop)
  show "length (enemyBullets (startGame w s)) \<le> 1"
    unfolding g b using enemyShoot_adds_one [of w "?t (- performance_now w)"] by simp
qed

text \<open>Claim C17. \<^verbatim>\<open>startGame\<close> resets the session whatever the state before: the score is 0,
  there are three lives, a full formation of twenty enemies, no player bullet and no
  particle, and at most the one enemy bullet that the first frame may have fired; with
  a positive time limit the game is being played.\<close>

theorem startGame_resets:
  assumes "0 < config_or w gameTime 5"
  shows "gameState (startGame w s) = Playing \<and> score (startGame w s) = Some 0 \<and>
         lives (startGame w s) = 3 \<and> length (enemies (startGame w s)) = 20 \<and>
         playerBullets (startGame w s) = [] \<and> particles (startGame w s) = [] \<and>
         length (enemyBullets (startGame w s)) \<le> 1"
  using assms startGame_fields [of w s] by (simp add: startGame_playing)

theorem startGame_resets_witness:
  "0 < config_or demo_world gameTime 5 \<and>
   gameState (startGame demo_world demo_hit) = Playing \<and>
   score (startGame demo_world demo_hit) = Some 0 \<and> lives (startGame demo_world demo_hit) = 3 \<and>
   length (enemies (startGame demo_world demo_hit)) = 20 \<and>
   playerBullets (startGame demo_world demo_hit) = [] \<and>
   particles (startGame demo_world demo_hit) = [] \<and>
   length (enemyBullets (startGame demo_world demo_hit)) \<le> 1"
  using startGame_resets [of demo_world demo_hit] by (simp add: config_or_def)

section \<open>Pausing, stopping and the keys\<close>

lemma emit_inv [simp]: "engine_inv (emit e s) = engine_inv s"
  by (rule engine_inv_cong) simp_all

lemma togglePause_inv: "engine_inv s \<Longrightarrow> engine_inv (togglePause w s)"
proof -
  assume inv: "engine_inv s"
  have "engine_inv (s\<lparr>gameState := Paused\<rparr>)" if "gameState s = Playing"
    using inv that by (auto simp: inv_defs)
  moreover have "engine_inv (s\<lparr>gameState := Playing\<rparr>)" if "gameState s = Paused"
    using inv that by (auto simp: inv_defs)
  ultimately show ?thesis
    by (simp add: togglePause_def inv gameLoop_inv startBackgroundMusic_def
        stopBackgroundMusic_def hideOverlay_def showOverlay_def)
qed

lemma togglePause_gameState:
  "gameState (togglePause w s) =
     (if gameState s = Playing then Paused
      else if gameState s = Paused
      then gameState (gameLoop w 0 (startBackgroundMusic (hideOverlay (s\<lparr>gameState := Playing\<rparr>))))
      else gameState s)"
  by (simp add: togglePause_def engine_defs)

lemma stopGame_frame [simp]:
  "gameState (stopGame s) = Menu" "score (stopGame s) = score s" "lives (stopGame s) = lives s"
  "level (stopGame s) = level s" "player (stopGame s) = player s"
  "enemies (stopGame s) = enemies s" "playerBullets (stopGame s) = playerBullets s"
  "enemyBullets (stopGame s) = enemyBullets s" "particles (stopGame s) = particles s"
  "enemyDirection (stopGame s) = enemyDirection s" "enemySpeed (stopGame s) = enemySpeed s"
  "speedIncreaseCount (stopGame s) = speedIncreaseCount s"
  "maxSpeedIncreases (stopGame s) = maxSpeedIncreases s"
  "effects (stopGame s) = effects s @ [BackgroundMusicStop]"
  "frameRequests (stopGame s) = frameRequests s"
  by (simp_all add: stopGame_def engine_defs split: option.splits)

lemma stopGame_pending:
  "pendingFrames (stopGame s) =
     (case animationId s of None \<Rightarrow> pendingFrames s
      | Some h \<Rightarrow> if h \<noteq> 0 then removeAll h (pendingFrames s) else pendingFrames s)"
  by (simp add: stopGame_def engine_defs split: option.splits)

lemma stopGame_inv: "engine_inv s \<Longrightarrow> engine_inv (stopGame s)"
  by (auto simp: inv_defs)

lemma keyup_inv: "engine_inv s \<Longrightarrow> engine_inv (keyup code s)"
  unfolding keyup_def by (subst engine_inv_cong [of _ s]) simp_all

lemma playerShoot_inv: "engine_inv s \<Longrightarrow> engine_inv (playerShoot w s)"
  by (auto simp: inv_defs
      playerShoot_def split: option.splits)

lemma keydown_inv: "engine_inv s \<Longrightarrow> engine_inv (keydown w code s)"
proof -
  assume "engine_inv s"
  moreover have "engine_inv (s\<lparr>keys := k\<rparr>) = engine_inv s" for k
    by (rule engine_inv_cong) simp_all
  ultimately show ?thesis by (simp add: keydown_def Let_def playerShoot_inv)
qed

lemma keys_gameState [simp]:
  "gameState (keyup code s) = gameState s" "gameState (keydown w code s) = gameState s"
  by (simp_all add: keyup_def keydown_def Let_def)

section \<open>Every event keeps the invariant\<close>

lemma animation_frame_inv: "engine_inv s \<Longrightarrow> engine_inv (animation_frame w t s)"
proof (cases "pendingFrames s")
  case (Cons h hs)
  assume "engine_inv s"
  moreover have "engine_inv (s\<lparr>pendingFrames := hs\<rparr>) = engine_inv s"
    by (rule engine_inv_cong) simp_all
  ultimately show ?thesis using Cons by (simp add: animation_frame_def gameLoop_inv)
qed (simp add: animation_frame_def)

lemma constructor_inv: "engine_inv GameEngine_constructor"
  by (simp add: inv_defs
      remaining_points_def)

lemma dispatch_inv: "engine_inv s \<Longrightarrow> engine_inv (dispatch w e s)"
  by (cases e)
    (simp_all add: keydown_inv keyup_inv startGame_inv togglePause_inv stopGame_inv
      animation_frame_inv restartGame_def hideOverlay_def)

lemma reachable_inv: "reachable s \<Longrightarrow> engine_inv s"
  by (induction rule: reachable.induct) (simp_all add: constructor_inv dispatch_inv)

lemma reachable_run: "reachable s \<Longrightarrow> reachable (run s es)"
  by (induction s es rule: run.induct) (simp_all add: reachable.step)

lemma run_append: "run s (es @ fs) = run (run s es) fs"
  by (induction s es rule: run.induct) simp_all

lemma reachable_is_run: "reachable s \<Longrightarrow> \<exists>es. s = run GameEngine_constructor es"
proof (induction rule: reachable.induct)
  case init
  have "GameEngine_constructor = run GameEngine_constructor []" by simp
  then show ?case ..
next
  case (step s w e)
  from step.IH obtain es where "s = run GameEngine_constructor es" ..
  then have "dispatch w e s = run GameEngine_constructor (es @ [(w, e)])"
    by (simp add: run_append)
  then show ?case ..
qed


section \<open>What holds in every reachable state\<close>

lemma gameLoop_player_None: "player (gameLoop w t s) = None \<longleftrightarrow> player s = None"
  by (cases "gameState s = Playing")
    (simp_all add: gameLoop_playing gameLoop_idle update_eq before_checks_def
      updateBullets_player_None player_updatePlayer)

lemma startGame_player: "player (startGame w s) \<noteq> None"
  by (simp add: startGame_eq gameLoop_player_None)

lemma reachable_started [simp]: "reachable (startGame w GameEngine_constructor)"
  using reachable.step [OF reachable.init, of w ClickStart] by simp

lemma remaining_points_nonneg: "0 \<le> remaining_points es"
  by (auto simp: remaining_points_def intro!: sum_list_nonneg points_of_nonneg)

text \<open>Claim C11. In every reachable state at most three player bullets are alive.\<close>

theorem reachable_bullet_limit: "reachable s \<Longrightarrow> length (playerBullets s) \<le> 3"
  by (drule reachable_inv) (simp add: engine_inv_def)

theorem reachable_bullet_limit_witness:
  "reachable (startGame demo_world GameEngine_constructor) \<and>
   length (playerBullets (startGame demo_world GameEngine_constructor)) \<le> 3"
  using reachable_bullet_limit [of "startGame demo_world GameEngine_constructor"] by simp

text \<open>Claim C1. In every reachable state of a game that has been started, the score is a
  number that is not negative, and the score and the points of the enemies that are
  left add up to 250, the value of a full formation: the score is at most 250, and it
  is 250 when the formation is empty.\<close>

theorem reachable_score_balance:
  assumes "reachable s" "player s \<noteq> None"
  shows "\<exists>n. score s = Some n \<and> 0 \<le> n \<and> n \<le> 250 \<and> n + remaining_points (enemies s) = 250"
proof -
  from assms reachable_inv [of s] have "score_balance s = Some 250" "inv_score s"
    by (simp_all add: engine_inv_def inv_points_def)
  then obtain n where "score s = Some n" "n + remaining_points (enemies s) = 250" "0 \<le> n"
    by (auto simp: score_balance_def inv_score_def)
  with remaining_points_nonneg [of "enemies s"] show ?thesis by simp
qed

theorem reachable_score_balance_witness:
  "reachable (startGame demo_world GameEngine_constructor) \<and>
   player (startGame demo_world GameEngine_constructor) \<noteq> None \<and>
   (\<exists>n. score (startGame demo_world GameEngine_constructor) = Some n \<and> 0 \<le> n \<and> n \<le> 250 \<and>
     n + remaining_points (enemies (startGame demo_world GameEngine_constructor)) = 250)"
  using reachable_score_balance [of "startGame demo_world GameEngine_constructor"]
  by (simp add: startGame_player)

text \<open>Claim C12. In every reachable state the enemy speed has been raised at most four
  times, by one half each time: it is one plus half the count of the raises, so it lies
  between 1 and 3.\<close>

theorem reachable_speed_ramp:
  assumes "reachable s"
  shows "speedIncreaseCount s \<le> 4 \<and> enemySpeed s = 1 + of_nat (speedIncreaseCount s) / 2 \<and>
         1 \<le> enemySpeed s \<and> enemySpeed s \<le> 3"
proof -
  from assms reachable_inv [of s]
  have "speedIncreaseCount s \<le> 4" "enemySpeed s = 1 + of_nat (speedIncreaseCount s) / 2"
    by (simp_all add: engine_inv_def inv_ramp_def)
  moreover from this(1) have "(of_nat (speedIncreaseCount s) :: rat) \<le> 4" by simp
  ultimately show ?thesis by simp
qed

theorem reachable_speed_ramp_witness:
  "reachable (startGame demo_world GameEngine_constructor) \<and>
   speedIncreaseCount (startGame demo_world GameEngine_constructor) \<le> 4 \<and>
   enemySpeed (startGame demo_world GameEngine_constructor) =
     1 + of_nat (speedIncreaseCount (startGame demo_world GameEngine_constructor)) / 2 \<and>
   1 \<le> enemySpeed (startGame demo_world GameEngine_constructor) \<and>
   enemySpeed (startGame demo_world GameEngine_constructor) \<le> 3"
  using reachable_speed_ramp [of "startGame demo_world GameEngine_constructor"] by simp

text \<open>Claim C7. In every reachable state there are at most three lives, and while the game
  is being played or is paused there is at least one.\<close>

theorem reachable_lives:
  assumes "reachable s"
  shows "lives s \<le> 3 \<and> (gameState s = Playing \<or> gameState s = Paused \<longrightarrow> 0 < lives s)"
  using assms reachable_inv [of s] by (simp add: engine_inv_def inv_misc_def)

theorem reachable_lives_witness:
  "reachable (startGame demo_world GameEngine_constructor) \<and>
   gameState (startGame demo_world GameEngine_constructor) = Playing \<and>
   lives (startGame demo_world GameEngine_constructor) \<le> 3 \<and>
   0 < lives (startGame demo_world GameEngine_constructor)"
  using reachable_lives [of "startGame demo_world GameEngine_constructor"]
  by (simp add: startGame_playing config_or_def)

text \<open>Claim C27. In every reachable state every enemy has the size of the class, 40 by 30,
  and a row of the score table.\<close>

theorem reachable_enemies_wf: "reachable s \<Longrightarrow> list_all wf_enemy (enemies s)"
  by (drule reachable_inv) (simp add: engine_inv_def inv_points_def)

theorem reachable_enemies_wf_witness:
  "reachable (startGame demo_world GameEngine_constructor) \<and>
   list_all wf_enemy (enemies (startGame demo_world GameEngine_constructor))"
  using reachable_enemies_wf [of "startGame demo_world GameEngine_constructor"] by simp

end
