(* ===== verification/Session.thy ===== *)
theory Session
  imports Controls
begin

text \<open>
  The engine seen from outside. \<open>session_step\<close> is the state machine of the session, the
  transitions of \<^verbatim>\<open>gameState\<close> labelled by the events, and \<open>session_run\<close> its runs; the
  handlers of \<open>Controls\<close> refine it. The other sections follow the frame callbacks (how
  many are pending, that one is pending while the game is played, that the game
  cannot outlast its time limit, that the speed ramp ends) and the calls that reach the
  page (the log of effects only grows; the alert style of the timer; the bar of the
  speed ramp in the first frame).
\<close>

section \<open>The session as a state machine\<close>

text \<open>What an event may do to the state of the session, as the handlers are written.
  Starting and restarting are accepted in every state; they and resuming run one frame
  at once, and that frame can end the game. Pausing is ignored in the menu and after
  the end of a game. A frame changes the state only by ending a game that is played.\<close>

inductive session_step :: "game_state \<Rightarrow> event \<Rightarrow> game_state \<Rightarrow> bool" where
  key_down: "session_step g (KeyDown code) g"
| key_up: "session_step g (KeyUp code) g"
| start: "session_step g ClickStart Playing"
| start_ends: "session_step g ClickStart GameOver"
| restart: "session_step g ClickRestart Playing"
| restart_ends: "session_step g ClickRestart GameOver"
| pause: "session_step Playing ClickPause Paused"
| resume: "session_step Paused ClickPause Playing"
| resume_ends: "session_step Paused ClickPause GameOver"
| pause_ignored: "g = Menu \<or> g = GameOver \<Longrightarrow> session_step g ClickPause g"
| exit: "session_step g ClickExit Menu"
| frame: "session_step g (Frame time) g"
| frame_ends: "session_step Playing (Frame time) GameOver"

code_pred session_step .

inductive_cases session_KeyDownE [elim!]: "session_step g (KeyDown code) g'"
inductive_cases session_KeyUpE [elim!]: "session_step g (KeyUp code) g'"
inductive_cases session_StartE [elim!]: "session_step g ClickStart g'"
inductive_cases session_RestartE [elim!]: "session_step g ClickRestart g'"
inductive_cases session_PauseE [elim!]: "session_step g ClickPause g'"
inductive_cases session_ExitE [elim!]: "session_step g ClickExit g'"
inductive_cases session_FrameE [elim!]: "session_step g (Frame time) g'"

inductive_simps session_step_simps:
  "session_step g (KeyDown code) g'" "session_step g (KeyUp code) g'"
  "session_step g ClickStart g'" "session_step g ClickRestart g'"
  "session_step g ClickPause g'" "session_step g ClickExit g'"
  "session_step g (Frame time) g'"

text \<open>The sequences of events along which the machine moves from one state to another.\<close>

inductive session_run :: "game_state \<Rightarrow> event list \<Rightarrow> game_state \<Rightarrow> bool" where
  nil: "session_run g [] g"
| cons: "session_step g e g' \<Longrightarrow> session_run g' es g'' \<Longrightarrow> session_run g (e # es) g''"

lemma animation_frame_gameState:
  "gameState (animation_frame w t s) = gameState s \<or>
   gameState s = Playing \<and> gameState (animation_frame w t s) = GameOver"
  using gameLoop_gameState [of w t "s\<lparr>pendingFrames := tl (pendingFrames s)\<rparr>"]
  by (cases "pendingFrames s") (simp_all add: animation_frame_def)

lemma togglePause_session:
  "session_step (gameState s) ClickPause (gameState (togglePause w s))"
proof -
  let ?r = "startBackgroundMusic (hideOverlay (s\<lparr>gameState := Playing\<rparr>))"
  have "gameState ?r = Playing" by (simp add: engine_defs)
  with gameLoop_gameState [of w 0 ?r]
  have "gameState (gameLoop w 0 ?r) = Playing \<or> gameState (gameLoop w 0 ?r) = GameOver"
    by auto
  then show ?thesis
    by (cases "gameState s") (auto simp: togglePause_gameState session_step_simps)
qed

lemma restart_gameState:
  "gameState (dispatch w ClickRestart s) = Playing \<or>
   gameState (dispatch w ClickRestart s) = GameOver"
  using startGame_gameState [of w s] startGame_gameState [of w "startGame w s"]
  by (simp add: restartGame_def hideOverlay_def)

lemma dispatch_session: "session_step (gameState s) e (gameState (dispatch w e s))"
proof (cases e)
  case ClickStart
  with startGame_gameState [of w s] show ?thesis by (auto simp: session_step_simps)
next
  case ClickRestart
  with restart_gameState [of w s] show ?thesis by (auto simp: session_step_simps)
next
  case ClickPause
  then show ?thesis by (simp add: togglePause_session)
next
  case (Frame t)
  with animation_frame_gameState [of w t s] show ?thesis by (auto simp: session_step_simps)
qed (simp_all add: session_step_simps)

text \<open>Claim C4. The engine refines the state machine of the session: along every
  sequence of events, the state of the session moves by the steps of \<open>session_step\<close>.\<close>

theorem run_refines_session:
  "session_run (gameState s) (map snd es) (gameState (run s es))"
proof (induction s es rule: run.induct)
  case (1 s)
  show ?case by (simp add: session_run.nil)
next
  case (2 s w e es)
  from dispatch_session [of s e w] 2 show ?case
    by (simp add: session_run.cons)
qed

theorem run_refines_session_witness:
  "session_run (gameState GameEngine_constructor)
     (map snd [(demo_world, ClickStart), (demo_world, ClickPause), (demo_world, ClickExit)])
     (gameState (run GameEngine_constructor
        [(demo_world, ClickStart), (demo_world, ClickPause), (demo_world, ClickExit)]))"
  using run_refines_session [of GameEngine_constructor
      "[(demo_world, ClickStart), (demo_world, ClickPause), (demo_world, ClickExit)]"]
  by simp

text \<open>Claim C35. A game that is over stays over until it is started again or left: no
  key, no frame and no click on the pause button changes the state of the session.\<close>

theorem game_over_is_terminal:
  assumes "gameState s = GameOver" "e \<noteq> ClickStart" "e \<noteq> ClickRestart" "e \<noteq> ClickExit"
  shows "gameState (dispatch w e s) = GameOver"
  using dispatch_session [of s e w] assms by (cases e) auto

theorem game_over_is_terminal_witness:
  "gameState (gameOver demo_world demo_state) = GameOver \<and> Frame 16 \<noteq> ClickStart \<and>
   Frame 16 \<noteq> ClickRestart \<and> Frame 16 \<noteq> ClickExit \<and>
   gameState (dispatch demo_world (Frame 16) (gameOver demo_world demo_state)) = GameOver"
  using game_over_is_terminal [of "gameOver demo_world demo_state" "Frame 16" demo_world]
  by simp

text \<open>Claim C34. A frame that arrives while the game is not being played changes nothing
  in the engine: the callback returns at once and asks for no further frame, so the only
  change is that this callback is no longer pending.\<close>

theorem frame_idle:
  assumes "gameState s \<noteq> Playing"
  shows "dispatch w (Frame t) s = s\<lparr>pendingFrames := tl (pendingFrames s)\<rparr>"
  using assms by (cases "pendingFrames s") (simp_all add: animation_frame_def gameLoop_idle)

theorem frame_idle_witness:
  "gameState (gameOver demo_world demo_state) \<noteq> Playing \<and>
   dispatch demo_world (Frame 16) (gameOver demo_world demo_state) =
     (gameOver demo_world demo_state)\<lparr>pendingFrames := tl (pendingFrames (gameOver demo_world demo_state))\<rparr>"
  using frame_idle [of "gameOver demo_world demo_state" demo_world 16] by simp

section \<open>How many loops run\<close>

text \<open>Every pending handle is one running loop: its callback runs a frame and asks for
  the next one. While the game is played a frame event keeps their number.\<close>

lemma frame_keeps_loops:
  assumes "gameState s = Playing" "pendingFrames s \<noteq> []"
  shows "length (pendingFrames (dispatch w (Frame t) s)) = length (pendingFrames s)"
  using assms by (cases "pendingFrames s") (simp_all add: animation_frame_def gameLoop_frames)

lemma is_GameOverShown_simps [simp]:
  "is_GameOverShown (GameOverShown title message sc)"
  by (simp add: is_GameOverShown_def)

lemma gameOver_shown [simp]: "list_ex is_GameOverShown (effects (gameOver w s))"
  by (simp add: effects_gameOver gameOver_effects_def)

text \<open>Claim C15. After the end of a game, one click on the restart button starts the game
  twice, because \<^verbatim>\<open>gameOverOverlay\<close> has installed a second handler on the button beside
  the listener of \<^verbatim>\<open>setupEventListeners\<close>: two frame callbacks are pending afterwards, so
  two loops run and every display frame moves the game twice.\<close>

theorem restart_after_game_over_runs_two_loops:
  assumes "list_ex is_GameOverShown (effects s)"
  shows "pendingFrames (dispatch w ClickRestart s) =
           pendingFrames s @ [Suc (frameRequests s), Suc (Suc (frameRequests s))]"
  using assms by (simp add: restartGame_def hideOverlay_def startGame_pending)

theorem restart_after_game_over_runs_two_loops_witness:
  "list_ex is_GameOverShown (effects (gameOver demo_world demo_state)) \<and>
   pendingFrames (dispatch demo_world ClickRestart (gameOver demo_world demo_state)) =
     pendingFrames (gameOver demo_world demo_state) @
       [Suc (frameRequests (gameOver demo_world demo_state)),
        Suc (Suc (frameRequests (gameOver demo_world demo_state)))]"
  using restart_after_game_over_runs_two_loops [of "gameOver demo_world demo_state" demo_world]
  by simp

section \<open>The loop does not stall\<close>

text \<open>While the game is being played a frame callback is pending.\<close>

definition loop_alive :: "GameEngine \<Rightarrow> bool" where
  "loop_alive s \<longleftrightarrow> gameState s \<noteq> Playing \<or> pendingFrames s \<noteq> []"

lemma gameLoop_alive: "loop_alive (gameLoop w t s)"
  by (cases "gameState s = Playing") (simp_all add: loop_alive_def gameLoop_frames gameLoop_idle)

lemma dispatch_alive: "loop_alive s \<Longrightarrow> loop_alive (dispatch w e s)"
proof (cases e)
  case (KeyDown code)
  assume "loop_alive s"
  then show ?thesis using KeyDown by (simp add: loop_alive_def keydown_def Let_def)
next
  case (KeyUp code)
  assume "loop_alive s"
  then show ?thesis using KeyUp by (simp add: loop_alive_def keyup_def)
next
  case ClickPause
  assume "loop_alive s"
  then show ?thesis using ClickPause gameLoop_alive
    by (auto simp: togglePause_def loop_alive_def engine_defs)
next
  case ClickRestart
  have "loop_alive (hideOverlay t) = loop_alive t" for t
    by (simp add: loop_alive_def hideOverlay_def)
  then show ?thesis using ClickRestart by (simp add: restartGame_def startGame_eq gameLoop_alive)
next
  case (Frame t)
  assume "loop_alive s"
  then show ?thesis using Frame
    by (cases "pendingFrames s") (simp_all add: animation_frame_def gameLoop_alive)
next
  case ClickStart
  then show ?thesis by (simp add: startGame_eq gameLoop_alive)
next
  case ClickExit
  then show ?thesis by (simp add: loop_alive_def)
qed

lemma reachable_alive: "reachable s \<Longrightarrow> loop_alive s"
proof (induction rule: reachable.induct)
  case init
  show ?case by (simp add: loop_alive_def)
next
  case (step s w e)
  then show ?case by (simp add: dispatch_alive)
qed

text \<open>Claim C13. A game that is being played cannot outlast its time limit: in every
  reachable state of a played game a frame callback is pending, and the frame that
  runs when the limit has passed on the clock ends the game.\<close>

theorem game_ends_by_time:
  assumes "reachable s" "gameState s = Playing"
    and "gameTimeLimit s \<le> Date_now w - gameStartTime s"
  shows "pendingFrames s \<noteq> [] \<and> gameState (dispatch w (Frame t) s) = GameOver"
proof -
  from assms(1,2) reachable_alive [of s] obtain h hs where p: "pendingFrames s = h # hs"
    by (cases "pendingFrames s") (auto simp: loop_alive_def)
  let ?u = "update w (t - lastTime s) (s\<lparr>pendingFrames := hs, lastTime := t\<rparr>)"
  have "gameState ?u = GameOver"
    using assms(2,3) before_checks_gameState [of w "t - lastTime s" "s\<lparr>pendingFrames := hs, lastTime := t\<rparr>"]
    by (auto simp: update_eq checkTimer_gameState)
  with p assms(2) show ?thesis by (simp add: animation_frame_def gameLoop_playing)
qed

lemma startGame_clock:
  "gameTimeLimit (startGame w s) = config_or w gameTime 5 * 60 * 1000"
  "gameStartTime (startGame w s) = Date_now w"
  by (simp_all add: startGame_eq gameLoop_playing)

theorem game_ends_by_time_witness:
  "reachable (startGame demo_world GameEngine_constructor) \<and>
   gameState (startGame demo_world GameEngine_constructor) = Playing \<and>
   gameTimeLimit (startGame demo_world GameEngine_constructor) \<le>
     Date_now (demo_world\<lparr>Date_now := 300000\<rparr>) -
       gameStartTime (startGame demo_world GameEngine_constructor) \<and>
   pendingFrames (startGame demo_world GameEngine_constructor) \<noteq> [] \<and>
   gameState (dispatch (demo_world\<lparr>Date_now := 300000\<rparr>) (Frame 16)
     (startGame demo_world GameEngine_constructor)) = GameOver"
  using game_ends_by_time [of "startGame demo_world GameEngine_constructor"
      "demo_world\<lparr>Date_now := 300000\<rparr>" 16]
  by (simp add: startGame_playing startGame_clock config_or_def demo_world_def)

section \<open>The speed ramp ends\<close>

text \<open>The number of raises of the speed that a session has left.\<close>

definition ramp_left :: "GameEngine \<Rightarrow> nat" where
  "ramp_left s = maxSpeedIncreases s - speedIncreaseCount s"

lemma frame_ramp:
  assumes "gameState s = Playing" "pendingFrames s \<noteq> []"
  shows "enemySpeed (animation_frame w t s) = enemySpeed (speedIncrease (t - lastTime s) s)"
    and "speedIncreaseCount (animation_frame w t s) =
           speedIncreaseCount (speedIncrease (t - lastTime s) s)"
    and "maxSpeedIncreases (animation_frame w t s) = maxSpeedIncreases s"
  using assms
  by (cases "pendingFrames s",
      simp_all add: animation_frame_def gameLoop_playing update_ramp speedIncrease_def Let_def)+

lemma frame_speed_idle:
  "gameState s \<noteq> Playing \<or> pendingFrames s = [] \<Longrightarrow>
     enemySpeed (animation_frame w t s) = enemySpeed s"
  by (cases "pendingFrames s") (auto simp: animation_frame_def gameLoop_idle)

text \<open>Claim C24. The speed ramp ends: a frame that changes the enemy speed raises it by one
  half and uses up one of the raises that the session has left, of which there are four
  at the start of a game.\<close>

theorem speed_ramp_terminates:
  assumes "enemySpeed (dispatch w (Frame t) s) \<noteq> enemySpeed s"
  shows "enemySpeed (dispatch w (Frame t) s) = enemySpeed s + 1 / 2 \<and>
         ramp_left (dispatch w (Frame t) s) < ramp_left s"
proof -
  from assms frame_speed_idle [of s w t]
  have p: "gameState s = Playing" "pendingFrames s \<noteq> []" by auto
  have "ramp_due (t - lastTime s) s"
  proof (rule ccontr)
    assume "\<not> ramp_due (t - lastTime s) s"
    with assms show False by (simp add: frame_ramp(1) [OF p] speedIncrease_not_due(1))
  qed
  then have "speedIncreaseCount s < maxSpeedIncreases s"
    "enemySpeed (speedIncrease (t - lastTime s) s) = enemySpeed s + 1 / 2"
    "speedIncreaseCount (speedIncrease (t - lastTime s) s) = Suc (speedIncreaseCount s)"
    by (simp_all add: speedIncrease_due) (simp add: ramp_due_def)
  then show ?thesis by (simp add: frame_ramp [OF p] ramp_left_def)
qed

lemma demo_ramp:
  "enemySpeed (animation_frame demo_world 16
      (demo_state\<lparr>speedIncreaseTimer := 4990, pendingFrames := [1]\<rparr>)) = 3 / 2"
  by (simp add: frame_ramp(1) speedIncrease_def Let_def)

theorem speed_ramp_terminates_witness:
  "enemySpeed (dispatch demo_world (Frame 16)
      (demo_state\<lparr>speedIncreaseTimer := 4990, pendingFrames := [1]\<rparr>)) \<noteq>
     enemySpeed (demo_state\<lparr>speedIncreaseTimer := 4990, pendingFrames := [1]\<rparr>) \<and>
   enemySpeed (dispatch demo_world (Frame 16)
      (demo_state\<lparr>speedIncreaseTimer := 4990, pendingFrames := [1]\<rparr>)) =
     enemySpeed (demo_state\<lparr>speedIncreaseTimer := 4990, pendingFrames := [1]\<rparr>) + 1 / 2 \<and>
   ramp_left (dispatch demo_world (Frame 16)
      (demo_state\<lparr>speedIncreaseTimer := 4990, pendingFrames := [1]\<rparr>)) <
     ramp_left (demo_state\<lparr>speedIncreaseTimer := 4990, pendingFrames := [1]\<rparr>)"
  using speed_ramp_terminates [of demo_world 16
      "demo_state\<lparr>speedIncreaseTimer := 4990, pendingFrames := [1]\<rparr>"] demo_ramp
  by simp

section \<open>What the player sees\<close>

lemma start_state_logs: "logs_more s (start_state w s)"
  by (rule logs_more_append) (rule start_state_objects)

lemma startGame_logs: "logs_more s (startGame w s)"
  unfolding startGame_eq by (rule logs_more_trans [OF start_state_logs gameLoop_logs])

lemma togglePause_logs: "logs_more s (togglePause w s)"
proof -
  let ?r = "startBackgroundMusic (hideOverlay (s\<lparr>gameState := Playing\<rparr>))"
  have "logs_more s ?r" by (simp add: logs_more_def engine_defs)
  then have "logs_more s (gameLoop w 0 ?r)" by (rule logs_more_trans [OF _ gameLoop_logs])
  then show ?thesis by (simp add: togglePause_def) (simp add: logs_more_def engine_defs)
qed

lemma dispatch_logs: "logs_more s (dispatch w e s)"
proof (cases e)
  case (KeyDown code)
  then show ?thesis by (simp add: keydown_def Let_def logs_more_def)
next
  case (KeyUp code)
  then show ?thesis by (simp add: keyup_def logs_more_def)
next
  case ClickStart
  then show ?thesis by (simp add: startGame_logs)
next
  case ClickPause
  then show ?thesis by (simp add: togglePause_logs)
next
  case ClickRestart
  have "logs_more s (startGame w (startGame w s))"
    by (rule logs_more_trans [OF startGame_logs startGame_logs])
  then show ?thesis
    using ClickRestart by (simp add: restartGame_def startGame_logs hideOverlay_def logs_more_then_emit)
next
  case ClickExit
  then show ?thesis by (simp add: logs_more_def)
next
  case (Frame t)
  have "logs_more s (gameLoop w t (s\<lparr>pendingFrames := hs\<rparr>))" for hs
    by (rule logs_more_trans [OF _ gameLoop_logs]) (simp add: logs_more_same)
  then show ?thesis using Frame by (cases "pendingFrames s") (simp_all add: animation_frame_def)
qed

lemma run_logs: "logs_more s (run s es)"
proof (induction s es rule: run.induct)
  case (2 s w e es)
  from logs_more_trans [OF dispatch_logs 2] show ?case by simp
qed simp

text \<open>Claim C23. The timer is shown in its alert style in every reachable state: the
  constructor calls \<^verbatim>\<open>updateUI\<close> while the remaining time is still zero, which sets the
  alert colour and weight of the element, and no code resets them.\<close>

theorem timer_always_alert: "reachable s \<Longrightarrow> timer_alert s"
proof (induction rule: reachable.induct)
  case init
  show ?case by simp
next
  case (step s w e)
  with dispatch_logs [of s w e] show ?case by (simp add: timer_alert_logs_more)
qed

theorem timer_always_alert_witness:
  "reachable (startGame demo_world GameEngine_constructor) \<and>
   timer_alert (startGame demo_world GameEngine_constructor)"
  using timer_always_alert [of "startGame demo_world GameEngine_constructor"] by simp

text \<open>The first frame of a game is computed with the time stamp zero, so its time step
  is the negative of the time since the page was loaded, and the timer of the speed
  ramp starts below zero.\<close>

lemma startGame_ramp_timer:
  "0 \<le> performance_now w \<Longrightarrow> speedIncreaseTimer (startGame w s) = - performance_now w"
  by (simp add: startGame_eq gameLoop_ramp speedIncrease_def Let_def)

text \<open>Claim C30. The frame that \<^verbatim>\<open>startGame\<close> draws shows the bar of the speed ramp longer than
  its frame of 200 pixels, by one pixel for every 25 ms that have passed since the page
  was loaded, because the first time step is negative.\<close>

theorem first_frame_bar_overflows:
  assumes "0 < performance_now w"
  shows "\<exists>cmds. Rendered cmds \<in> set (effects (startGame w s)) \<and>
           last cmds = FillRect (Some ((canvas_width w - 200) / 2)) (Some 40)
                         (200 + performance_now w / 25) 10"
proof -
  let ?u = "update w (0 - lastTime (start_state w s)) ((start_state w s)\<lparr>lastTime := 0\<rparr>)"
  have "speedIncreaseTimer ?u = - performance_now w"
    using assms by (simp add: update_ramp speedIncrease_def Let_def)
  then have "bar_fill ?u = 200 + performance_now w / 25"
    using assms by (simp add: bar_fill_def max_def)
  then have "last (frame_commands w ?u) =
      FillRect (Some ((canvas_width w - 200) / 2)) (Some 40) (200 + performance_now w / 25) 10"
    by (simp add: last_frame_commands last_drawSpeedTimer)
  moreover have "Rendered (frame_commands w ?u) \<in> set (effects (startGame w s))"
    by (simp add: startGame_eq effects_gameLoop effects_render)
  ultimately show ?thesis by blast
qed

theorem first_frame_bar_overflows_witness:
  "0 < performance_now (demo_world\<lparr>performance_now := 2500\<rparr>) \<and>
   (\<exists>cmds. Rendered cmds \<in> set (effects (startGame (demo_world\<lparr>performance_now := 2500\<rparr>)
                GameEngine_constructor)) \<and>
      last cmds = FillRect (Some ((canvas_width (demo_world\<lparr>performance_now := 2500\<rparr>) - 200) / 2))
                    (Some 40) (200 + performance_now (demo_world\<lparr>performance_now := 2500\<rparr>) / 25) 10)"
  using first_frame_bar_overflows [of "demo_world\<lparr>performance_now := 2500\<rparr>" GameEngine_constructor]
  by simp

end
