(* ===== verification/Spec2Isabelle.thy ===== *)
theory Spec2Isabelle
  imports Session
begin

text \<open>
  A verification development for the arcade shooter of \<^verbatim>\<open>src/game.js\<close>.

  \<^bold>\<open>The program.\<close> One class, \<^verbatim>\<open>GameEngine\<close>, holds the whole game: the state of the
  session (\<^verbatim>\<open>gameState\<close>, score, lives, timers), the player, the formation of enemies, the
  bullets of both sides and the particles of the explosions. The browser drives it: the
  buttons call \<^verbatim>\<open>startGame\<close>, \<^verbatim>\<open>togglePause\<close>, \<^verbatim>\<open>restartGame\<close> and \<^verbatim>\<open>stopGame\<close>, the keyboard
  sets \<^verbatim>\<open>keys\<close> and calls \<^verbatim>\<open>playerShoot\<close>, and \<^verbatim>\<open>requestAnimationFrame\<close> calls \<^verbatim>\<open>gameLoop\<close>, which
  runs \<^verbatim>\<open>update\<close> and \<^verbatim>\<open>render\<close> and asks for the next frame. Five small classes (\<^verbatim>\<open>Player\<close>,
  \<^verbatim>\<open>Enemy\<close>, \<^verbatim>\<open>PlayerBullet\<close>, \<^verbatim>\<open>EnemyBullet\<close>, \<^verbatim>\<open>Particle\<close>) hold a position and a size and
  have an \<^verbatim>\<open>update\<close> and a \<^verbatim>\<open>draw\<close> method.

  \<^bold>\<open>The model.\<close> Every method is a function from the state before to the state after,
  under the name it has in the source. What a method reads from outside the engine is
  an argument of type \<open>world\<close>: the size of the canvas, \<^verbatim>\<open>window.appController\<close>, the
  results of \<^verbatim>\<open>Math.random()\<close> by call number, \<^verbatim>\<open>Date.now()\<close>, \<^verbatim>\<open>performance.now()\<close> and whether
  the background image has been loaded. What it does outside the engine is appended to
  the list \<open>effects\<close> of the state: sounds, overlays, the texts of the page and the list
  of canvas calls of each frame. Numbers are rationals, so the arithmetic of the source
  is exact in the model; \<^verbatim>\<open>NaN\<close> is \<open>None\<close> where the source can produce it (the score, the
  coordinates of a star).

  \<^bold>\<open>The theories\<close>, in the order of their imports:

  \<^item> \<open>JS_Prelude\<close>: arrays as lists. \<open>splice1\<close> is \<^verbatim>\<open>splice(i, 1)\<close>; \<open>forEach\<close> is
    \<^verbatim>\<open>Array.prototype.forEach\<close> over an array that the callback may change (the indices
    run up to the length at the start and an index beyond the present end is skipped);
    \<open>for_down\<close> is the counting-down \<^verbatim>\<open>for\<close> loop and \<open>find_last_index\<close> the loop with
    \<^verbatim>\<open>break\<close>. \<open>sweep\<close> is the list recursion that a \<^verbatim>\<open>forEach\<close> with removal of the current
    element computes, and \<open>forEach_sweep\<close> proves it for any such loop; invariant rules
    for the three loops carry the proofs about them.
  \<^item> \<open>JS_Numbers\<close>: the remainder \<^verbatim>\<open>%\<close>, \<^verbatim>\<open>Number.prototype.toString\<close> for integers,
    \<^verbatim>\<open>padStart\<close>, and the reading of a decimal text, which inverts the printing.
  \<^item> \<open>Entities\<close>: the five classes as one extensible record, their constructors and
    \<^verbatim>\<open>update\<close> methods, and \<^verbatim>\<open>checkCollision\<close>. Shown: the clamp of \<^verbatim>\<open>Player.update\<close>, and that
    \<^verbatim>\<open>checkCollision\<close> is the overlap of open rectangles.
  \<^item> \<open>Display\<close>: canvas calls as the datatype \<open>draw_command\<close>, the \<^verbatim>\<open>draw\<close> methods of the
    classes, the name of the shoot key of \<^verbatim>\<open>updateInstructions\<close> and the timer text of
    \<^verbatim>\<open>updateUI\<close>. Shown: the timer text of a time that is not negative reads back as its
    full seconds; after zero it is \<^verbatim>\<open>-1:-1\<close>.
  \<^item> \<open>Engine\<close>: the record \<open>GameEngine\<close> (the fields of the class and four fields for the
    environment: \<open>randomCalls\<close>, \<open>effects\<close>, \<open>frameRequests\<close>, \<open>pendingFrames\<close>), the
    constructor with \<^verbatim>\<open>init\<close>, the side-channel methods, \<^verbatim>\<open>initializePlayer\<close>,
    \<^verbatim>\<open>createExplosion\<close>, \<^verbatim>\<open>gameOverOverlay\<close> and \<^verbatim>\<open>gameOver\<close>. Shown: which fields each
    leaves alone (\<open>same_but_effects\<close>, \<open>timing\<close>) and that effects are only added
    (\<open>logs_more\<close>).
  \<^item> \<open>Formation\<close>: \<^verbatim>\<open>initializeEnemies\<close> and \<^verbatim>\<open>updateEnemies\<close>. Shown: the grid of twenty
    enemies, and the single reversal with a drop of 20 when a side is reached.
  \<^item> \<open>Scenarios\<close>: the concrete world and states at which theorems are instantiated.
  \<^item> \<open>Bullets\<close>: \<^verbatim>\<open>playerShoot\<close> and \<^verbatim>\<open>updateBullets\<close> with its two loops, each with the
    removals of the source. Shown: the limit of three bullets, the conservation of score
    plus remaining points, that lives never grow and reaching zero ends the game, the
    equivalence of the enemy-bullet loop with \<open>sweep\<close>, and three defects: the bullet
    after a removed one is skipped, lives can become negative, the score can be
    reported twice.
  \<^item> \<open>Render\<close>: \<^verbatim>\<open>render\<close>, \<^verbatim>\<open>drawStars\<close> and \<^verbatim>\<open>drawSpeedTimer\<close>. Shown: the stars lie inside
    the canvas, the bar of the speed ramp fits its frame exactly when the timer of the
    ramp is not negative, and the label of an enemy is not the points it gives.
  \<^item> \<open>Game_Loop\<close>: the steps of \<^verbatim>\<open>update\<close> in the order of the source (player, enemies,
    bullets, particles, \<^verbatim>\<open>enemyShoot\<close>, speed ramp, timer, victory), \<^verbatim>\<open>update\<close> and
    \<^verbatim>\<open>gameLoop\<close>. Shown: the rate limit and the choice of \<^verbatim>\<open>enemyShoot\<close>, the end of a game
    by time and by victory, the particle loop as a \<open>sweep\<close>, and that a frame preserves
    the invariant \<open>engine_inv\<close>.
  \<^item> \<open>Controls\<close>: \<^verbatim>\<open>startGame\<close>, \<^verbatim>\<open>restartGame\<close>, \<^verbatim>\<open>togglePause\<close>, \<^verbatim>\<open>stopGame\<close>, the listeners of
    \<^verbatim>\<open>setupEventListeners\<close>, the datatype \<open>event\<close> with \<open>dispatch\<close> and \<open>run\<close>, and the
    inductive set \<open>reachable\<close>. Shown by rule induction: \<open>engine_inv\<close> in every reachable
    state, and from it the bounds on bullets, score, lives, speed and enemies.
  \<^item> \<open>Session\<close>: the state machine \<open>session_step\<close> of the session, which the handlers
    refine; the pending frame callbacks (a restart after a game over leaves two loops
    running); that a played game always has a frame pending and ends once the time
    limit has passed; that the speed ramp ends; the alert style of the timer and the
    bar of the ramp in the first frame.

  \<^bold>\<open>Assumptions of the model.\<close>
  \<^item> One call of a handler reads each clock once: \<^verbatim>\<open>update\<close> calls \<^verbatim>\<open>Date.now()\<close> in
    \<^verbatim>\<open>enemyShoot\<close> and again for the timer, and the model gives both the same value.
  \<^item> The theorems that need random numbers in \<open>[0, 1)\<close> say so (\<open>wf_world\<close>); the others
    hold for every sequence of numbers.
  \<^item> \<^verbatim>\<open>requestAnimationFrame\<close> returns the number of its call as the handle, and a frame
    event runs the oldest callback that is pending. The browser runs all pending
    callbacks of a display frame; in the model these are as many frame events.
  \<^item> The click on the restart button runs the listener of \<^verbatim>\<open>setupEventListeners\<close> and
    then, once \<^verbatim>\<open>gameOverOverlay\<close> has installed it, the \<^verbatim>\<open>onclick\<close> handler.
  \<^item> The elements of the page that the code looks up exist; a failing \<^verbatim>\<open>audio.play()\<close>
    is caught by the source and has no effect on the state, and none in the model.
  \<^item> No loop of the model needs fuel: the loops of the source run over an index range
    that is fixed when they start, and are structural recursions here. The only
    recursion that is not structural, \<open>string_of_nat\<close>, has its termination proof.

  \<^bold>\<open>Not modelled.\<close> The lines after the classes, which create the one engine when the
  game screen becomes active (\<^verbatim>\<open>initializeGame\<close>, the \<^verbatim>\<open>MutationObserver\<close>), are wiring of
  the page with no state of the game. Of the canvas only the calls are modelled, not
  the pixels they produce. The \<^verbatim>\<open>Audio\<close> objects are their play and pause calls. The
  records table of the game-over overlay and the name of the player, which
  \<^verbatim>\<open>gameOverOverlay\<close> reads from the controller, are the controller's and appear as the
  effects \<open>GameFinished\<close> and \<open>RecordsTableUpdated\<close>.
\<close>

end
